theory Spec2Isabelle
  imports Main
begin

section \<open>Python values of the client\<close>

text \<open>
  The session class \<^verbatim>\<open>Zindian\<close> of \<^verbatim>\<open>zindi/user.py\<close> works on decoded JSON: every
  response is \<^verbatim>\<open>response.json()["data"]\<close>, a Python value built from \<^verbatim>\<open>None\<close>, booleans,
  integers, strings, lists and dictionaries. A dictionary is an association list in
  insertion order. JSON numbers with a fractional part (scores) are carried by the service
  but never inspected by \<^verbatim>\<open>user.py\<close>; they are not represented.
\<close>

datatype json =
    JNull
  | JBool bool
  | JInt int
  | JStr string
  | JList "json list"
  | JObj "(string \<times> json) list"

text \<open>What is printed, and what an \<^verbatim>\<open>Exception\<close> carries. The texts of the source start
  with a red or green marker and interpolate values; one constructor stands for one text of
  the source, with the interpolated values as arguments.\<close>

datatype message =
    Not_yet_selected
    \<comment> \<open>red: "You have not yet selected any challenge."\<close>
  | Currently_enrolled json json
    \<comment> \<open>green: "You are currently enrolled in : {id} challenge, {subtitle}."\<close>
  | Errors json
    \<comment> \<open>red: the \<^verbatim>\<open>errors\<close> value of a response, interpolated as it is\<close>
  | Rank_on_leaderboard string json
    \<comment> \<open>green: "You are {rank} on the leaderboad of {id} challenge, Go on..."\<close>
  | Remaining json json
    \<comment> \<open>green: "You have {free_submissions} remaining submissions for the challenge {id}."\<close>
  | Challenge_not_found string
    \<comment> \<open>red: "Challenge '{challenge_id}' not found."\<close>
  | You_choose json json
    \<comment> \<open>green: "You choose the challenge : {id}, {subtitle}"\<close>
  | No_challenges_found
    \<comment> \<open>red: "No challenges found matching your criteria."\<close>
  | Fixed_index_range int
    \<comment> \<open>red: "The parameter 'fixed_index' must be an integer in range(0, {n_challenges})."\<close>
  | Select_before string
    \<comment> \<open>red: "You have to select a challenge before to {...}, use the select_a_challenge
        method before."\<close>
  | Something_wrong string json
    \<comment> \<open>red: "Something wrong with file :{filepath} , {errors}"\<close>
  | File_submitted json string
    \<comment> \<open>green: "Submission ID: {id} - File submitted : {filepath}"\<close>
  | File_doesnt_exist string
    \<comment> \<open>red: "File doesn't exists, please verify this filepath : {filepath}"\<close>
  | Must_be_csv string
    \<comment> \<open>red: "Submission file must be a CSV file ( .csv ), please verify this filepath :
        {filepath}"\<close>
  | Already_leader
    \<comment> \<open>green: "You are already the leader of a team."\<close>
  | Team_created json
    \<comment> \<open>green: "Your team is well created as :{title}"\<close>
  | Teamup_hint
    \<comment> \<open>"You can send invitation to join your team using teamup function"\<close>
  | Already_invited string
    \<comment> \<open>green: "An invitation has been sent already to join your team to: {zindian}"\<close>
  | Invitation_sent string
    \<comment> \<open>green: "An invitation has been sent to join your team to: {zindian}"\<close>
  | Response_text json
    \<comment> \<open>green: the decoded response itself\<close>
  | Response_object
    \<comment> \<open>\<^verbatim>\<open>print(response)\<close> of \<^verbatim>\<open>submission_board\<close>: the response object\<close>

text \<open>Exceptions as values. \<^verbatim>\<open>Exception\<close> is what \<^verbatim>\<open>user.py\<close> raises itself; the next ones
  are raised by the Python operations it uses; \<open>External\<close> is a failure of a request or of
  a helper. \<open>Unmodelled\<close> marks the one thing the model does not compute: \<^verbatim>\<open>str\<close> of a list
  or dictionary inside a URL.\<close>

datatype py_error =
    Exception message
  | KeyError string
  | TypeError
  | AttributeError string
  | IndexError
  | FileExistsError string
  | FileNotFoundError
  | NotADirectoryError string
  | External string
  | Unmodelled string

subsection \<open>Operators of Python on these values\<close>

fun truthy :: "json \<Rightarrow> bool" where
  "truthy JNull = False"
| "truthy (JBool b) = b"
| "truthy (JInt i) = (i \<noteq> 0)"
| "truthy (JStr s) = (s \<noteq> [])"
| "truthy (JList xs) = (xs \<noteq> [])"
| "truthy (JObj d) = (d \<noteq> [])"

text \<open>\<^verbatim>\<open>a or b\<close>\<close>

definition py_or :: "json \<Rightarrow> json \<Rightarrow> json" where
  "py_or a b = (if truthy a then a else b)"

text \<open>\<^verbatim>\<open>==\<close>: a boolean equals the integer 0 or 1, dictionaries compare without regard to
  the order of their keys.\<close>

fun py_eq :: "json \<Rightarrow> json \<Rightarrow> bool"
  and py_eq_list :: "json list \<Rightarrow> json list \<Rightarrow> bool"
  and py_eq_items :: "(string \<times> json) list \<Rightarrow> (string \<times> json) list \<Rightarrow> bool" where
  "py_eq JNull b = (b = JNull)"
| "py_eq (JBool a) b = (case b of JBool c \<Rightarrow> a = c | JInt j \<Rightarrow> j = (if a then 1 else 0) | _ \<Rightarrow> False)"
| "py_eq (JInt i) b = (case b of JInt j \<Rightarrow> i = j | JBool c \<Rightarrow> i = (if c then 1 else 0) | _ \<Rightarrow> False)"
| "py_eq (JStr s) b = (b = JStr s)"
| "py_eq (JList xs) b = (case b of JList ys \<Rightarrow> py_eq_list xs ys | _ \<Rightarrow> False)"
| "py_eq (JObj d) b =
     (case b of JObj e \<Rightarrow> length d = length e \<and> py_eq_items d e | _ \<Rightarrow> False)"
| "py_eq_list [] ys = (ys = [])"
| "py_eq_list (x # xs) ys = (case ys of [] \<Rightarrow> False | y # ys' \<Rightarrow> py_eq x y \<and> py_eq_list xs ys')"
| "py_eq_items [] e = True"
| "py_eq_items ((k, v) # d) e =
     (case map_of e k of None \<Rightarrow> False | Some v' \<Rightarrow> py_eq v v' \<and> py_eq_items d e)"

text \<open>Substring test on strings, \<^verbatim>\<open>a in b\<close> for two \<^verbatim>\<open>str\<close>.\<close>

fun starts_with :: "string \<Rightarrow> string \<Rightarrow> bool" where
  "starts_with [] t = True"
| "starts_with (c # s) [] = False"
| "starts_with (c # s) (d # t) = (c = d \<and> starts_with s t)"

fun contains :: "string \<Rightarrow> string \<Rightarrow> bool" where
  "contains s [] = (s = [])"
| "contains s (d # t) = (starts_with s (d # t) \<or> contains s t)"

text \<open>\<^verbatim>\<open>"key" in value\<close> with a string on the left: a key of a dictionary, an element of a
  list, a substring of a string; any other right-hand side is not iterable.\<close>

fun py_in :: "string \<Rightarrow> json \<Rightarrow> py_error + bool" where
  "py_in k (JObj d) = Inr (k \<in> set (map fst d))"
| "py_in k (JList xs) = Inr (list_ex (py_eq (JStr k)) xs)"
| "py_in k (JStr s) = Inr (contains k s)"
| "py_in k _ = Inl TypeError"

text \<open>\<^verbatim>\<open>value["key"]\<close> with a string key.\<close>

fun getitem :: "json \<Rightarrow> string \<Rightarrow> py_error + json" where
  "getitem (JObj d) k = (case map_of d k of None \<Rightarrow> Inl (KeyError k) | Some v \<Rightarrow> Inr v)"
| "getitem _ k = Inl TypeError"

text \<open>\<^verbatim>\<open>value.get("key", default)\<close>\<close>

fun py_get :: "json \<Rightarrow> string \<Rightarrow> json \<Rightarrow> py_error + json" where
  "py_get (JObj d) k dflt = (case map_of d k of None \<Rightarrow> Inr dflt | Some v \<Rightarrow> Inr v)"
| "py_get _ k dflt = Inl (AttributeError ''get'')"

text \<open>\<^verbatim>\<open>{**d, k: v}\<close>: a present key keeps its place and takes the new value, a new key goes
  last.\<close>

fun dict_set :: "(string \<times> json) list \<Rightarrow> string \<Rightarrow> json \<Rightarrow> (string \<times> json) list" where
  "dict_set [] k v = [(k, v)]"
| "dict_set ((k', v') # d) k v = (if k' = k then (k, v) # d else (k', v') # dict_set d k v)"

text \<open>\<^verbatim>\<open>str\<close> of an integer: decimal digits, a minus sign for a negative one.\<close>

definition digit_char :: "nat \<Rightarrow> char" where
  "digit_char d = ''0123456789'' ! d"

function str_nat :: "nat \<Rightarrow> string" where
  "str_nat n = (if n < 10 then [digit_char n] else str_nat (n div 10) @ [digit_char (n mod 10)])"
  by pat_completeness auto
termination
  by (relation "measure id") auto

declare str_nat.simps [simp del]

definition str_int :: "int \<Rightarrow> string" where
  "str_int i = (if i < 0 then CHR ''-'' # str_nat (nat (- i)) else str_nat (nat i))"

text \<open>\<^verbatim>\<open>str\<close> as an f-string applies it, on the scalars.\<close>

fun py_str :: "json \<Rightarrow> py_error + string" where
  "py_str JNull = Inr ''None''"
| "py_str (JBool b) = Inr (if b then ''True'' else ''False'')"
| "py_str (JInt i) = Inr (str_int i)"
| "py_str (JStr s) = Inr s"
| "py_str _ = Inl (Unmodelled ''str of a container'')"

section \<open>The session object and its surroundings\<close>

text \<open>
  A call that leaves \<^verbatim>\<open>user.py\<close>: a request of the \<^verbatim>\<open>requests\<close> library together with the
  decoding of its answer, or a helper of \<^verbatim>\<open>zindi.utils\<close> (\<^verbatim>\<open>get_challenges\<close>, \<^verbatim>\<open>download\<close>,
  \<^verbatim>\<open>upload\<close>, ...), with its arguments.
\<close>

datatype http_method = GET | POST | DELETE

datatype call =
    Http http_method string json
    \<comment> \<open>\<^verbatim>\<open>requests.get/post/delete(url, **kwargs)\<close>: the URL, then the keyword arguments\<close>
  | Helper string json
    \<comment> \<open>a function of \<^verbatim>\<open>zindi.utils\<close>: its name, then its keyword arguments\<close>

text \<open>
  The state: the private attributes of the \<^verbatim>\<open>Zindian\<close> object (an attribute that is not
  assigned yet is \<open>None\<close>), the calls made so far, the printed messages, the file system,
  and the Python list objects by address (the \<^verbatim>\<open>comments\<close> argument of \<^verbatim>\<open>submit\<close> is such an
  object, and so is its default value). Of the file system the state has the paths that are
  directories, the paths that are regular files, and the answer of the operating system to
  the making of a directory at a path that no regular file stands in the way of: \<open>None\<close>
  when it makes the directory, or the exception (no permission, a read-only file system,
  ...).
\<close>

record state =
  headers :: "(string \<times> json) list"
  base_api :: string
  auth_data :: json
  challenge_selected :: bool
  challenge_data :: "json option"
  api :: "string option"
  rank :: "json option"
  challengers_data :: "json option"
  sb_data :: "json option"
  calls :: "call list"
  out :: "message list"
  dirs :: "string list"
  files :: "string list"
  mkdir_error :: "string \<Rightarrow> py_error option"
  lists :: "nat \<Rightarrow> string list"

text \<open>What the surroundings answer to a call, given the calls made before it: the decoded
  body of a response or the value a helper returns, or the exception it raises.\<close>

type_synonym env = "call list \<Rightarrow> call \<Rightarrow> py_error + json"

type_synonym 'a action = "state \<Rightarrow> (py_error + 'a) \<times> state"

definition py_return :: "'a \<Rightarrow> 'a action" where
  "py_return x s = (Inr x, s)"

definition py_raise :: "py_error \<Rightarrow> 'a action" where
  "py_raise e s = (Inl e, s)"

definition lift :: "py_error + 'a \<Rightarrow> 'a action" where
  "lift r s = (r, s)"

text \<open>Sequencing: an exception ends the run, and the state reached so far stays.\<close>

definition bind :: "'a action \<Rightarrow> ('a \<Rightarrow> 'b action) \<Rightarrow> 'b action" where
  "bind m f s = (case m s of (Inl e, s') \<Rightarrow> (Inl e, s') | (Inr x, s') \<Rightarrow> f x s')"

definition read :: "(state \<Rightarrow> 'a) \<Rightarrow> 'a action" where
  "read f s = (Inr (f s), s)"

definition modify :: "(state \<Rightarrow> state) \<Rightarrow> unit action" where
  "modify h s = (Inr (), h s)"

definition py_print :: "message \<Rightarrow> unit action" where
  "py_print m = modify (\<lambda>s. s\<lparr>out := out s @ [m]\<rparr>)"

text \<open>A call is recorded and answered by the surroundings. An exception of the call stands
  for a request or helper that failed; a body that was received is taken to decode.\<close>

definition do_call :: "env \<Rightarrow> call \<Rightarrow> json action" where
  "do_call env c s = (env (calls s) c, s\<lparr>calls := calls s @ [c]\<rparr>)"

text \<open>Reading an attribute, which raises when it was never assigned.\<close>

definition get_attr :: "string \<Rightarrow> (state \<Rightarrow> 'a option) \<Rightarrow> 'a action" where
  "get_attr name f =
     bind (read f) (\<lambda>v. case v of None \<Rightarrow> py_raise (AttributeError name) | Some x \<Rightarrow> py_return x)"

text \<open>\<^verbatim>\<open>self.__auth_data["auth_token"]\<close>\<close>

definition auth_token :: "json action" where
  "auth_token = bind (read auth_data) (\<lambda>a. lift (getitem a ''auth_token''))"

text \<open>\<^verbatim>\<open>self.__challenge_data["id"]\<close>\<close>

definition challenge_id_of :: "json action" where
  "challenge_id_of =
     bind (get_attr ''__challenge_data'' challenge_data) (\<lambda>cd. lift (getitem cd ''id''))"

text \<open>\<^verbatim>\<open>response.json()["data"]\<close> of a request.\<close>

definition request_data :: "env \<Rightarrow> http_method \<Rightarrow> string \<Rightarrow> (string \<times> json) list \<Rightarrow> json action" where
  "request_data env m url kwargs =
     bind (do_call env (Http m url (JObj kwargs))) (\<lambda>response. lift (getitem response ''data''))"

text \<open>\<^verbatim>\<open>raise Exception(f"{response['errors']}")\<close>\<close>

definition raise_errors :: "json \<Rightarrow> 'a action" where
  "raise_errors response =
     bind (lift (getitem response ''errors'')) (\<lambda>errs. py_raise (Exception (Errors errs)))"

text \<open>A \<^verbatim>\<open>for\<close> loop over a list; an exception in the body ends it.\<close>

primrec for_each :: "('a \<Rightarrow> unit action) \<Rightarrow> 'a list \<Rightarrow> unit action" where
  "for_each body [] = py_return ()"
| "for_each body (x # xs) = bind (body x) (\<lambda>_. for_each body xs)"

text \<open>What a \<^verbatim>\<open>for\<close> loop iterates over: the elements of a list, the keys of a dictionary,
  the characters of a string.\<close>

fun py_iter :: "json \<Rightarrow> py_error + json list" where
  "py_iter (JList xs) = Inr xs"
| "py_iter (JObj d) = Inr (map (\<lambda>kv. JStr (fst kv)) d)"
| "py_iter (JStr t) = Inr (map (\<lambda>c. JStr [c]) t)"
| "py_iter _ = Inl TypeError"

section \<open>Properties of the session\<close>

subsection \<open>\<^verbatim>\<open>which_challenge\<close>\<close>

definition which_challenge :: "json option action" where
  "which_challenge =
     bind (read challenge_selected) (\<lambda>selected.
     if selected then
       bind challenge_id_of (\<lambda>cid.
       bind (get_attr ''__challenge_data'' challenge_data) (\<lambda>cd.
       bind (lift (getitem cd ''subtitle'')) (\<lambda>subtitle.
       bind challenge_id_of (\<lambda>challenge.
       bind (py_print (Currently_enrolled cid subtitle)) (\<lambda>_.
       py_return (Some challenge))))))
     else
       bind (py_print Not_yet_selected) (\<lambda>_. py_return None))"

subsection \<open>\<^verbatim>\<open>my_rank\<close>\<close>

text \<open>The ordinal text of lines 85 to 103, on \<^verbatim>\<open>str(int_rank)\<close>.\<close>

definition second_last_is_1 :: "string \<Rightarrow> bool" where
  "second_last_is_1 t = (length t > 1 \<and> t ! (length t - 2) = CHR ''1'')"

definition rank_text :: "json \<Rightarrow> py_error + string" where
  "rank_text int_rank =
     (if int_rank = JInt 0 then Inr ''not yet''
      else case py_str int_rank of
        Inl e \<Rightarrow> Inl e
      | Inr t \<Rightarrow>
          if t = [] then Inl IndexError
          else if last t = CHR ''1'' then
            (if second_last_is_1 t then Inr (t @ ''th'') else Inr (t @ ''st''))
          else if last t = CHR ''2'' then
            (if second_last_is_1 t then Inr (t @ ''th'') else Inr (t @ ''nd''))
          else if last t = CHR ''3'' then
            (if second_last_is_1 t then Inr (t @ ''th'') else Inr (t @ ''rd''))
          else Inr (t @ ''th''))"

text \<open>The request of line 75.\<close>

definition rank_call :: "string \<Rightarrow> (string \<times> json) list \<Rightarrow> json \<Rightarrow> string \<Rightarrow> call" where
  "rank_call a h token cid_text =
     Http GET (a @ ''/participations/my_participation'')
       (JObj [(''headers'', JObj (dict_set (dict_set h ''auth-token'' token) ''current-url''
          (JStr (''https://zindi.africa/competitions/'' @ cid_text @ ''/leaderboard''))))])"

definition my_rank :: "env \<Rightarrow> json action" where
  "my_rank env =
     bind (read challenge_selected) (\<lambda>selected.
     if selected then
       bind (get_attr ''__api'' api) (\<lambda>a.
       bind (read headers) (\<lambda>h.
       bind auth_token (\<lambda>token.
       bind challenge_id_of (\<lambda>cid.
       bind (lift (py_str cid)) (\<lambda>cid_text.
       bind (do_call env (rank_call a h token cid_text)) (\<lambda>response.
       bind (lift (getitem response ''data'')) (\<lambda>response_data.
       bind (lift (py_in ''errors'' response_data)) (\<lambda>has_errors.
       if has_errors then raise_errors response_data
       else
         bind (lift (py_get response_data ''public_rank'' (JInt 0))) (\<lambda>r.
         bind (modify (\<lambda>s. s\<lparr>rank := Some (py_or r (JInt 0))\<rparr>)) (\<lambda>_.
         bind (lift (rank_text (py_or r (JInt 0)))) (\<lambda>rk.
         bind challenge_id_of (\<lambda>cid'.
         bind (py_print (Rank_on_leaderboard rk cid')) (\<lambda>_.
         py_return (py_or r (JInt 0)))))))))))))))
     else
       bind (py_print Not_yet_selected) (\<lambda>_. py_return (JInt 0)))"

subsection \<open>\<^verbatim>\<open>remaining_subimissions\<close>\<close>

text \<open>The request of line 127.\<close>

definition limits_call :: "string \<Rightarrow> (string \<times> json) list \<Rightarrow> json \<Rightarrow> call" where
  "limits_call a h token =
     Http GET (a @ ''/submissions/limits'')
       (JObj [(''headers'', JObj (dict_set (dict_set h ''auth-token'' token) ''current-url''
          (JStr (a @ ''/submit''))))])"

definition remaining_subimissions :: "env \<Rightarrow> json option action" where
  "remaining_subimissions env =
     bind (read challenge_selected) (\<lambda>selected.
     if selected then
       bind (get_attr ''__api'' api) (\<lambda>a.
       bind (read headers) (\<lambda>h.
       bind auth_token (\<lambda>token.
       bind (do_call env (limits_call a h token)) (\<lambda>response.
       bind (lift (getitem response ''data'')) (\<lambda>response_data.
       bind (lift (py_in ''errors'' response_data)) (\<lambda>has_errors.
       if has_errors then raise_errors response_data
       else
         bind (lift (getitem response_data ''today'')) (\<lambda>free_submissions.
         bind challenge_id_of (\<lambda>cid.
         bind (py_print (Remaining free_submissions cid)) (\<lambda>_.
         py_return (Some free_submissions))))))))))
     else
       bind (py_print Not_yet_selected) (\<lambda>_. py_return None))"

section \<open>Methods of the session\<close>

subsection \<open>\<^verbatim>\<open>select_a_challenge\<close>\<close>

text \<open>The keyword arguments of the method; \<open>default_selection\<close> holds the defaults of its
  signature. \<open>None\<close> is the Python \<^verbatim>\<open>None\<close> of \<^verbatim>\<open>challenge_id\<close> and \<^verbatim>\<open>fixed_index\<close>;
  \<^verbatim>\<open>fixed_index\<close> is an \<^verbatim>\<open>int\<close> as annotated.\<close>

record selection =
  challenge_id :: "string option"
  query :: json
  kind :: json
  reward :: json
  active :: json
  fixed_index :: "int option"
  per_page :: json

definition default_selection :: selection where
  "default_selection =
     \<lparr>challenge_id = None, query = JNull, kind = JStr ''competition'', reward = JNull,
      active = JBool True, fixed_index = None, per_page = JInt 20\<rparr>"

text \<open>Lines 269 to 280: the chosen row becomes the selected challenge, which is joined.
  \<^verbatim>\<open>challenges_data.iloc[challenge_index]\<close> raises outside the rows.\<close>

definition select_row :: "env \<Rightarrow> (string \<times> json) list \<Rightarrow> json list \<Rightarrow> int \<Rightarrow> unit action" where
  "select_row env hdrs rows challenge_index =
     (if challenge_index > - 1 then
        (if challenge_index \<ge> int (length rows) then py_raise IndexError
         else
           bind (modify (\<lambda>s. s\<lparr>challenge_data := Some (rows ! nat challenge_index)\<rparr>)) (\<lambda>_.
           bind (read base_api) (\<lambda>base.
           bind challenge_id_of (\<lambda>cid.
           bind (lift (py_str cid)) (\<lambda>cid_text.
           bind (modify (\<lambda>s. s\<lparr>api := Some (base @ ''/'' @ cid_text)\<rparr>)) (\<lambda>_.
           bind (modify (\<lambda>s. s\<lparr>challenge_selected := True\<rparr>)) (\<lambda>_.
           bind (lift (getitem (rows ! nat challenge_index) ''subtitle'')) (\<lambda>subtitle.
           bind (py_print (You_choose cid subtitle)) (\<lambda>_.
           bind (do_call env (Helper ''join_challenge''
                   (JObj [(''url'', JStr (base @ ''/'' @ cid_text @ ''/participations'')),
                          (''headers'', JObj hdrs)]))) (\<lambda>_.
           py_return ()))))))))))
      else py_return ())"

text \<open>The headers of line 214 and the call of \<^verbatim>\<open>get_challenges\<close> of line 245.\<close>

definition selection_headers :: "(string \<times> json) list \<Rightarrow> json \<Rightarrow> (string \<times> json) list" where
  "selection_headers h token =
     dict_set (dict_set h ''auth-token'' token) ''current-url''
       (JStr ''https://zindi.africa/competitions'')"

definition get_challenges_call :: "selection \<Rightarrow> string \<Rightarrow> (string \<times> json) list \<Rightarrow> call" where
  "get_challenges_call args base hdrs =
     Helper ''get_challenges''
       (JObj [(''query'', query args), (''kind'', kind args), (''reward'', reward args),
              (''active'', active args), (''url'', JStr base), (''headers'', JObj hdrs),
              (''per_page'', per_page args)])"

text \<open>The rows of the data frame that \<^verbatim>\<open>get_challenges\<close> returns are a list of
  dictionaries; \<^verbatim>\<open>shape[0]\<close> is its length.\<close>

definition select_a_challenge :: "env \<Rightarrow> selection \<Rightarrow> unit action" where
  "select_a_challenge env args =
     bind (read headers) (\<lambda>h.
     bind auth_token (\<lambda>token.
     bind (read base_api) (\<lambda>base.
     if challenge_id args \<noteq> None \<and> challenge_id args \<noteq> Some [] then
       let url = base @ ''/'' @ the (challenge_id args) in
       bind (request_data env GET url [(''headers'', JObj (selection_headers h token))])
         (\<lambda>response_data.
       bind (lift (py_in ''errors'' response_data)) (\<lambda>has_errors.
       if has_errors then py_print (Challenge_not_found (the (challenge_id args)))
       else
         bind (modify (\<lambda>s. s\<lparr>challenge_data := Some response_data\<rparr>)) (\<lambda>_.
         bind (modify (\<lambda>s. s\<lparr>api := Some url\<rparr>)) (\<lambda>_.
         bind (modify (\<lambda>s. s\<lparr>challenge_selected := True\<rparr>)) (\<lambda>_.
         bind (lift (getitem response_data ''id'')) (\<lambda>cid.
         bind (lift (py_get response_data ''subtitle'' (JStr []))) (\<lambda>subtitle.
         bind (py_print (You_choose cid subtitle)) (\<lambda>_.
         bind (do_call env (Helper ''join_challenge''
                 (JObj [(''url'', JStr (url @ ''/participations'')),
                        (''headers'', JObj (selection_headers h token))])))
           (\<lambda>_.
         py_return ())))))))))
     else
       bind (do_call env (get_challenges_call args base (selection_headers h token)))
         (\<lambda>challenges_data.
       case challenges_data of
         JList rows \<Rightarrow>
           if length rows = 0 then py_print No_challenges_found
           else
             (case fixed_index args of
                None \<Rightarrow>
                  bind (do_call env (Helper ''print_challenges''
                          (JObj [(''challenges_data'', challenges_data)]))) (\<lambda>_.
                  bind (do_call env (Helper ''challenge_idx_selector''
                          (JObj [(''n_challenges'', JInt (int (length rows)))]))) (\<lambda>answer.
                  case answer of
                    JInt challenge_index \<Rightarrow>
                      select_row env (selection_headers h token) rows challenge_index
                  | _ \<Rightarrow> py_raise TypeError))
              | Some i \<Rightarrow>
                  if i < 0 \<or> i \<ge> int (length rows) then
                    py_raise (Exception (Fixed_index_range (int (length rows))))
                  else select_row env (selection_headers h token) rows i)
       | _ \<Rightarrow> py_raise (AttributeError ''shape'')))))"

subsection \<open>\<^verbatim>\<open>download_dataset\<close>\<close>

text \<open>The paths above a path: its prefixes that end before a \<^verbatim>\<open>/\<close> with something after
  it, the empty prefix left out.\<close>

fun parents_from :: "string \<Rightarrow> string \<Rightarrow> string list" where
  "parents_from pre [] = []"
| "parents_from pre (c # t) =
     (if c = CHR ''/'' \<and> pre \<noteq> [] \<and> t \<noteq> [] then [pre] else []) @
     parents_from (pre @ [c]) t"

definition parents :: "string \<Rightarrow> string list" where
  "parents path = parents_from [] path"

text \<open>The exception of \<^verbatim>\<open>os.makedirs(destination, exist_ok=True)\<close> for a destination that
  is not a directory, if it raises: on the empty path, on a path that is a regular file, on
  a path below a regular file, and when the operating system refuses.\<close>

definition makedirs_error :: "state \<Rightarrow> string \<Rightarrow> py_error option" where
  "makedirs_error s destination =
     (if destination = [] then Some FileNotFoundError
      else if destination \<in> set (files s) then Some (FileExistsError destination)
      else if list_ex (\<lambda>p. p \<in> set (files s)) (parents destination)
        then Some (NotADirectoryError destination)
      else mkdir_error s destination)"

text \<open>When it does not raise, it has made the directory and every directory above it that
  was missing, from the top down. Paths are compared as they are written.\<close>

definition new_dirs :: "state \<Rightarrow> string \<Rightarrow> string list" where
  "new_dirs s destination =
     filter (\<lambda>p. p \<notin> set (dirs s)) (parents destination @ [destination])"

definition makedirs :: "string \<Rightarrow> unit action" where
  "makedirs destination =
     bind (read (\<lambda>s. makedirs_error s destination)) (\<lambda>failure.
     case failure of
       Some e \<Rightarrow> py_raise e
     | None \<Rightarrow> modify (\<lambda>s. s\<lparr>dirs := dirs s @ new_dirs s destination\<rparr>))"

text \<open>The loop of lines 304 to 307: a record is kept when no record kept before equals it.\<close>

fun remove_duplicates :: "json list \<Rightarrow> json list \<Rightarrow> json list" where
  "remove_duplicates datafiles [] = datafiles"
| "remove_duplicates datafiles (i # rest) =
     remove_duplicates (if list_ex (\<lambda>e. py_eq e i) datafiles then datafiles else datafiles @ [i]) rest"

text \<open>\<^verbatim>\<open>os.path.join\<close> of two strings, with \<^verbatim>\<open>/\<close> as separator; on anything but a string
  it raises, which is the \<open>TypeError\<close> of \<open>download_one\<close> below.\<close>

definition path_join :: "string \<Rightarrow> string \<Rightarrow> string" where
  "path_join a b =
     (if b \<noteq> [] \<and> hd b = CHR ''/'' then b
      else if a = [] \<or> last a = CHR ''/'' then a @ b
      else a @ ''/'' @ b)"

text \<open>The call of the helper \<^verbatim>\<open>download\<close> for the file named \<open>name\<close>, lines 311 to 315.\<close>

definition download_call :: "string \<Rightarrow> string \<Rightarrow> (string \<times> json) list \<Rightarrow> string \<Rightarrow> call" where
  "download_call url destination hdrs name =
     Helper ''download''
       (JObj [(''url'', JStr (url @ ''/files/'' @ name)),
              (''filename'', JStr (path_join destination name)),
              (''headers'', JObj hdrs)])"

definition download_one :: "env \<Rightarrow> string \<Rightarrow> string \<Rightarrow> (string \<times> json) list \<Rightarrow> json \<Rightarrow> unit action" where
  "download_one env url destination hdrs data =
     bind (lift (getitem data ''filename'')) (\<lambda>fname.
     case fname of
       JStr name \<Rightarrow>
         bind (do_call env (download_call url destination hdrs name)) (\<lambda>_. py_return ())
     | _ \<Rightarrow> py_raise TypeError)"

text \<open>The request for the manifest, line 302.\<close>

definition manifest_call :: "string \<Rightarrow> (string \<times> json) list \<Rightarrow> json \<Rightarrow> call" where
  "manifest_call url h token =
     Http GET url (JObj [(''headers'', JObj (dict_set h ''auth_token'' token)),
                         (''data'', JObj [(''auth_token'', token)])])"

text \<open>Lines 298 to 317, the branch of a selected challenge.\<close>

definition download_files :: "env \<Rightarrow> string \<Rightarrow> unit action" where
  "download_files env destination =
     bind (read headers) (\<lambda>h.
     bind auth_token (\<lambda>token.
     bind (get_attr ''__api'' api) (\<lambda>url.
     bind (do_call env (manifest_call url h token)) (\<lambda>response.
     bind (lift (getitem response ''data'')) (\<lambda>response_data.
     bind (lift (getitem response_data ''datafiles'')) (\<lambda>fetched.
     bind (lift (py_iter fetched)) (\<lambda>items.
     for_each (download_one env url destination (dict_set h ''auth_token'' token))
       (remove_duplicates [] items))))))))"

definition download_dataset :: "env \<Rightarrow> string \<Rightarrow> bool \<Rightarrow> unit action" where
  "download_dataset env destination make_destination =
     bind (read dirs) (\<lambda>ds.
     bind (if destination \<notin> set ds \<and> make_destination then makedirs destination
           else py_return ()) (\<lambda>_.
     bind (read challenge_selected) (\<lambda>selected.
     if selected then download_files env destination
     else py_raise (Exception (Select_before ''downoad a dataset'')))))"

subsection \<open>\<^verbatim>\<open>submit\<close>\<close>

text \<open>\<^verbatim>\<open>filepath.split(".")[-1].strip().lower()\<close>. A string is the sequence of bytes of its
  UTF-8 encoding. \<^verbatim>\<open>split\<close> cuts at every dot and always returns at least one piece, so that
  the last piece of a path without a dot is the whole path.\<close>

fun py_split :: "char \<Rightarrow> string \<Rightarrow> string list" where
  "py_split sep [] = [[]]"
| "py_split sep (c # t) =
     (if c = sep then [] # py_split sep t
      else case py_split sep t of [] \<Rightarrow> [[c]] | p # ps \<Rightarrow> (c # p) # ps)"

text \<open>The characters that \<^verbatim>\<open>strip\<close> removes are those for which \<^verbatim>\<open>str.isspace\<close> holds:
  U+0009 to U+000D, U+001C to U+0020, U+0085, U+00A0, U+1680, U+2000 to U+200A, U+2028,
  U+2029, U+202F, U+205F and U+3000. These are their encodings.\<close>

definition white_space :: "string list" where
  "white_space =
     [[CHR 0x09], [CHR 0x0A], [CHR 0x0B], [CHR 0x0C], [CHR 0x0D], [CHR 0x1C], [CHR 0x1D],
      [CHR 0x1E], [CHR 0x1F], [CHR 0x20], [CHR 0xC2, CHR 0x85], [CHR 0xC2, CHR 0xA0],
      [CHR 0xE1, CHR 0x9A, CHR 0x80], [CHR 0xE2, CHR 0x80, CHR 0x80],
      [CHR 0xE2, CHR 0x80, CHR 0x81], [CHR 0xE2, CHR 0x80, CHR 0x82],
      [CHR 0xE2, CHR 0x80, CHR 0x83], [CHR 0xE2, CHR 0x80, CHR 0x84],
      [CHR 0xE2, CHR 0x80, CHR 0x85], [CHR 0xE2, CHR 0x80, CHR 0x86],
      [CHR 0xE2, CHR 0x80, CHR 0x87], [CHR 0xE2, CHR 0x80, CHR 0x88],
      [CHR 0xE2, CHR 0x80, CHR 0x89], [CHR 0xE2, CHR 0x80, CHR 0x8A],
      [CHR 0xE2, CHR 0x80, CHR 0xA8], [CHR 0xE2, CHR 0x80, CHR 0xA9],
      [CHR 0xE2, CHR 0x80, CHR 0xAF], [CHR 0xE2, CHR 0x81, CHR 0x9F],
      [CHR 0xE3, CHR 0x80, CHR 0x80]]"

text \<open>Removing the white space at the head of a string: \<^term>\<open>k\<close> counts the bytes still to
  drop of the character that was recognised.\<close>

fun lstrip_by :: "string list \<Rightarrow> nat \<Rightarrow> string \<Rightarrow> string" where
  "lstrip_by ws (Suc k) (c # t) = lstrip_by ws k t"
| "lstrip_by ws (Suc k) [] = []"
| "lstrip_by ws 0 [] = []"
| "lstrip_by ws 0 (c # t) =
     (case find (\<lambda>w. take (length w) (c # t) = w) ws of
        Some w \<Rightarrow> lstrip_by ws (length w - 1) t
      | None \<Rightarrow> c # t)"

definition py_strip :: "string \<Rightarrow> string" where
  "py_strip t = rev (lstrip_by (map rev white_space) 0 (rev (lstrip_by white_space 0 t)))"

text \<open>\<^verbatim>\<open>lower\<close> on the letters of ASCII. A character outside ASCII is left as it is; this
  changes nothing in the one use of the result, the comparison with \<^verbatim>\<open>csv\<close>, since no
  character outside ASCII has a lower case in which c, s or v occurs.\<close>

definition lower_char :: "char \<Rightarrow> char" where
  "lower_char c =
     (case map_of (zip ''ABCDEFGHIJKLMNOPQRSTUVWXYZ'' ''abcdefghijklmnopqrstuvwxyz'') c of
        None \<Rightarrow> c
      | Some l \<Rightarrow> l)"

definition py_lower :: "string \<Rightarrow> string" where
  "py_lower t = map lower_char t"

definition extension_of :: "string \<Rightarrow> string" where
  "extension_of filepath = py_lower (py_strip (last (py_split CHR ''.'' filepath)))"

definition allowed_extensions :: "string list" where
  "allowed_extensions = [''csv'']"

text \<open>The object that \<^verbatim>\<open>comments=[]\<close> of the signature creates once, when the method is
  defined: a call without \<^verbatim>\<open>comments\<close> gets this address.\<close>

definition default_comments :: nat where
  "default_comments = 0"

text \<open>The call of the helper \<^verbatim>\<open>upload\<close>, lines 352 to 357, which returns the response.\<close>

definition upload_call :: "string \<Rightarrow> string \<Rightarrow> string \<Rightarrow> (string \<times> json) list \<Rightarrow> call" where
  "upload_call filepath comment url hdrs =
     Helper ''upload''
       (JObj [(''filepath'', JStr filepath), (''comment'', JStr comment),
              (''url'', JStr url), (''headers'', JObj hdrs)])"

text \<open>The body of the loop, lines 348 to 374. The \<^verbatim>\<open>try\<close> prints the failure when the
  response has \<^verbatim>\<open>errors\<close>; when reading \<^verbatim>\<open>errors\<close> raises, the bare \<^verbatim>\<open>except\<close> prints the
  submission id, and reading \<^verbatim>\<open>id\<close> there can raise in turn.\<close>

definition submit_one :: "env \<Rightarrow> string \<Rightarrow> (string \<times> json) list \<Rightarrow> string \<times> string \<Rightarrow> unit action" where
  "submit_one env url hdrs pair =
     (if extension_of (fst pair) \<in> set allowed_extensions then
        bind (read files) (\<lambda>fs.
        if fst pair \<in> set fs then
          bind (do_call env (upload_call (fst pair) (snd pair) url hdrs)) (\<lambda>response.
          bind (lift (getitem response ''data'')) (\<lambda>response_data.
          case getitem response_data ''errors'' of
            Inr errs \<Rightarrow> py_print (Something_wrong (fst pair) errs)
          | Inl _ \<Rightarrow>
              bind (lift (getitem response_data ''id'')) (\<lambda>sid.
              py_print (File_submitted sid (fst pair)))))
        else py_print (File_doesnt_exist (fst pair)))
      else py_print (Must_be_csv (fst pair)))"

text \<open>\<^verbatim>\<open>comments\<close> is the address of the caller's list; \<^verbatim>\<open>comments += [""] * n\<close> extends that
  object.\<close>

definition submit :: "env \<Rightarrow> string list \<Rightarrow> nat \<Rightarrow> unit action" where
  "submit env filepaths comments =
     bind (read challenge_selected) (\<lambda>selected.
     if selected then
       bind (read headers) (\<lambda>h.
       bind auth_token (\<lambda>token.
       bind (get_attr ''__api'' api) (\<lambda>a.
       bind (read (\<lambda>s. lists s comments)) (\<lambda>cs.
       bind (if length cs < length filepaths then
               modify (\<lambda>s. s\<lparr>lists := (lists s)
                 (comments := lists s comments @ replicate (length filepaths - length cs) [])\<rparr>)
             else py_return ()) (\<lambda>_.
       bind (read (\<lambda>s. lists s comments)) (\<lambda>cs'.
       for_each (submit_one env (a @ ''/submissions'') (dict_set h ''auth_token'' token))
         (zip filepaths cs')))))))
     else py_raise (Exception (Select_before ''push any submission file'')))"

subsection \<open>\<^verbatim>\<open>leaderboard\<close> and \<^verbatim>\<open>submission_board\<close>\<close>

definition leaderboard :: "env \<Rightarrow> bool \<Rightarrow> json \<Rightarrow> unit action" where
  "leaderboard env to_print per_pg =
     bind (read challenge_selected) (\<lambda>selected.
     if selected then
       bind (read headers) (\<lambda>h.
       bind auth_token (\<lambda>token.
       bind (get_attr ''__api'' api) (\<lambda>a.
       bind (request_data env GET (a @ ''/participations'')
               [(''headers'', JObj (dict_set h ''auth_token'' token)),
                (''params'', JObj [(''page'', JInt 0), (''per_page'', per_pg)])]) (\<lambda>response.
       bind (lift (py_in ''errors'' response)) (\<lambda>has_errors.
       if has_errors then raise_errors response
       else
         bind (modify (\<lambda>s. s\<lparr>challengers_data := Some response\<rparr>)) (\<lambda>_.
         bind challenge_id_of (\<lambda>cid.
         bind (read auth_data) (\<lambda>auth.
         bind (lift (getitem auth ''user'')) (\<lambda>user.
         bind (lift (getitem user ''username'')) (\<lambda>username.
         bind (do_call env (Helper ''user_on_lb''
                 (JObj [(''challengers_data'', response), (''challenge_id'', cid),
                        (''username'', username),
                        (''headers'', JObj (dict_set h ''auth_token'' token))]))) (\<lambda>r.
         bind (modify (\<lambda>s. s\<lparr>rank := Some r\<rparr>)) (\<lambda>_.
         if to_print then
           bind (do_call env (Helper ''print_lb''
                   (JObj [(''challengers_data'', response), (''user_rank'', r)])))
             (\<lambda>_. py_return ())
         else py_return ()))))))))))))
     else py_raise (Exception (Select_before ''get the leaderboard'')))"

definition submission_board :: "env \<Rightarrow> bool \<Rightarrow> json \<Rightarrow> unit action" where
  "submission_board env to_print per_pg =
     bind (read challenge_selected) (\<lambda>selected.
     if selected then
       bind (get_attr ''__api'' api) (\<lambda>a.
       bind (read headers) (\<lambda>h.
       bind auth_token (\<lambda>token.
       bind (do_call env (Http GET (a @ ''/submissions'')
               (JObj [(''headers'', JObj (dict_set h ''auth-token'' token)),
                      (''data'', JObj [(''auth-token'', token)]),
                      (''params'', JObj [(''per_page'', per_pg)])]))) (\<lambda>response_object.
       bind (py_print Response_object) (\<lambda>_.
       bind (lift (getitem response_object ''data'')) (\<lambda>response.
       bind (lift (py_in ''errors'' response)) (\<lambda>has_errors.
       if has_errors then raise_errors response
       else
         bind (modify (\<lambda>s. s\<lparr>sb_data := Some response\<rparr>)) (\<lambda>_.
         if to_print then
           bind (do_call env (Helper ''print_submission_board''
                   (JObj [(''submissions_data'', response)]))) (\<lambda>_. py_return ())
         else py_return ()))))))))
     else py_raise (Exception (Select_before ''get the submission-board'')))"

subsection \<open>Teams\<close>

text \<open>The loop body of \<^verbatim>\<open>team_up\<close>, lines 526 to 540.\<close>

definition invite_call :: "string \<Rightarrow> (string \<times> json) list \<Rightarrow> string \<Rightarrow> call" where
  "invite_call url hdrs zindian =
     Http POST url (JObj [(''headers'', JObj hdrs), (''data'', JObj [(''username'', JStr zindian)])])"

definition invite_one :: "env \<Rightarrow> string \<Rightarrow> (string \<times> json) list \<Rightarrow> string \<Rightarrow> unit action" where
  "invite_one env url hdrs zindian =
     bind (do_call env (invite_call url hdrs zindian)) (\<lambda>response_object.
     bind (lift (getitem response_object ''data'')) (\<lambda>response.
     bind (lift (py_in ''errors'' response)) (\<lambda>has_errors.
     if has_errors then
       bind (lift (getitem response ''errors'')) (\<lambda>errs.
       bind (lift (getitem errs ''base'')) (\<lambda>base.
       bind (lift (py_in ''is already invited'' base)) (\<lambda>invited.
       if invited then py_print (Already_invited zindian)
       else raise_errors response)))
     else py_print (Invitation_sent zindian))))"

definition team_up :: "env \<Rightarrow> string list \<Rightarrow> unit action" where
  "team_up env zindians =
     bind (read challenge_selected) (\<lambda>selected.
     if selected then
       bind (read headers) (\<lambda>h.
       bind auth_token (\<lambda>token.
       bind (get_attr ''__api'' api) (\<lambda>a.
       for_each (invite_one env (a @ ''/my_team/invite'') h) zindians)))
     else py_raise (Exception (Select_before ''manage your team'')))"

text \<open>\<^verbatim>\<open>("errors" in response) and ("Leader can only be" in response["errors"]["base"])\<close>\<close>

definition leader_error :: "json \<Rightarrow> py_error + bool" where
  "leader_error response =
     (case py_in ''errors'' response of
        Inl e \<Rightarrow> Inl e
      | Inr False \<Rightarrow> Inr False
      | Inr True \<Rightarrow>
          (case getitem response ''errors'' of
             Inl e \<Rightarrow> Inl e
           | Inr errs \<Rightarrow>
               (case getitem errs ''base'' of
                  Inl e \<Rightarrow> Inl e
                | Inr base \<Rightarrow> py_in ''Leader can only be'' base)))"

definition create_team :: "env \<Rightarrow> json \<Rightarrow> string list \<Rightarrow> unit action" where
  "create_team env team_name teammates =
     bind (read challenge_selected) (\<lambda>selected.
     if selected then
       bind (read headers) (\<lambda>h.
       bind (get_attr ''__api'' api) (\<lambda>a.
       bind auth_token (\<lambda>token.
       bind (request_data env POST (a @ ''/my_team'')
               [(''headers'', JObj h),
                (''data'', JObj [(''title'', team_name), (''auth_token'', token)])]) (\<lambda>response.
       bind (lift (py_in ''errors'' response)) (\<lambda>has_errors.
       bind (lift (leader_error response)) (\<lambda>is_leader.
       if has_errors \<and> \<not> is_leader then
         bind (lift (getitem response ''errors'')) (\<lambda>errs.
         bind (lift (getitem errs ''base'')) (\<lambda>base. py_raise (Exception (Errors base))))
       else
         bind (if is_leader then py_print Already_leader
               else bind (lift (getitem response ''title'')) (\<lambda>title.
                    py_print (Team_created title))) (\<lambda>_.
         if length teammates > 0 then team_up env teammates
         else py_print Teamup_hint)))))))
     else py_raise (Exception (Select_before ''manage your team'')))"

definition disband_team :: "env \<Rightarrow> unit action" where
  "disband_team env =
     bind (read challenge_selected) (\<lambda>selected.
     if selected then
       bind (read headers) (\<lambda>h.
       bind auth_token (\<lambda>token.
       bind (get_attr ''__api'' api) (\<lambda>a.
       bind (request_data env DELETE (a @ ''/my_team'')
               [(''headers'', JObj h), (''data'', JObj [(''auth_token'', token)])]) (\<lambda>response.
       bind (lift (py_in ''errors'' response)) (\<lambda>has_errors.
       if has_errors then raise_errors response
       else py_print (Response_text response))))))
     else py_raise (Exception (Select_before ''manage your team'')))"

section \<open>What the specification says, for comparison\<close>

text \<open>The ordinal suffix as the specification words it, on the magnitude of the rank:
  \<^verbatim>\<open>st\<close>, \<^verbatim>\<open>nd\<close>, \<^verbatim>\<open>rd\<close> when the last digit is 1, 2, 3 and the last two digits are not 11,
  12, 13, and \<^verbatim>\<open>th\<close> otherwise.\<close>

definition ordinal_suffix :: "nat \<Rightarrow> string" where
  "ordinal_suffix m =
     (if m mod 10 = 1 \<and> m mod 100 \<noteq> 11 then ''st''
      else if m mod 10 = 2 \<and> m mod 100 \<noteq> 12 then ''nd''
      else if m mod 10 = 3 \<and> m mod 100 \<noteq> 13 then ''rd''
      else ''th'')"

text \<open>
  Modelled from the spec: remaining submissions as section 4.6 describes them. The quota
  parser \<^verbatim>\<open>n_subimissions_per_day\<close> of \<^verbatim>\<open>zindi.utils\<close> is not among the sources, and
  \<^verbatim>\<open>user.py\<close> does not call it. The quota is the integer \<open>N\<close> of the first
  "maximum of N submissions per day" in the content of the page titled "Rules", and 0
  without such a page or phrase; the submissions of today are the board entries created
  less than 24 hours before now (times in seconds); what remains is the difference, not
  below 0.
\<close>

definition is_digit :: "char \<Rightarrow> bool" where
  "is_digit c = (c \<in> set ''0123456789'')"

definition digit_value :: "char \<Rightarrow> nat" where
  "digit_value c = length (takeWhile (\<lambda>d. d \<noteq> c) ''0123456789'')"

definition number_of :: "string \<Rightarrow> nat" where
  "number_of ds = foldl (\<lambda>acc c. 10 * acc + digit_value c) 0 ds"

definition quota_here :: "string \<Rightarrow> int option" where
  "quota_here t =
     (if starts_with ''maximum of '' t then
        (let rest = drop (length ''maximum of '') t;
             ds = takeWhile is_digit rest
         in if ds \<noteq> [] \<and> starts_with '' submissions per day'' (dropWhile is_digit rest)
            then Some (int (number_of ds)) else None)
      else None)"

fun spec_parse_quota :: "string \<Rightarrow> int" where
  "spec_parse_quota [] = 0"
| "spec_parse_quota (c # t) =
     (case quota_here (c # t) of Some n \<Rightarrow> n | None \<Rightarrow> spec_parse_quota t)"

fun spec_quota :: "json list \<Rightarrow> int" where
  "spec_quota [] = 0"
| "spec_quota (page # pages) =
     (if getitem page ''title'' = Inr (JStr ''Rules'') then
        (case getitem page ''content_html'' of
           Inr (JStr content) \<Rightarrow> spec_parse_quota content
         | _ \<Rightarrow> 0)
      else spec_quota pages)"

definition spec_count_today :: "int \<Rightarrow> json list \<Rightarrow> int" where
  "spec_count_today now board =
     int (length (filter (\<lambda>entry.
        case getitem entry ''created_at'' of
          Inr (JInt created) \<Rightarrow> now - created < 24 * 3600
        | _ \<Rightarrow> False) board))"

definition spec_remaining :: "json list \<Rightarrow> json list \<Rightarrow> int \<Rightarrow> int" where
  "spec_remaining pages board now = max (spec_quota pages - spec_count_today now board) 0"

text \<open>
  Full equality of two records: what they say is the same. A decoded value says what
  \<open>meaning\<close> gives: an object is the finite map from its keys to what its values say, so
  that the order of the keys does not count, and \<^verbatim>\<open>true\<close> and 1 say different things.
\<close>

datatype jval =
    VNull
  | VBool bool
  | VInt int
  | VStr string
  | VList "jval list"
  | VObj "string \<Rightarrow> jval option"

fun meaning :: "json \<Rightarrow> jval" where
  "meaning JNull = VNull"
| "meaning (JBool b) = VBool b"
| "meaning (JInt i) = VInt i"
| "meaning (JStr t) = VStr t"
| "meaning (JList xs) = VList (map meaning xs)"
| "meaning (JObj d) = VObj (map_of (map (\<lambda>kv. (fst kv, meaning (snd kv))) d))"

definition same_record :: "json \<Rightarrow> json \<Rightarrow> bool" where
  "same_record a b = (meaning a = meaning b)"

text \<open>De-duplication by an equality "preserving first-seen order": the first record is
  kept, the later records equal to it are dropped, and so on with what is left.\<close>

function first_seen_by :: "(json \<Rightarrow> json \<Rightarrow> bool) \<Rightarrow> json list \<Rightarrow> json list" where
  "first_seen_by eq [] = []"
| "first_seen_by eq (x # xs) = x # first_seen_by eq (filter (\<lambda>y. \<not> eq x y) xs)"
  by pat_completeness auto
termination
  by (relation "measure (\<lambda>p. length (snd p))") (auto simp add: less_Suc_eq_le)

text \<open>The value with \<^verbatim>\<open>true\<close> and \<^verbatim>\<open>false\<close> read as the integers 1 and 0, as the \<^verbatim>\<open>==\<close> of
  Python reads them.\<close>

fun unbool :: "json \<Rightarrow> json" where
  "unbool (JBool b) = JInt (if b then 1 else 0)"
| "unbool (JList xs) = JList (map unbool xs)"
| "unbool (JObj d) = JObj (map (\<lambda>kv. (fst kv, unbool (snd kv))) d)"
| "unbool v = v"

text \<open>A decoded value has no key twice in an object; \<open>no_bool\<close> values have no boolean in
  them either.\<close>

fun decoded :: "json \<Rightarrow> bool" where
  "decoded (JList xs) = list_all decoded xs"
| "decoded (JObj d) = (distinct (map fst d) \<and> list_all (\<lambda>kv. decoded (snd kv)) d)"
| "decoded v = True"

fun no_bool :: "json \<Rightarrow> bool" where
  "no_bool (JBool b) = False"
| "no_bool (JList xs) = list_all no_bool xs"
| "no_bool (JObj d) = list_all (\<lambda>kv. no_bool (snd kv)) d"
| "no_bool v = True"

section \<open>Sessions used as examples\<close>

text \<open>The object as \<^verbatim>\<open>__init__\<close> leaves it after a successful sign-in that answered
  \<open>auth\<close>: the fixed headers and API root, the answer kept as \<^verbatim>\<open>__auth_data\<close>, no challenge
  selected, no other attribute assigned; nothing called or printed yet, an empty file
  system that refuses no directory, every list object empty.\<close>

definition signed_in :: "json \<Rightarrow> state" where
  "signed_in auth =
     \<lparr>headers = [(''User-Agent'', JStr ''Mozilla/5.0 (Windows NT 10.0; Win64; x64) AppleWebKit/537.36 (KHTML, like Gecko) Chrome/144.0.0.0 Safari/537.36'')],
      base_api = ''https://api.zindi.africa/v1/competitions'',
      auth_data = auth,
      challenge_selected = False,
      challenge_data = None,
      api = None,
      rank = None,
      challengers_data = None,
      sb_data = None,
      calls = [],
      out = [],
      dirs = [],
      files = [],
      mkdir_error = (\<lambda>_. None),
      lists = (\<lambda>_. [])\<rparr>"

text \<open>The sign-in answer of the test suite.\<close>

definition mock_auth :: json where
  "mock_auth = JObj [(''auth_token'', JStr ''mock_token''),
                     (''user'', JObj [(''username'', JStr ''testuser''), (''id'', JInt 123)])]"

text \<open>Surroundings in which every call fails.\<close>

definition no_network :: env where
  "no_network history c = Inl (External ''unreachable'')"

text \<open>The three challenges of the test suite, as \<^verbatim>\<open>get_challenges\<close> returns them.\<close>

definition mock_challenges :: "json list" where
  "mock_challenges =
     [JObj [(''id'', JStr ''challenge-1''), (''kind'', JStr ''competition''),
            (''subtitle'', JStr ''Challenge 1 Subtitle''), (''reward'', JStr ''prize'')],
      JObj [(''id'', JStr ''challenge-2''), (''kind'', JStr ''hackathon''),
            (''subtitle'', JStr ''Challenge 2 Subtitle''), (''reward'', JStr ''points'')],
      JObj [(''id'', JStr ''challenge-3''), (''kind'', JStr ''competition''),
            (''subtitle'', JStr ''Challenge 3 Subtitle''), (''reward'', JStr ''knowledge'')]]"

text \<open>Surroundings in which every call returns the given value.\<close>

definition always :: "json \<Rightarrow> env" where
  "always v history c = Inr v"

text \<open>The session as the tests set it up for a selected challenge.\<close>

definition selected_session :: state where
  "selected_session =
     (signed_in mock_auth)
       \<lparr>challenge_selected := True,
        challenge_data := Some (JObj [(''id'', JStr ''challenge-2'')]),
        api := Some ''https://api.zindi.africa/v1/competitions/challenge-2''\<rparr>"

text \<open>A manifest in which the first record comes back a second time, with its keys in the
  other order, and a third time with another id; and a manifest of two records that differ
  in \<^verbatim>\<open>true\<close> against 1.\<close>

definition mock_datafiles :: "json list" where
  "mock_datafiles =
     [JObj [(''filename'', JStr ''Train.csv''), (''id'', JStr ''df-1'')],
      JObj [(''filename'', JStr ''Test.csv''), (''id'', JStr ''df-2'')],
      JObj [(''id'', JStr ''df-1''), (''filename'', JStr ''Train.csv'')],
      JObj [(''filename'', JStr ''Train.csv''), (''id'', JStr ''df-9'')]]"

definition mock_manifest :: json where
  "mock_manifest =
     JObj [(''data'', JObj [(''id'', JStr ''challenge-2''), (''datafiles'', JList mock_datafiles)])]"

definition bool_datafiles :: "json list" where
  "bool_datafiles =
     [JObj [(''filename'', JStr ''Train.csv''), (''id'', JInt 1)],
      JObj [(''filename'', JStr ''Train.csv''), (''id'', JBool True)]]"

definition bool_manifest :: json where
  "bool_manifest =
     JObj [(''data'', JObj [(''id'', JStr ''challenge-2''), (''datafiles'', JList bool_datafiles)])]"

text \<open>The answers to an upload of the test suite: accepted, and refused.\<close>

definition mock_submit_success :: json where
  "mock_submit_success = JObj [(''data'', JObj [(''id'', JStr ''sub-new-123'')])]"

definition mock_submit_failure :: json where
  "mock_submit_failure =
     JObj [(''data'', JObj [(''errors'', JObj [(''base'', JStr ''Submission failed'')])])]"

text \<open>The selected session with one file on disk.\<close>

definition session_with_file :: state where
  "session_with_file = selected_session\<lparr>files := [''a.csv'']\<rparr>"

text \<open>Answers to an invitation: sent, already invited (the text of the test suite), and
  a refusal whose text has the words "already invited" without "is" before them.\<close>

definition mock_invited :: json where
  "mock_invited = JObj [(''data'', JObj [(''message'', JStr ''Invitation sent'')])]"

definition mock_already_invited :: json where
  "mock_already_invited =
     JObj [(''data'', JObj [(''errors'', JObj [(''base'', JStr ''User is already invited'')])])]"

definition mock_was_invited :: json where
  "mock_was_invited =
     JObj [(''data'', JObj [(''errors'', JObj [(''base'', JStr ''User was already invited'')])])]"

text \<open>Answers of the participation endpoint: with a rank, and without one.\<close>

definition mock_participation :: "int \<Rightarrow> json" where
  "mock_participation n = JObj [(''data'', JObj [(''public_rank'', JInt n)])]"

definition mock_no_rank :: json where
  "mock_no_rank = JObj [(''data'', JObj [(''public_rank'', JNull)])]"

text \<open>The example of the specification: a quota of 5 in the rules, a board with one
  entry 25 hours old and two entries of the last 24 hours, at hour 100. The service
  answers the three addresses of the challenge; its limits endpoint says 1.\<close>

definition claim_pages :: "json list" where
  "claim_pages =
     [JObj [(''title'', JStr ''Overview''), (''content_html'', JStr ''Some content'')],
      JObj [(''title'', JStr ''Rules''),
            (''content_html'',
             JStr ''Blah blah You may make a maximum of 5 submissions per day. Blah blah'')]]"

definition claim_board :: "json list" where
  "claim_board =
     [JObj [(''id'', JStr ''sub-1''), (''created_at'', JInt (98 * 3600))],
      JObj [(''id'', JStr ''sub-2''), (''created_at'', JInt (99 * 3600))],
      JObj [(''id'', JStr ''sub-3''), (''created_at'', JInt (75 * 3600))]]"

definition claim_now :: int where
  "claim_now = 100 * 3600"

definition claim_service :: "int \<Rightarrow> env" where
  "claim_service today history c =
     (case c of
        Http m url kwargs \<Rightarrow>
          if url = ''https://api.zindi.africa/v1/competitions/challenge-2/submissions/limits''
            then Inr (JObj [(''data'', JObj [(''today'', JInt today)])])
          else if url = ''https://api.zindi.africa/v1/competitions/challenge-2/submissions''
            then Inr (JObj [(''data'', JList claim_board)])
          else Inr (JObj [(''data'', JObj [(''id'', JStr ''challenge-2''),
                                           (''pages'', JList claim_pages)])])
      | Helper name kwargs \<Rightarrow> Inr JNull)"

section \<open>Theorems\<close>

lemma bind_return [simp]: "bind (py_return x) f = f x"
  by (rule ext) (simp add: bind_def py_return_def)

lemma bind_raise [simp]: "bind (py_raise e) f = py_raise e"
  by (rule ext) (simp add: bind_def py_raise_def)

lemma bind_lift_Inr [simp]: "bind (lift (Inr x)) f = f x"
  by (rule ext) (simp add: bind_def lift_def)

lemma bind_lift_Inl [simp]: "bind (lift (Inl e)) f = py_raise e"
  by (rule ext) (simp add: bind_def lift_def py_raise_def)

lemma bind_read [simp]: "bind (read g) f s = f (g s) s"
  by (simp add: bind_def read_def)

lemma bind_modify [simp]: "bind (modify h) f s = f () (h s)"
  by (simp add: bind_def modify_def)

lemma bind_print [simp]: "bind (py_print m) f s = f () (s\<lparr>out := out s @ [m]\<rparr>)"
  by (simp add: py_print_def)

lemma bind_assoc: "bind (bind m f) g = bind m (\<lambda>x. bind (f x) g)"
  by (rule ext) (simp add: bind_def split: prod.splits sum.splits)

lemma bind_do_call:
  "bind (do_call env c) f s =
     (case env (calls s) c of
        Inl e \<Rightarrow> (Inl e, s\<lparr>calls := calls s @ [c]\<rparr>)
      | Inr x \<Rightarrow> f x (s\<lparr>calls := calls s @ [c]\<rparr>))"
  by (simp add: bind_def do_call_def split: sum.splits)

text \<open>
  C4. When no challenge is selected, \<^verbatim>\<open>my_rank\<close> returns the sentinel integer 0 without
  raising, and \<^verbatim>\<open>remaining_subimissions\<close> returns \<^verbatim>\<open>None\<close> without raising. Each prints the
  "not yet selected" message and leaves everything else as it was.
\<close>

theorem unselected_sentinels:
  assumes "\<not> challenge_selected s"
  shows "my_rank env s = (Inr (JInt 0), s\<lparr>out := out s @ [Not_yet_selected]\<rparr>) \<and>
         remaining_subimissions env s = (Inr None, s\<lparr>out := out s @ [Not_yet_selected]\<rparr>)"
  using assms by (simp add: my_rank_def remaining_subimissions_def py_return_def)

theorem unselected_sentinels_witness:
  "\<not> challenge_selected (signed_in mock_auth) \<and>
   fst (my_rank no_network (signed_in mock_auth)) = Inr (JInt 0) \<and>
   fst (remaining_subimissions no_network (signed_in mock_auth)) = Inr None \<and>
   out (snd (my_rank no_network (signed_in mock_auth))) = [Not_yet_selected] \<and>
   calls (snd (remaining_subimissions no_network (signed_in mock_auth))) = []"
  using unselected_sentinels [of "signed_in mock_auth" no_network]
  by (simp add: signed_in_def)

lemma bind_get_attr:
  "bind (get_attr name g) f s =
     (case g s of None \<Rightarrow> (Inl (AttributeError name), s) | Some x \<Rightarrow> f x s)"
  by (simp add: get_attr_def bind_assoc py_raise_def split: option.splits)

lemma bind_auth_token:
  "bind auth_token f s =
     (case getitem (auth_data s) ''auth_token'' of Inl e \<Rightarrow> (Inl e, s) | Inr t \<Rightarrow> f t s)"
  by (simp add: auth_token_def bind_assoc py_raise_def split: sum.splits)

lemma bind_challenge_id_of:
  "bind challenge_id_of f s =
     (case challenge_data s of
        None \<Rightarrow> (Inl (AttributeError ''__challenge_data''), s)
      | Some cd \<Rightarrow> (case getitem cd ''id'' of Inl e \<Rightarrow> (Inl e, s) | Inr i \<Rightarrow> f i s))"
  by (simp add: challenge_id_of_def bind_assoc bind_get_attr py_raise_def
      split: option.splits sum.splits)

lemma bind_request_data:
  "bind (request_data env m url kw) f s =
     (case env (calls s) (Http m url (JObj kw)) of
        Inl e \<Rightarrow> (Inl e, s\<lparr>calls := calls s @ [Http m url (JObj kw)]\<rparr>)
      | Inr response \<Rightarrow>
          (case getitem response ''data'' of
             Inl e \<Rightarrow> (Inl e, s\<lparr>calls := calls s @ [Http m url (JObj kw)]\<rparr>)
           | Inr d \<Rightarrow> f d (s\<lparr>calls := calls s @ [Http m url (JObj kw)]\<rparr>)))"
  by (simp add: request_data_def bind_assoc bind_do_call py_raise_def split: sum.splits)

lemma bind_makedirs:
  "bind (makedirs d) f s =
     (case makedirs_error s d of
        Some e \<Rightarrow> (Inl e, s)
      | None \<Rightarrow> f () (s\<lparr>dirs := dirs s @ new_dirs s d\<rparr>))"
  by (simp add: makedirs_def bind_assoc py_raise_def split: option.splits)


lemma download_dataset_unselected:
  assumes "\<not> challenge_selected s"
  shows "download_dataset env d m s =
     (if d \<in> set (dirs s) \<or> \<not> m then (Inl (Exception (Select_before ''downoad a dataset'')), s)
      else case makedirs_error s d of
             Some e \<Rightarrow> (Inl e, s)
           | None \<Rightarrow> (Inl (Exception (Select_before ''downoad a dataset'')),
                       s\<lparr>dirs := dirs s @ new_dirs s d\<rparr>))"
  using assms
  by (simp add: download_dataset_def bind_makedirs py_raise_def split: option.splits)

text \<open>
  C2, as the code has it. With no challenge selected, no operation makes a call (no request,
  no helper). \<^verbatim>\<open>submit\<close>, \<^verbatim>\<open>leaderboard\<close>, \<^verbatim>\<open>submission_board\<close>, \<^verbatim>\<open>create_team\<close>, \<^verbatim>\<open>team_up\<close>
  and \<^verbatim>\<open>disband_team\<close> raise the "select a challenge before" exception and change nothing.
  \<^verbatim>\<open>download_dataset\<close> always raises: that exception, unless creating the destination raised
  first. \<^verbatim>\<open>my_rank\<close> and \<^verbatim>\<open>remaining_subimissions\<close> do not raise: they return 0 and \<^verbatim>\<open>None\<close>.
\<close>

theorem unselected_no_call:
  assumes "\<not> challenge_selected s"
  shows
    "submit env filepaths comments s =
       (Inl (Exception (Select_before ''push any submission file'')), s) \<and>
     leaderboard env to_print n s = (Inl (Exception (Select_before ''get the leaderboard'')), s) \<and>
     submission_board env to_print n s =
       (Inl (Exception (Select_before ''get the submission-board'')), s) \<and>
     create_team env team_name teammates s =
       (Inl (Exception (Select_before ''manage your team'')), s) \<and>
     team_up env zindians s = (Inl (Exception (Select_before ''manage your team'')), s) \<and>
     disband_team env s = (Inl (Exception (Select_before ''manage your team'')), s) \<and>
     isl (fst (download_dataset env destination make_destination s)) \<and>
     calls (snd (download_dataset env destination make_destination s)) = calls s \<and>
     (destination \<in> set (dirs s) \<or> \<not> make_destination \<or>
        makedirs_error s destination = None \<longrightarrow>
      fst (download_dataset env destination make_destination s) =
        Inl (Exception (Select_before ''downoad a dataset''))) \<and>
     fst (my_rank env s) = Inr (JInt 0) \<and> calls (snd (my_rank env s)) = calls s \<and>
     fst (remaining_subimissions env s) = Inr None \<and>
     calls (snd (remaining_subimissions env s)) = calls s"
proof -
  have 1: "submit env filepaths comments s =
       (Inl (Exception (Select_before ''push any submission file'')), s)"
    using assms by (simp add: submit_def py_raise_def)
  have 2: "leaderboard env to_print n s =
       (Inl (Exception (Select_before ''get the leaderboard'')), s)"
    using assms by (simp add: leaderboard_def py_raise_def)
  have 3: "submission_board env to_print n s =
       (Inl (Exception (Select_before ''get the submission-board'')), s)"
    using assms by (simp add: submission_board_def py_raise_def)
  have 4: "create_team env team_name teammates s =
       (Inl (Exception (Select_before ''manage your team'')), s)"
    using assms by (simp add: create_team_def py_raise_def)
  have 5: "team_up env zindians s = (Inl (Exception (Select_before ''manage your team'')), s)"
    using assms by (simp add: team_up_def py_raise_def)
  have 6: "disband_team env s = (Inl (Exception (Select_before ''manage your team'')), s)"
    using assms by (simp add: disband_team_def py_raise_def)
  have 7: "isl (fst (download_dataset env destination make_destination s))"
    and 8: "calls (snd (download_dataset env destination make_destination s)) = calls s"
    and 9: "destination \<in> set (dirs s) \<or> \<not> make_destination \<or>
        makedirs_error s destination = None \<longrightarrow>
      fst (download_dataset env destination make_destination s) =
        Inl (Exception (Select_before ''downoad a dataset''))"
    by (auto simp add: download_dataset_unselected [OF assms] split: option.splits)
  have 10: "fst (my_rank env s) = Inr (JInt 0) \<and> calls (snd (my_rank env s)) = calls s"
    using assms by (simp add: my_rank_def py_return_def)
  have 11: "fst (remaining_subimissions env s) = Inr None \<and>
     calls (snd (remaining_subimissions env s)) = calls s"
    using assms by (simp add: remaining_subimissions_def py_return_def)
  from 1 2 3 4 5 6 7 8 9 10 11 show ?thesis by blast
qed

theorem unselected_no_call_witness:
  "\<not> challenge_selected (signed_in mock_auth) \<and>
   submit no_network [''./dummy.csv''] default_comments (signed_in mock_auth) =
     (Inl (Exception (Select_before ''push any submission file'')), signed_in mock_auth) \<and>
   fst (download_dataset no_network ''.'' True (signed_in mock_auth)) =
     Inl (Exception (Select_before ''downoad a dataset'')) \<and>
   calls (snd (download_dataset no_network ''.'' True (signed_in mock_auth))) = [] \<and>
   fst (my_rank no_network (signed_in mock_auth)) = Inr (JInt 0)"
  using unselected_no_call [of "signed_in mock_auth" no_network "[''./dummy.csv'']"
      default_comments _ _ _ _ _ "''.''" True]
  by (simp add: signed_in_def makedirs_error_def parents_def)

text \<open>C2 as stated fails for the two properties: on a fresh session neither call ends in
  an exception.\<close>

theorem my_rank_unselected_returns:
  "\<not> challenge_selected (signed_in mock_auth) \<and>
   \<not> isl (fst (my_rank no_network (signed_in mock_auth))) \<and>
   \<not> isl (fst (remaining_subimissions no_network (signed_in mock_auth)))"
  by (simp add: my_rank_def remaining_subimissions_def signed_in_def py_return_def)

lemma select_search_mode:
  assumes "challenge_id args = None \<or> challenge_id args = Some []"
    and "getitem (auth_data s) ''auth_token'' = Inr token"
    and "env (calls s) (get_challenges_call args (base_api s)
           (selection_headers (headers s) token)) = Inr (JList rows)"
    and "fixed_index args = Some i"
  shows "select_a_challenge env args s =
     (let s' = s\<lparr>calls := calls s @ [get_challenges_call args (base_api s)
                   (selection_headers (headers s) token)]\<rparr> in
      if rows = [] then (Inr (), s'\<lparr>out := out s' @ [No_challenges_found]\<rparr>)
      else if i < 0 \<or> i \<ge> int (length rows)
        then (Inl (Exception (Fixed_index_range (int (length rows)))), s')
      else select_row env (selection_headers (headers s) token) rows i s')"
  using assms
  by (auto simp add: select_a_challenge_def bind_auth_token bind_do_call Let_def py_raise_def
      py_print_def modify_def)

text \<open>
  C3, as the code has it. In search mode (no \<^verbatim>\<open>challenge_id\<close>), when \<^verbatim>\<open>get_challenges\<close>
  returns \<open>n \<ge> 1\<close> rows and \<^verbatim>\<open>fixed_index\<close> is negative or at least \<open>n\<close>, the call raises the
  range exception, after that one call and with no challenge selected by it. When the search
  returns no row, the index is not looked at: the call prints "No challenges found" and
  returns.
\<close>

theorem fixed_index_out_of_range:
  assumes "challenge_id args = None \<or> challenge_id args = Some []"
    and "getitem (auth_data s) ''auth_token'' = Inr token"
    and "env (calls s) (get_challenges_call args (base_api s)
           (selection_headers (headers s) token)) = Inr (JList rows)"
    and "fixed_index args = Some i"
    and "i < 0 \<or> i \<ge> int (length rows)"
  shows "(rows \<noteq> [] \<longrightarrow>
            select_a_challenge env args s =
              (Inl (Exception (Fixed_index_range (int (length rows)))),
               s\<lparr>calls := calls s @ [get_challenges_call args (base_api s)
                    (selection_headers (headers s) token)]\<rparr>)) \<and>
         (rows = [] \<longrightarrow>
            select_a_challenge env args s =
              (Inr (),
               s\<lparr>calls := calls s @ [get_challenges_call args (base_api s)
                    (selection_headers (headers s) token)],
                 out := out s @ [No_challenges_found]\<rparr>))"
  using select_search_mode [of args s token env rows i] assms by (simp add: Let_def)

theorem fixed_index_out_of_range_witness:
  "select_a_challenge (always (JList mock_challenges))
     (default_selection\<lparr>fixed_index := Some 10\<rparr>) (signed_in mock_auth) =
     (Inl (Exception (Fixed_index_range 3)),
      (signed_in mock_auth)\<lparr>calls := [get_challenges_call (default_selection\<lparr>fixed_index := Some 10\<rparr>)
          ''https://api.zindi.africa/v1/competitions''
          (selection_headers (headers (signed_in mock_auth)) (JStr ''mock_token''))]\<rparr>) \<and>
   fst (select_a_challenge (always (JList mock_challenges))
     (default_selection\<lparr>fixed_index := Some (- 1)\<rparr>) (signed_in mock_auth)) =
     Inl (Exception (Fixed_index_range 3)) \<and>
   fst (select_a_challenge (always (JList []))
     (default_selection\<lparr>fixed_index := Some 0\<rparr>) (signed_in mock_auth)) = Inr ()"
  using fixed_index_out_of_range [of "default_selection\<lparr>fixed_index := Some 10\<rparr>"
      "signed_in mock_auth" "JStr ''mock_token''" "always (JList mock_challenges)"
      mock_challenges 10]
    fixed_index_out_of_range [of "default_selection\<lparr>fixed_index := Some (- 1)\<rparr>"
      "signed_in mock_auth" "JStr ''mock_token''" "always (JList mock_challenges)"
      mock_challenges "- 1"]
    fixed_index_out_of_range [of "default_selection\<lparr>fixed_index := Some 0\<rparr>"
      "signed_in mock_auth" "JStr ''mock_token''" "always (JList [])" "[]" 0]
  by (simp add: default_selection_def signed_in_def mock_auth_def always_def mock_challenges_def)

text \<open>C3 as stated fails for \<open>n = 0\<close>: with an empty search result, index 5 (and index -1)
  is outside \<open>[0, 0)\<close>, and the call returns without an exception.\<close>

theorem fixed_index_empty_search_returns:
  "fst (select_a_challenge (always (JList [])) (default_selection\<lparr>fixed_index := Some 5\<rparr>)
          (signed_in mock_auth)) = Inr () \<and>
   fst (select_a_challenge (always (JList [])) (default_selection\<lparr>fixed_index := Some (- 1)\<rparr>)
          (signed_in mock_auth)) = Inr () \<and>
   out (snd (select_a_challenge (always (JList [])) (default_selection\<lparr>fixed_index := Some 5\<rparr>)
          (signed_in mock_auth))) = [No_challenges_found]"
  by (simp add: select_a_challenge_def bind_auth_token bind_do_call default_selection_def
      signed_in_def mock_auth_def always_def py_print_def modify_def)

lemma bind_lift:
  "bind (lift r) f s = (case r of Inl e \<Rightarrow> (Inl e, s) | Inr x \<Rightarrow> f x s)"
  by (simp add: bind_def lift_def split: sum.splits)

lemma for_each_frame:
  assumes "\<And>x s. g (snd (body x s)) = g s"
  shows "g (snd (for_each body xs s)) = g s"
proof (induction xs arbitrary: s)
  case Nil
  show ?case by (simp add: py_return_def)
next
  case (Cons x xs)
  show ?case
  proof (cases "body x s")
    case (Pair r s')
    have s': "g s' = g s" using assms [of x s] Pair by simp
    show ?thesis
    proof (cases r)
      case (Inl e)
      with Pair s' show ?thesis by (simp add: bind_def)
    next
      case (Inr u)
      with Pair s' Cons.IH [of s'] show ?thesis by (simp add: bind_def)
    qed
  qed
qed

lemma download_one_eq:
  "download_one env url d h r s =
     (case getitem r ''filename'' of
        Inl e \<Rightarrow> (Inl e, s)
      | Inr (JStr name) \<Rightarrow>
          (case env (calls s) (download_call url d h name) of
             Inl e \<Rightarrow> (Inl e, s\<lparr>calls := calls s @ [download_call url d h name]\<rparr>)
           | Inr v \<Rightarrow> (Inr (), s\<lparr>calls := calls s @ [download_call url d h name]\<rparr>))
      | Inr _ \<Rightarrow> (Inl TypeError, s))"
  by (simp add: download_one_def bind_do_call py_raise_def py_return_def
      split: sum.splits json.splits)



lemma submit_one_eq:
  "submit_one env url h (p, c) s =
     (if extension_of p \<in> set allowed_extensions then
        if p \<in> set (files s) then
          (case env (calls s) (upload_call p c url h) of
             Inl e \<Rightarrow> (Inl e, s\<lparr>calls := calls s @ [upload_call p c url h]\<rparr>)
           | Inr response \<Rightarrow>
               (case getitem response ''data'' of
                  Inl e \<Rightarrow> (Inl e, s\<lparr>calls := calls s @ [upload_call p c url h]\<rparr>)
                | Inr d \<Rightarrow>
                    (case getitem d ''errors'' of
                       Inr errs \<Rightarrow>
                         (Inr (), s\<lparr>calls := calls s @ [upload_call p c url h],
                                    out := out s @ [Something_wrong p errs]\<rparr>)
                     | Inl _ \<Rightarrow>
                         (case getitem d ''id'' of
                            Inl e \<Rightarrow> (Inl e, s\<lparr>calls := calls s @ [upload_call p c url h]\<rparr>)
                          | Inr sid \<Rightarrow>
                              (Inr (), s\<lparr>calls := calls s @ [upload_call p c url h],
                                         out := out s @ [File_submitted sid p]\<rparr>)))))
        else (Inr (), s\<lparr>out := out s @ [File_doesnt_exist p]\<rparr>)
      else (Inr (), s\<lparr>out := out s @ [Must_be_csv p]\<rparr>))"
  by (simp add: submit_one_def bind_do_call bind_lift py_raise_def py_print_def modify_def
      split: sum.splits)

lemma submit_one_lists: "lists (snd (submit_one env url h x s)) = lists s"
  by (cases x) (simp add: submit_one_eq split: sum.splits)

lemma submit_one_files: "files (snd (submit_one env url h x s)) = files s"
  by (cases x) (simp add: submit_one_eq split: sum.splits)

lemma submit_selected:
  assumes "challenge_selected s"
    and "api s = Some a"
    and "getitem (auth_data s) ''auth_token'' = Inr token"
  shows "submit env filepaths comments s =
     for_each (submit_one env (a @ ''/submissions'') (dict_set (headers s) ''auth_token'' token))
       (zip filepaths
          (lists s comments @ replicate (length filepaths - length (lists s comments)) []))
       (s\<lparr>lists := (lists s)(comments :=
            lists s comments @ replicate (length filepaths - length (lists s comments)) [])\<rparr>)"
proof (cases "length (lists s comments) < length filepaths")
  case True
  with assms show ?thesis
    by (simp add: submit_def bind_auth_token bind_get_attr)
next
  case False
  then have "(lists s)(comments := lists s comments) = lists s" by auto
  with False assms show ?thesis
    by (simp add: submit_def bind_auth_token bind_get_attr)
qed

text \<open>
  C10, as the code has it. With a challenge selected, the session holding its token and the
  address of the challenge, when the list passed as \<^verbatim>\<open>comments\<close> is shorter than
  \<^verbatim>\<open>filepaths\<close>, the call leaves that list object extended by empty strings to the length of
  \<^verbatim>\<open>filepaths\<close>, whatever happens to the files; no other list object changes. The list of the
  default argument is such an object, at the address \<open>default_comments\<close>.
\<close>

theorem submit_extends_comments:
  assumes "challenge_selected s"
    and "api s = Some a"
    and "getitem (auth_data s) ''auth_token'' = Inr token"
    and "length (lists s comments) < length filepaths"
  shows "lists (snd (submit env filepaths comments s)) =
           (lists s)(comments :=
              lists s comments @ replicate (length filepaths - length (lists s comments)) []) \<and>
         length (lists (snd (submit env filepaths comments s)) comments) = length filepaths"
  using assms(4)
  by (simp add: submit_selected [OF assms(1-3)]
      for_each_frame [where g = lists, OF submit_one_lists])

theorem submit_extends_comments_witness:
  "lists selected_session default_comments = [] \<and>
   lists (snd (submit no_network [''b.txt'', ''c.txt''] default_comments selected_session))
     default_comments = [[], []] \<and>
   lists (snd (submit no_network [''b.txt'', ''c.txt'', ''d.txt''] default_comments
     (snd (submit no_network [''b.txt''] default_comments selected_session)))) default_comments =
     [[], [], []]"
  using submit_extends_comments [of selected_session
      "''https://api.zindi.africa/v1/competitions/challenge-2''" "JStr ''mock_token''"
      default_comments "[''b.txt'', ''c.txt'']" no_network]
    submit_extends_comments [of selected_session
      "''https://api.zindi.africa/v1/competitions/challenge-2''" "JStr ''mock_token''"
      default_comments "[''b.txt'']" no_network]
    submit_extends_comments [of "snd (submit no_network [''b.txt''] default_comments selected_session)"
      "''https://api.zindi.africa/v1/competitions/challenge-2''" "JStr ''mock_token''"
      default_comments "[''b.txt'', ''c.txt'', ''d.txt'']" no_network]
  by (simp add: selected_session_def signed_in_def mock_auth_def submit_def bind_auth_token
      bind_get_attr submit_one_def extension_of_def py_lower_def py_strip_def lower_char_def
      white_space_def allowed_extensions_def py_print_def modify_def py_return_def)

text \<open>C10, the case that refutes the sentence as written. Without a selected challenge
  \<^verbatim>\<open>submit\<close> raises at its first test, before the lines that extend \<^verbatim>\<open>comments\<close>: the list
  of the default argument is shorter than \<^verbatim>\<open>filepaths\<close> before the call and is the same
  list after it.\<close>

theorem unselected_submit_keeps_comments:
  "\<not> challenge_selected (signed_in mock_auth) \<and>
   length (lists (signed_in mock_auth) default_comments) < length [''a.csv''] \<and>
   fst (submit no_network [''a.csv''] default_comments (signed_in mock_auth)) =
     Inl (Exception (Select_before ''push any submission file'')) \<and>
   lists (snd (submit no_network [''a.csv''] default_comments (signed_in mock_auth)))
     default_comments = [] \<and>
   snd (submit no_network [''a.csv''] default_comments (signed_in mock_auth)) =
     signed_in mock_auth"
  by (simp add: submit_def py_raise_def signed_in_def)

lemma ext_a_csv: "extension_of ''a.csv'' \<in> set allowed_extensions"
  by (simp add: extension_of_def py_lower_def py_strip_def lower_char_def white_space_def
      allowed_extensions_def)

lemma ext_b_txt: "extension_of ''b.txt'' \<notin> set allowed_extensions"
  by (simp add: extension_of_def py_lower_def py_strip_def lower_char_def white_space_def
      allowed_extensions_def)

lemma ext_missing_csv: "extension_of ''missing.csv'' \<in> set allowed_extensions"
  by (simp add: extension_of_def py_lower_def py_strip_def lower_char_def white_space_def
      allowed_extensions_def)

lemma submit_step:
  "submit_one env url h x s = (Inr (), s') \<Longrightarrow>
   for_each (submit_one env url h) (x # xs) s = for_each (submit_one env url h) xs s'"
  by (simp add: bind_def)

lemma submit_stop:
  "submit_one env url h x s = (Inl e, s') \<Longrightarrow>
   for_each (submit_one env url h) (x # xs) s = (Inl e, s')"
  by (simp add: bind_def)

lemma rest_of_batch:
  assumes "''missing.csv'' \<notin> set (files s)"
  shows "for_each (submit_one env url h) [(''b.txt'', c1), (''missing.csv'', c2)] s =
      (Inr (), s\<lparr>out := out s @ [Must_be_csv ''b.txt'', File_doesnt_exist ''missing.csv'']\<rparr>)"
proof -
  have 1: "submit_one env url h (''b.txt'', c1) s = (Inr (), s\<lparr>out := out s @ [Must_be_csv ''b.txt'']\<rparr>)"
    using ext_b_txt by (simp only: submit_one_eq if_False)
  have 2: "submit_one env url h (''missing.csv'', c2) (s\<lparr>out := out s @ [Must_be_csv ''b.txt'']\<rparr>) =
     (Inr (), s\<lparr>out := out s @ [Must_be_csv ''b.txt'', File_doesnt_exist ''missing.csv'']\<rparr>)"
    using ext_missing_csv assms by (simp add: submit_one_eq del: set_simps)
  have "for_each (submit_one env url h) [(''b.txt'', c1), (''missing.csv'', c2)] s =
      for_each (submit_one env url h) [(''missing.csv'', c2)]
        (s\<lparr>out := out s @ [Must_be_csv ''b.txt'']\<rparr>)"
    by (rule submit_step [OF 1])
  also have "\<dots> = for_each (submit_one env url h) []
        (s\<lparr>out := out s @ [Must_be_csv ''b.txt'', File_doesnt_exist ''missing.csv'']\<rparr>)"
    by (rule submit_step [OF 2])
  finally show ?thesis by (simp add: py_return_def)
qed

lemma batch_of_three:
  assumes a: "''a.csv'' \<in> set (files s)"
    and m: "''missing.csv'' \<notin> set (files s)"
  shows "for_each (submit_one env url h)
           [(''a.csv'', c0), (''b.txt'', c1), (''missing.csv'', c2)] s =
     (case submit_one env url h (''a.csv'', c0) s of
        (Inl e, s') \<Rightarrow> (Inl e, s')
      | (Inr u, s') \<Rightarrow>
          (Inr (), s'\<lparr>out := out s' @ [Must_be_csv ''b.txt'', File_doesnt_exist ''missing.csv'']\<rparr>))"
proof (cases "submit_one env url h (''a.csv'', c0) s")
  case (Pair r s')
  have f: "''missing.csv'' \<notin> set (files s')"
    using submit_one_files [of env url h "(''a.csv'', c0)" s] Pair m by simp
  show ?thesis
  proof (cases r)
    case (Inl e)
    with Pair have "submit_one env url h (''a.csv'', c0) s = (Inl e, s')" by simp
    then have "for_each (submit_one env url h)
           [(''a.csv'', c0), (''b.txt'', c1), (''missing.csv'', c2)] s = (Inl e, s')"
      by (rule submit_stop)
    with Pair Inl show ?thesis by (simp only: prod.case sum.case)
  next
    case (Inr u)
    with Pair have "submit_one env url h (''a.csv'', c0) s = (Inr (), s')" by simp
    then have "for_each (submit_one env url h)
           [(''a.csv'', c0), (''b.txt'', c1), (''missing.csv'', c2)] s =
         for_each (submit_one env url h) [(''b.txt'', c1), (''missing.csv'', c2)] s'"
      by (rule submit_step)
    with Pair Inr show ?thesis by (simp only: rest_of_batch [OF f] prod.case sum.case)
  qed
qed

lemma upload_a_csv:
  assumes "''a.csv'' \<in> set (files s)"
  shows "calls (snd (submit_one env url h (''a.csv'', c0) s)) =
           calls s @ [upload_call ''a.csv'' c0 url h]"
  using assms ext_a_csv by (simp add: submit_one_eq split: sum.splits)

lemma three_or_more: "3 \<le> length cs \<Longrightarrow> \<exists>c0 c1 c2 r. cs = c0 # c1 # c2 # r"
  by (auto simp add: numeral_3_eq_3 Suc_le_length_iff)

lemma submit_three:
  assumes sel: "challenge_selected s"
    and api: "api s = Some a"
    and tok: "getitem (auth_data s) ''auth_token'' = Inr token"
    and a: "''a.csv'' \<in> set (files s)"
    and m: "''missing.csv'' \<notin> set (files s)"
  shows "\<exists>s0. calls s0 = calls s \<and> out s0 = out s \<and> files s0 = files s \<and>
     submit env [''a.csv'', ''b.txt'', ''missing.csv''] comments s =
     (case submit_one env (a @ ''/submissions'') (dict_set (headers s) ''auth_token'' token)
             (''a.csv'', hd (lists s comments @ replicate (3 - length (lists s comments)) [])) s0 of
        (Inl e, s') \<Rightarrow> (Inl e, s')
      | (Inr u, s') \<Rightarrow>
          (Inr (), s'\<lparr>out := out s' @ [Must_be_csv ''b.txt'', File_doesnt_exist ''missing.csv'']\<rparr>))"
proof -
  let ?cs = "lists s comments @ replicate (3 - length (lists s comments)) []"
  let ?s0 = "s\<lparr>lists := (lists s)(comments := ?cs)\<rparr>"
  have "3 \<le> length ?cs" by simp
  then obtain c0 c1 c2 r where cs: "?cs = c0 # c1 # c2 # r"
    using three_or_more by blast
  have run: "submit env [''a.csv'', ''b.txt'', ''missing.csv''] comments s =
      for_each (submit_one env (a @ ''/submissions'') (dict_set (headers s) ''auth_token'' token))
        (zip [''a.csv'', ''b.txt'', ''missing.csv''] ?cs) ?s0"
    using submit_selected [OF sel api tok, of env "[''a.csv'', ''b.txt'', ''missing.csv'']" comments]
    by (simp add: numeral_3_eq_3)
  have z: "zip [''a.csv'', ''b.txt'', ''missing.csv''] ?cs =
      [(''a.csv'', c0), (''b.txt'', c1), (''missing.csv'', c2)]"
    by (simp only: cs zip_Cons_Cons zip_Nil)
  have hd: "hd ?cs = c0" by (simp only: cs list.sel)
  have a0: "''a.csv'' \<in> set (files ?s0)" and m0: "''missing.csv'' \<notin> set (files ?s0)"
    using a m by simp_all
  have "calls ?s0 = calls s \<and> out ?s0 = out s \<and> files ?s0 = files s \<and>
     submit env [''a.csv'', ''b.txt'', ''missing.csv''] comments s =
     (case submit_one env (a @ ''/submissions'') (dict_set (headers s) ''auth_token'' token)
             (''a.csv'', hd ?cs) ?s0 of
        (Inl e, s') \<Rightarrow> (Inl e, s')
      | (Inr u, s') \<Rightarrow>
          (Inr (), s'\<lparr>out := out s' @ [Must_be_csv ''b.txt'', File_doesnt_exist ''missing.csv'']\<rparr>))"
    unfolding run z hd using batch_of_three [OF a0 m0] by simp
  then show ?thesis by blast
qed

lemma invite_one_eq:
  "invite_one env url h z s =
     (case env (calls s) (invite_call url h z) of
        Inl e \<Rightarrow> (Inl e, s\<lparr>calls := calls s @ [invite_call url h z]\<rparr>)
      | Inr response_object \<Rightarrow>
          (case getitem response_object ''data'' of
             Inl e \<Rightarrow> (Inl e, s\<lparr>calls := calls s @ [invite_call url h z]\<rparr>)
           | Inr response \<Rightarrow>
               (case py_in ''errors'' response of
                  Inl e \<Rightarrow> (Inl e, s\<lparr>calls := calls s @ [invite_call url h z]\<rparr>)
                | Inr False \<Rightarrow>
                    (Inr (), s\<lparr>calls := calls s @ [invite_call url h z],
                               out := out s @ [Invitation_sent z]\<rparr>)
                | Inr True \<Rightarrow>
                    (case getitem response ''errors'' of
                       Inl e \<Rightarrow> (Inl e, s\<lparr>calls := calls s @ [invite_call url h z]\<rparr>)
                     | Inr errs \<Rightarrow>
                         (case getitem errs ''base'' of
                            Inl e \<Rightarrow> (Inl e, s\<lparr>calls := calls s @ [invite_call url h z]\<rparr>)
                          | Inr base \<Rightarrow>
                              (case py_in ''is already invited'' base of
                                 Inl e \<Rightarrow> (Inl e, s\<lparr>calls := calls s @ [invite_call url h z]\<rparr>)
                               | Inr True \<Rightarrow>
                                   (Inr (), s\<lparr>calls := calls s @ [invite_call url h z],
                                              out := out s @ [Already_invited z]\<rparr>)
                               | Inr False \<Rightarrow>
                                   (Inl (Exception (Errors errs)),
                                    s\<lparr>calls := calls s @ [invite_call url h z]\<rparr>)))))))"
  by (simp add: invite_one_def bind_do_call bind_lift raise_errors_def py_raise_def py_print_def
      modify_def split: sum.splits bool.splits)

lemma team_up_selected:
  assumes "challenge_selected s"
    and "api s = Some a"
    and "getitem (auth_data s) ''auth_token'' = Inr token"
  shows "team_up env zindians s =
           for_each (invite_one env (a @ ''/my_team/invite'') (headers s)) zindians s"
  using assms by (simp add: team_up_def bind_auth_token bind_get_attr)

lemma invite_one_calls:
  "calls (snd (invite_one env url h z s)) = calls s @ [invite_call url h z]"
  by (simp add: invite_one_eq split: sum.splits bool.splits)

lemma invite_step:
  "invite_one env url h z s = (Inr (), s') \<Longrightarrow>
   for_each (invite_one env url h) (z # zs) s = for_each (invite_one env url h) zs s'"
  by (simp add: bind_def)

lemma invite_stop:
  "invite_one env url h z s = (Inl e, s') \<Longrightarrow>
   for_each (invite_one env url h) (z # zs) s = (Inl e, s')"
  by (simp add: bind_def)

lemma invites_all_posted:
  "fst (for_each (invite_one env url h) zs s) = Inr () \<Longrightarrow>
   calls (snd (for_each (invite_one env url h) zs s)) = calls s @ map (invite_call url h) zs"
proof (induction zs arbitrary: s)
  case Nil
  show ?case by (simp add: py_return_def)
next
  case (Cons z zs)
  show ?case
  proof (cases "invite_one env url h z s")
    case (Pair r s')
    have c: "calls s' = calls s @ [invite_call url h z]"
      using invite_one_calls [of env url h z s] Pair by simp
    show ?thesis
    proof (cases r)
      case (Inl e)
      with Pair have "for_each (invite_one env url h) (z # zs) s = (Inl e, s')"
        by (simp add: bind_def)
      with Cons.prems show ?thesis by simp
    next
      case (Inr u)
      with Pair have step: "for_each (invite_one env url h) (z # zs) s =
          for_each (invite_one env url h) zs s'"
        by (simp add: bind_def)
      with Cons.prems have "fst (for_each (invite_one env url h) zs s') = Inr ()" by simp
      from Cons.IH [OF this] show ?thesis by (simp only: step c) simp
    qed
  qed
qed

text \<open>
  C8, as the code has it. With a challenge selected, \<^verbatim>\<open>team_up\<close> posts the invitation of the
  first username and looks at the \<^verbatim>\<open>data\<close> of the response. Without \<^verbatim>\<open>errors\<close> it prints that
  the invitation was sent and goes on with the next username. With \<^verbatim>\<open>errors\<close> whose \<^verbatim>\<open>base\<close>
  contains "is already invited" it prints the notice and goes on as well. With any other
  \<^verbatim>\<open>errors\<close> it raises at once, and that request is the only one made; when \<^verbatim>\<open>base\<close> is
  there and lacks the phrase, the exception carries the \<^verbatim>\<open>errors\<close>. A call that returns
  normally has posted one invitation for each username, in the order of the list.
\<close>

theorem team_up_invites:
  assumes sel: "challenge_selected s"
    and api: "api s = Some a"
    and tok: "getitem (auth_data s) ''auth_token'' = Inr token"
    and url: "url = a @ ''/my_team/invite''"
    and ans: "env (calls s) (invite_call url (headers s) z) = Inr response_object"
    and dat: "getitem response_object ''data'' = Inr response"
  shows
    "(py_in ''errors'' response = Inr False \<longrightarrow>
        team_up env (z # zs) s =
          team_up env zs (s\<lparr>calls := calls s @ [invite_call url (headers s) z],
                             out := out s @ [Invitation_sent z]\<rparr>)) \<and>
     (py_in ''errors'' response = Inr True \<and> getitem response ''errors'' = Inr errs \<and>
      getitem errs ''base'' = Inr base \<and> py_in ''is already invited'' base = Inr True \<longrightarrow>
        team_up env (z # zs) s =
          team_up env zs (s\<lparr>calls := calls s @ [invite_call url (headers s) z],
                             out := out s @ [Already_invited z]\<rparr>)) \<and>
     (py_in ''errors'' response = Inr True \<and> getitem response ''errors'' = Inr errs \<and>
      getitem errs ''base'' = Inr base \<and> py_in ''is already invited'' base = Inr False \<longrightarrow>
        team_up env (z # zs) s =
          (Inl (Exception (Errors errs)),
           s\<lparr>calls := calls s @ [invite_call url (headers s) z]\<rparr>)) \<and>
     (py_in ''errors'' response = Inr True \<and>
      \<not> (\<exists>errs base. getitem response ''errors'' = Inr errs \<and>
             getitem errs ''base'' = Inr base \<and> py_in ''is already invited'' base = Inr True) \<longrightarrow>
        isl (fst (team_up env (z # zs) s)) \<and>
        calls (snd (team_up env (z # zs) s)) = calls s @ [invite_call url (headers s) z]) \<and>
     (fst (team_up env zindians s) = Inr () \<longrightarrow>
        calls (snd (team_up env zindians s)) =
          calls s @ map (invite_call url (headers s)) zindians)"
proof (intro conjI impI)
  have run: "team_up env ws s = for_each (invite_one env url (headers s)) ws s" for ws
    unfolding url by (rule team_up_selected [OF sel api tok])
  have run': "team_up env ws (s\<lparr>calls := cs, out := os\<rparr>) =
      for_each (invite_one env url (headers s)) ws (s\<lparr>calls := cs, out := os\<rparr>)" for ws cs os
    using team_up_selected [of "s\<lparr>calls := cs, out := os\<rparr>" a token env ws] sel api tok
    by (simp add: url)
  {
    assume "py_in ''errors'' response = Inr False"
    then have "invite_one env url (headers s) z s =
        (Inr (), s\<lparr>calls := calls s @ [invite_call url (headers s) z],
                   out := out s @ [Invitation_sent z]\<rparr>)"
      using ans dat by (simp add: invite_one_eq)
    then show "team_up env (z # zs) s =
          team_up env zs (s\<lparr>calls := calls s @ [invite_call url (headers s) z],
                             out := out s @ [Invitation_sent z]\<rparr>)"
      unfolding run run' by (rule invite_step)
  }
  {
    assume "py_in ''errors'' response = Inr True \<and> getitem response ''errors'' = Inr errs \<and>
      getitem errs ''base'' = Inr base \<and> py_in ''is already invited'' base = Inr True"
    then have "invite_one env url (headers s) z s =
        (Inr (), s\<lparr>calls := calls s @ [invite_call url (headers s) z],
                   out := out s @ [Already_invited z]\<rparr>)"
      using ans dat by (simp add: invite_one_eq)
    then show "team_up env (z # zs) s =
          team_up env zs (s\<lparr>calls := calls s @ [invite_call url (headers s) z],
                             out := out s @ [Already_invited z]\<rparr>)"
      unfolding run run' by (rule invite_step)
  }
  {
    assume "py_in ''errors'' response = Inr True \<and> getitem response ''errors'' = Inr errs \<and>
      getitem errs ''base'' = Inr base \<and> py_in ''is already invited'' base = Inr False"
    then have "invite_one env url (headers s) z s =
        (Inl (Exception (Errors errs)), s\<lparr>calls := calls s @ [invite_call url (headers s) z]\<rparr>)"
      using ans dat by (simp add: invite_one_eq)
    then show "team_up env (z # zs) s =
          (Inl (Exception (Errors errs)),
           s\<lparr>calls := calls s @ [invite_call url (headers s) z]\<rparr>)"
      unfolding run by (rule invite_stop)
  }
  {
    assume other: "py_in ''errors'' response = Inr True \<and>
      \<not> (\<exists>errs base. getitem response ''errors'' = Inr errs \<and>
             getitem errs ''base'' = Inr base \<and> py_in ''is already invited'' base = Inr True)"
    obtain r s' where rs: "invite_one env url (headers s) z s = (r, s')"
      by (cases "invite_one env url (headers s) z s")
    have c: "calls s' = calls s @ [invite_call url (headers s) z]"
      using invite_one_calls [of env url "headers s" z s] rs by simp
    have "isl r"
      using other ans dat rs
      by (auto simp add: invite_one_eq split: sum.splits bool.splits)
    then obtain e where "r = Inl e" by (cases r) auto
    with rs have stop: "for_each (invite_one env url (headers s)) (z # zs) s = (Inl e, s')"
      by (simp add: bind_def)
    show "isl (fst (team_up env (z # zs) s))"
      unfolding run stop by simp
    show "calls (snd (team_up env (z # zs) s)) = calls s @ [invite_call url (headers s) z]"
      unfolding run stop using c by simp
  }
  {
    assume "fst (team_up env zindians s) = Inr ()"
    then show "calls (snd (team_up env zindians s)) =
          calls s @ map (invite_call url (headers s)) zindians"
      unfolding run by (rule invites_all_posted)
  }
qed

theorem team_up_invites_witness:
  "challenge_selected selected_session \<and>
   team_up (always mock_already_invited) [''friend1'', ''friend2''] selected_session =
     team_up (always mock_already_invited) [''friend2'']
       (selected_session\<lparr>calls := [invite_call
            ''https://api.zindi.africa/v1/competitions/challenge-2/my_team/invite''
            (headers selected_session) ''friend1''],
          out := [Already_invited ''friend1'']\<rparr>) \<and>
   team_up (always mock_invited) [''friend1'', ''friend2''] selected_session =
     team_up (always mock_invited) [''friend2'']
       (selected_session\<lparr>calls := [invite_call
            ''https://api.zindi.africa/v1/competitions/challenge-2/my_team/invite''
            (headers selected_session) ''friend1''],
          out := [Invitation_sent ''friend1'']\<rparr>) \<and>
   team_up (always mock_was_invited) [''friend1'', ''friend2''] selected_session =
     (Inl (Exception (Errors (JObj [(''base'', JStr ''User was already invited'')]))),
      selected_session\<lparr>calls := [invite_call
            ''https://api.zindi.africa/v1/competitions/challenge-2/my_team/invite''
            (headers selected_session) ''friend1'']\<rparr>)"
  using team_up_invites [where s = selected_session
      and a = "''https://api.zindi.africa/v1/competitions/challenge-2''"
      and token = "JStr ''mock_token''"
      and url = "''https://api.zindi.africa/v1/competitions/challenge-2/my_team/invite''"
      and env = "always mock_already_invited" and z = "''friend1''" and zs = "[''friend2'']"
      and response_object = mock_already_invited
      and response = "JObj [(''errors'', JObj [(''base'', JStr ''User is already invited'')])]"
      and errs = "JObj [(''base'', JStr ''User is already invited'')]"
      and base = "JStr ''User is already invited''" and zindians = "[]"]
    team_up_invites [where s = selected_session
      and a = "''https://api.zindi.africa/v1/competitions/challenge-2''"
      and token = "JStr ''mock_token''"
      and url = "''https://api.zindi.africa/v1/competitions/challenge-2/my_team/invite''"
      and env = "always mock_invited" and z = "''friend1''" and zs = "[''friend2'']"
      and response_object = mock_invited
      and response = "JObj [(''message'', JStr ''Invitation sent'')]" and zindians = "[]"]
    team_up_invites [where s = selected_session
      and a = "''https://api.zindi.africa/v1/competitions/challenge-2''"
      and token = "JStr ''mock_token''"
      and url = "''https://api.zindi.africa/v1/competitions/challenge-2/my_team/invite''"
      and env = "always mock_was_invited" and z = "''friend1''" and zs = "[''friend2'']"
      and response_object = mock_was_invited
      and response = "JObj [(''errors'', JObj [(''base'', JStr ''User was already invited'')])]"
      and errs = "JObj [(''base'', JStr ''User was already invited'')]"
      and base = "JStr ''User was already invited''" and zindians = "[]"]
  by (simp add: selected_session_def signed_in_def mock_auth_def always_def
      mock_already_invited_def mock_invited_def mock_was_invited_def)

text \<open>C8 as stated fails on an \<^verbatim>\<open>errors\<close> text that contains "already invited" without
  "is" before it: the first invitation raises, and the second username is never invited.\<close>

theorem already_invited_phrase_raises:
  "contains ''already invited'' ''User was already invited'' \<and>
   team_up (always mock_was_invited) [''friend1'', ''friend2''] selected_session =
     (Inl (Exception (Errors (JObj [(''base'', JStr ''User was already invited'')]))),
      selected_session\<lparr>calls := [invite_call
            ''https://api.zindi.africa/v1/competitions/challenge-2/my_team/invite''
            (headers selected_session) ''friend1'']\<rparr>)"
proof -
  have phrase: "contains ''already invited'' ''User was already invited''"
    by simp
  have one: "invite_one (always mock_was_invited)
        ''https://api.zindi.africa/v1/competitions/challenge-2/my_team/invite''
        (headers selected_session) ''friend1'' selected_session =
     (Inl (Exception (Errors (JObj [(''base'', JStr ''User was already invited'')]))),
      selected_session\<lparr>calls := [invite_call
            ''https://api.zindi.africa/v1/competitions/challenge-2/my_team/invite''
            (headers selected_session) ''friend1'']\<rparr>)"
    by (simp add: invite_one_eq selected_session_def signed_in_def always_def
        mock_was_invited_def)
  have run: "team_up (always mock_was_invited) [''friend1'', ''friend2''] selected_session =
      for_each (invite_one (always mock_was_invited)
        ''https://api.zindi.africa/v1/competitions/challenge-2/my_team/invite''
        (headers selected_session)) [''friend1'', ''friend2''] selected_session"
    by (simp add: team_up_def bind_auth_token bind_get_attr selected_session_def signed_in_def
        mock_auth_def del: for_each.simps)
  show ?thesis
    unfolding run using phrase invite_stop [OF one] by blast
qed

lemma digit_char_eq:
  assumes "d < 10"
  shows "digit_char d = CHR ''1'' \<longleftrightarrow> d = 1"
    and "digit_char d = CHR ''2'' \<longleftrightarrow> d = 2"
    and "digit_char d = CHR ''3'' \<longleftrightarrow> d = 3"
proof -
  from assms have "d = 0 \<or> d = 1 \<or> d = 2 \<or> d = 3 \<or> d = 4 \<or> d = 5 \<or> d = 6 \<or> d = 7 \<or> d = 8 \<or> d = 9"
    by arith
  then show "digit_char d = CHR ''1'' \<longleftrightarrow> d = 1"
    and "digit_char d = CHR ''2'' \<longleftrightarrow> d = 2"
    and "digit_char d = CHR ''3'' \<longleftrightarrow> d = 3"
    by (auto simp add: digit_char_def)
qed

lemma str_nat_nonempty: "str_nat n \<noteq> []"
  by (subst str_nat.simps) simp

lemma last_str_nat: "last (str_nat n) = digit_char (n mod 10)"
  by (subst str_nat.simps) (simp add: str_nat_nonempty)

lemma length_str_nat: "length (str_nat n) > 1 \<longleftrightarrow> n \<ge> 10"
  by (subst str_nat.simps) (simp add: str_nat_nonempty Suc_lessI)

lemma second_last_str_nat: "second_last_is_1 (str_nat n) \<longleftrightarrow> (n div 10) mod 10 = 1"
proof (cases "n < 10")
  case True
  then have "str_nat n = [digit_char n]" by (subst str_nat.simps) simp
  with True show ?thesis by (simp add: second_last_is_1_def)
next
  case False
  then have eq: "str_nat n = str_nat (n div 10) @ [digit_char (n mod 10)]"
    by (subst str_nat.simps) simp
  have ne: "str_nat (n div 10) \<noteq> []" by (rule str_nat_nonempty)
  then have len: "length (str_nat (n div 10)) \<ge> 1"
    by (cases "str_nat (n div 10)") auto
  have "(str_nat (n div 10) @ [digit_char (n mod 10)]) ! (length (str_nat (n div 10)) - 1) =
        last (str_nat (n div 10))"
    using ne len by (simp add: nth_append last_conv_nth)
  then have "second_last_is_1 (str_nat n) \<longleftrightarrow> last (str_nat (n div 10)) = CHR ''1''"
    using len ne by (simp add: second_last_is_1_def eq)
  also have "\<dots> \<longleftrightarrow> (n div 10) mod 10 = 1"
    by (simp add: last_str_nat digit_char_eq)
  finally show ?thesis .
qed

lemma second_last_minus:
  "second_last_is_1 (CHR ''-'' # str_nat n) \<longleftrightarrow> second_last_is_1 (str_nat n)"
proof (cases "str_nat n")
  case Nil
  then show ?thesis using str_nat_nonempty [of n] by simp
next
  case (Cons c t)
  show ?thesis
  proof (cases t)
    case Nil
    with Cons show ?thesis by (simp add: second_last_is_1_def)
  next
    case (Cons c' t')
    with \<open>str_nat n = c # t\<close> show ?thesis by (simp add: second_last_is_1_def)
  qed
qed

lemma str_int_facts:
  "str_int n \<noteq> []"
  "last (str_int n) = digit_char (nat \<bar>n\<bar> mod 10)"
  "second_last_is_1 (str_int n) \<longleftrightarrow> (nat \<bar>n\<bar> div 10) mod 10 = 1"
proof -
  show "str_int n \<noteq> []" by (simp add: str_int_def str_nat_nonempty)
  show "last (str_int n) = digit_char (nat \<bar>n\<bar> mod 10)"
    by (cases "n < 0") (simp_all add: str_int_def str_nat_nonempty last_str_nat)
  show "second_last_is_1 (str_int n) \<longleftrightarrow> (nat \<bar>n\<bar> div 10) mod 10 = 1"
    by (cases "n < 0") (simp_all add: str_int_def second_last_minus second_last_str_nat)
qed

lemma last_two_digits: "(m::nat) mod 100 = 10 * (m div 10 mod 10) + m mod 10"
  using mod_mult2_eq [of m 10 10] by simp

lemma code_suffix_is_ordinal_suffix:
  "(if m mod 10 = 1 then (if m div 10 mod 10 = 1 then ''th'' else ''st'')
    else if m mod 10 = 2 then (if m div 10 mod 10 = 1 then ''th'' else ''nd'')
    else if m mod 10 = 3 then (if m div 10 mod 10 = 1 then ''th'' else ''rd'')
    else ''th'') = ordinal_suffix (m::nat)"
proof -
  have t: "m div 10 mod 10 = 1 \<longleftrightarrow> m mod 100 = 10 + m mod 10"
    using last_two_digits [of m] by arith
  show ?thesis
    unfolding ordinal_suffix_def t by (simp del: mod_mod_trivial)
qed

lemma rank_text_int:
  "rank_text (JInt n) =
     Inr (if n = 0 then ''not yet'' else str_int n @ ordinal_suffix (nat \<bar>n\<bar>))"
proof (cases "n = 0")
  case True
  then show ?thesis by (simp add: rank_text_def)
next
  case False
  have d: "nat \<bar>n\<bar> mod 10 < 10" by simp
  have l1: "last (str_int n) = CHR ''1'' \<longleftrightarrow> nat \<bar>n\<bar> mod 10 = 1"
    by (simp only: str_int_facts(2) digit_char_eq(1) [OF d])
  have l2: "last (str_int n) = CHR ''2'' \<longleftrightarrow> nat \<bar>n\<bar> mod 10 = 2"
    by (simp only: str_int_facts(2) digit_char_eq(2) [OF d])
  have l3: "last (str_int n) = CHR ''3'' \<longleftrightarrow> nat \<bar>n\<bar> mod 10 = 3"
    by (simp only: str_int_facts(2) digit_char_eq(3) [OF d])
  have "rank_text (JInt n) =
      Inr (str_int n @
        (if nat \<bar>n\<bar> mod 10 = 1 then (if nat \<bar>n\<bar> div 10 mod 10 = 1 then ''th'' else ''st'')
         else if nat \<bar>n\<bar> mod 10 = 2 then (if nat \<bar>n\<bar> div 10 mod 10 = 1 then ''th'' else ''nd'')
         else if nat \<bar>n\<bar> mod 10 = 3 then (if nat \<bar>n\<bar> div 10 mod 10 = 1 then ''th'' else ''rd'')
         else ''th''))"
    unfolding rank_text_def py_str.simps sum.case l1 l2 l3 str_int_facts(3)
    using False str_int_facts(1) [of n] by (simp only: json.inject if_False if_distrib [of Inr]
        if_distrib [of "\<lambda>x. str_int n @ x"] cong: if_cong) 
  then show ?thesis
    using False by (simp only: code_suffix_is_ordinal_suffix if_False)
qed

text \<open>
  C7. With a challenge selected and a participation response without \<^verbatim>\<open>errors\<close>, \<^verbatim>\<open>my_rank\<close>
  takes the integer \<^verbatim>\<open>public_rank\<close> of the response, or 0 when the field is absent or null,
  keeps it as the cached rank, and returns it. What it prints is "not yet" for 0 and
  otherwise the decimal number followed by the ordinal suffix: \<^verbatim>\<open>st\<close>, \<^verbatim>\<open>nd\<close>, \<^verbatim>\<open>rd\<close> for a last
  digit 1, 2, 3 unless the last two digits are 11, 12, 13, and \<^verbatim>\<open>th\<close> in every other case.
\<close>

theorem my_rank_ordinal:
  assumes sel: "challenge_selected s"
    and api: "api s = Some a"
    and tok: "getitem (auth_data s) ''auth_token'' = Inr token"
    and cd: "challenge_data s = Some cd"
    and cid: "getitem cd ''id'' = Inr cid"
    and ct: "py_str cid = Inr cid_text"
    and ans: "env (calls s) (rank_call a (headers s) token cid_text) = Inr response"
    and dat: "getitem response ''data'' = Inr (JObj entries)"
    and noerr: "''errors'' \<notin> set (map fst entries)"
    and rk: "map_of entries ''public_rank'' = None \<and> n = 0 \<or>
             map_of entries ''public_rank'' = Some JNull \<and> n = 0 \<or>
             map_of entries ''public_rank'' = Some (JInt n)"
  shows "my_rank env s =
           (Inr (JInt n),
            s\<lparr>calls := calls s @ [rank_call a (headers s) token cid_text],
              rank := Some (JInt n),
              out := out s @
                [Rank_on_leaderboard
                   (if n = 0 then ''not yet'' else str_int n @ ordinal_suffix (nat \<bar>n\<bar>)) cid]\<rparr>)"
proof -
  obtain r where r: "py_get (JObj entries) ''public_rank'' (JInt 0) = Inr r"
    and rn: "py_or r (JInt 0) = JInt n"
    using rk by (auto simp add: py_or_def)
  show ?thesis
    using sel api tok cd cid ct ans dat noerr
    by (simp add: my_rank_def bind_get_attr bind_auth_token bind_challenge_id_of bind_do_call
        r rn rank_text_int py_return_def del: py_get.simps)
qed

theorem my_rank_ordinal_witness:
  "challenge_selected selected_session \<and>
   my_rank (always (mock_participation 2)) selected_session =
     (Inr (JInt 2),
      selected_session\<lparr>calls := [rank_call ''https://api.zindi.africa/v1/competitions/challenge-2''
           (headers selected_session) (JStr ''mock_token'') ''challenge-2''],
         rank := Some (JInt 2),
         out := [Rank_on_leaderboard ''2nd'' (JStr ''challenge-2'')]\<rparr>) \<and>
   out (snd (my_rank (always (mock_participation 11)) selected_session)) =
     [Rank_on_leaderboard ''11th'' (JStr ''challenge-2'')] \<and>
   out (snd (my_rank (always (mock_participation 21)) selected_session)) =
     [Rank_on_leaderboard ''21st'' (JStr ''challenge-2'')] \<and>
   out (snd (my_rank (always (mock_participation 113)) selected_session)) =
     [Rank_on_leaderboard ''113th'' (JStr ''challenge-2'')] \<and>
   my_rank (always mock_no_rank) selected_session =
     (Inr (JInt 0),
      selected_session\<lparr>calls := [rank_call ''https://api.zindi.africa/v1/competitions/challenge-2''
           (headers selected_session) (JStr ''mock_token'') ''challenge-2''],
         rank := Some (JInt 0),
         out := [Rank_on_leaderboard ''not yet'' (JStr ''challenge-2'')]\<rparr>)"
  using my_rank_ordinal [where s = selected_session
      and a = "''https://api.zindi.africa/v1/competitions/challenge-2''"
      and token = "JStr ''mock_token''" and cd = "JObj [(''id'', JStr ''challenge-2'')]"
      and cid = "JStr ''challenge-2''" and cid_text = "''challenge-2''"
      and env = "always (mock_participation 2)" and response = "mock_participation 2"
      and entries = "[(''public_rank'', JInt 2)]" and n = 2]
    my_rank_ordinal [where s = selected_session
      and a = "''https://api.zindi.africa/v1/competitions/challenge-2''"
      and token = "JStr ''mock_token''" and cd = "JObj [(''id'', JStr ''challenge-2'')]"
      and cid = "JStr ''challenge-2''" and cid_text = "''challenge-2''"
      and env = "always (mock_participation 11)" and response = "mock_participation 11"
      and entries = "[(''public_rank'', JInt 11)]" and n = 11]
    my_rank_ordinal [where s = selected_session
      and a = "''https://api.zindi.africa/v1/competitions/challenge-2''"
      and token = "JStr ''mock_token''" and cd = "JObj [(''id'', JStr ''challenge-2'')]"
      and cid = "JStr ''challenge-2''" and cid_text = "''challenge-2''"
      and env = "always (mock_participation 21)" and response = "mock_participation 21"
      and entries = "[(''public_rank'', JInt 21)]" and n = 21]
    my_rank_ordinal [where s = selected_session
      and a = "''https://api.zindi.africa/v1/competitions/challenge-2''"
      and token = "JStr ''mock_token''" and cd = "JObj [(''id'', JStr ''challenge-2'')]"
      and cid = "JStr ''challenge-2''" and cid_text = "''challenge-2''"
      and env = "always (mock_participation 113)" and response = "mock_participation 113"
      and entries = "[(''public_rank'', JInt 113)]" and n = 113]
    my_rank_ordinal [where s = selected_session
      and a = "''https://api.zindi.africa/v1/competitions/challenge-2''"
      and token = "JStr ''mock_token''" and cd = "JObj [(''id'', JStr ''challenge-2'')]"
      and cid = "JStr ''challenge-2''" and cid_text = "''challenge-2''"
      and env = "always mock_no_rank" and response = mock_no_rank
      and entries = "[(''public_rank'', JNull)]" and n = 0]
  by (simp add: selected_session_def signed_in_def mock_auth_def always_def
      mock_participation_def mock_no_rank_def str_int_def str_nat.simps digit_char_def
      ordinal_suffix_def)

lemma remaining_selected:
  assumes "challenge_selected s"
    and "api s = Some a"
    and "getitem (auth_data s) ''auth_token'' = Inr token"
  shows "remaining_subimissions env s =
     (case env (calls s) (limits_call a (headers s) token) of
        Inl e \<Rightarrow> (Inl e, s\<lparr>calls := calls s @ [limits_call a (headers s) token]\<rparr>)
      | Inr response \<Rightarrow>
          (case getitem response ''data'' of
             Inl e \<Rightarrow> (Inl e, s\<lparr>calls := calls s @ [limits_call a (headers s) token]\<rparr>)
           | Inr d \<Rightarrow>
               (case py_in ''errors'' d of
                  Inl e \<Rightarrow> (Inl e, s\<lparr>calls := calls s @ [limits_call a (headers s) token]\<rparr>)
                | Inr True \<Rightarrow>
                    (case getitem d ''errors'' of
                       Inl e \<Rightarrow> (Inl e, s\<lparr>calls := calls s @ [limits_call a (headers s) token]\<rparr>)
                     | Inr errs \<Rightarrow>
                         (Inl (Exception (Errors errs)),
                          s\<lparr>calls := calls s @ [limits_call a (headers s) token]\<rparr>))
                | Inr False \<Rightarrow>
                    (case getitem d ''today'' of
                       Inl e \<Rightarrow> (Inl e, s\<lparr>calls := calls s @ [limits_call a (headers s) token]\<rparr>)
                     | Inr v \<Rightarrow>
                         (case challenge_data s of
                            None \<Rightarrow> (Inl (AttributeError ''__challenge_data''),
                                      s\<lparr>calls := calls s @ [limits_call a (headers s) token]\<rparr>)
                          | Some cd \<Rightarrow>
                              (case getitem cd ''id'' of
                                 Inl e \<Rightarrow> (Inl e, s\<lparr>calls := calls s @ [limits_call a (headers s) token]\<rparr>)
                               | Inr cid \<Rightarrow>
                                   (Inr (Some v),
                                    s\<lparr>calls := calls s @ [limits_call a (headers s) token],
                                      out := out s @ [Remaining v cid]\<rparr>)))))))"
  using assms
  by (simp add: remaining_subimissions_def bind_get_attr bind_auth_token bind_do_call bind_lift
      bind_challenge_id_of raise_errors_def py_raise_def py_return_def
      split: sum.splits bool.splits option.splits)

text \<open>
  C1, as the code has it. With a challenge selected, \<^verbatim>\<open>remaining_subimissions\<close> makes one
  call and no other, the GET of the limits endpoint of the challenge: it reads neither the
  pages of the challenge nor the submission board. When the \<^verbatim>\<open>data\<close> of the response has
  \<^verbatim>\<open>errors\<close> it raises an exception that carries them; otherwise it prints and returns the
  value of \<^verbatim>\<open>today\<close> of the response as it is, with no subtraction and no lower bound.
\<close>

theorem remaining_from_limits:
  assumes sel: "challenge_selected s"
    and api: "api s = Some a"
    and tok: "getitem (auth_data s) ''auth_token'' = Inr token"
  shows
    "calls (snd (remaining_subimissions env s)) = calls s @ [limits_call a (headers s) token] \<and>
     (env (calls s) (limits_call a (headers s) token) = Inr response \<and>
      getitem response ''data'' = Inr d \<and> py_in ''errors'' d = Inr True \<and>
      getitem d ''errors'' = Inr errs \<longrightarrow>
        remaining_subimissions env s =
          (Inl (Exception (Errors errs)),
           s\<lparr>calls := calls s @ [limits_call a (headers s) token]\<rparr>)) \<and>
     (env (calls s) (limits_call a (headers s) token) = Inr response \<and>
      getitem response ''data'' = Inr d \<and> py_in ''errors'' d = Inr False \<and>
      getitem d ''today'' = Inr v \<and> challenge_data s = Some cd \<and> getitem cd ''id'' = Inr cid \<longrightarrow>
        remaining_subimissions env s =
          (Inr (Some v),
           s\<lparr>calls := calls s @ [limits_call a (headers s) token],
             out := out s @ [Remaining v cid]\<rparr>))"
proof (intro conjI impI)
  show "calls (snd (remaining_subimissions env s)) =
      calls s @ [limits_call a (headers s) token]"
    by (simp add: remaining_selected [OF sel api tok]
        split: sum.splits bool.splits option.splits)
  show "remaining_subimissions env s =
          (Inl (Exception (Errors errs)),
           s\<lparr>calls := calls s @ [limits_call a (headers s) token]\<rparr>)"
    if "env (calls s) (limits_call a (headers s) token) = Inr response \<and>
      getitem response ''data'' = Inr d \<and> py_in ''errors'' d = Inr True \<and>
      getitem d ''errors'' = Inr errs"
    using that by (simp add: remaining_selected [OF sel api tok])
  show "remaining_subimissions env s =
          (Inr (Some v),
           s\<lparr>calls := calls s @ [limits_call a (headers s) token],
             out := out s @ [Remaining v cid]\<rparr>)"
    if "env (calls s) (limits_call a (headers s) token) = Inr response \<and>
      getitem response ''data'' = Inr d \<and> py_in ''errors'' d = Inr False \<and>
      getitem d ''today'' = Inr v \<and> challenge_data s = Some cd \<and> getitem cd ''id'' = Inr cid"
    using that by (simp add: remaining_selected [OF sel api tok])
qed

theorem remaining_from_limits_witness:
  "challenge_selected selected_session \<and>
   remaining_subimissions (claim_service 4) selected_session =
     (Inr (Some (JInt 4)),
      selected_session\<lparr>calls := [limits_call ''https://api.zindi.africa/v1/competitions/challenge-2''
           (headers selected_session) (JStr ''mock_token'')],
         out := [Remaining (JInt 4) (JStr ''challenge-2'')]\<rparr>) \<and>
   fst (remaining_subimissions (claim_service (- 2)) selected_session) = Inr (Some (JInt (- 2))) \<and>
   remaining_subimissions (always (JObj [(''data'', JObj [(''errors'', JStr ''Not allowed'')])]))
       selected_session =
     (Inl (Exception (Errors (JStr ''Not allowed''))),
      selected_session\<lparr>calls := [limits_call ''https://api.zindi.africa/v1/competitions/challenge-2''
           (headers selected_session) (JStr ''mock_token'')]\<rparr>)"
  using remaining_from_limits [where s = selected_session
      and a = "''https://api.zindi.africa/v1/competitions/challenge-2''"
      and token = "JStr ''mock_token''" and env = "claim_service 4"
      and response = "JObj [(''data'', JObj [(''today'', JInt 4)])]"
      and d = "JObj [(''today'', JInt 4)]" and v = "JInt 4"
      and cd = "JObj [(''id'', JStr ''challenge-2'')]" and cid = "JStr ''challenge-2''"]
    remaining_from_limits [where s = selected_session
      and a = "''https://api.zindi.africa/v1/competitions/challenge-2''"
      and token = "JStr ''mock_token''" and env = "claim_service (- 2)"
      and response = "JObj [(''data'', JObj [(''today'', JInt (- 2))])]"
      and d = "JObj [(''today'', JInt (- 2))]" and v = "JInt (- 2)"
      and cd = "JObj [(''id'', JStr ''challenge-2'')]" and cid = "JStr ''challenge-2''"]
    remaining_from_limits [where s = selected_session
      and a = "''https://api.zindi.africa/v1/competitions/challenge-2''"
      and token = "JStr ''mock_token''"
      and env = "always (JObj [(''data'', JObj [(''errors'', JStr ''Not allowed'')])])"
      and response = "JObj [(''data'', JObj [(''errors'', JStr ''Not allowed'')])]"
      and d = "JObj [(''errors'', JStr ''Not allowed'')]" and errs = "JStr ''Not allowed''"]
  by (simp add: selected_session_def signed_in_def mock_auth_def always_def claim_service_def
      limits_call_def)

text \<open>C1 as stated fails on the example of the specification itself: the rules give a
  quota of 5 and two board entries are of the last 24 hours, so that 3 remain by the
  claim, while the call returns the 1 of the limits endpoint, having asked for nothing
  else.\<close>

theorem remaining_ignores_rules_and_board:
  "spec_quota claim_pages = 5 \<and>
   spec_count_today claim_now claim_board = 2 \<and>
   spec_remaining claim_pages claim_board claim_now = 3 \<and>
   remaining_subimissions (claim_service 1) selected_session =
     (Inr (Some (JInt 1)),
      selected_session\<lparr>calls := [limits_call ''https://api.zindi.africa/v1/competitions/challenge-2''
           (headers selected_session) (JStr ''mock_token'')],
         out := [Remaining (JInt 1) (JStr ''challenge-2'')]\<rparr>)"
proof -
  have q: "spec_quota claim_pages = 5"
    by (simp add: claim_pages_def quota_here_def is_digit_def digit_value_def number_of_def)
  have n: "spec_count_today claim_now claim_board = 2"
    by (simp add: claim_board_def claim_now_def spec_count_today_def)
  have r: "spec_remaining claim_pages claim_board claim_now = 3"
    by (simp add: spec_remaining_def q n)
  have c: "remaining_subimissions (claim_service 1) selected_session =
     (Inr (Some (JInt 1)),
      selected_session\<lparr>calls := [limits_call ''https://api.zindi.africa/v1/competitions/challenge-2''
           (headers selected_session) (JStr ''mock_token'')],
         out := [Remaining (JInt 1) (JStr ''challenge-2'')]\<rparr>)"
    by (simp add: remaining_subimissions_def bind_get_attr bind_auth_token bind_do_call
        bind_challenge_id_of py_return_def selected_session_def signed_in_def mock_auth_def
        claim_service_def limits_call_def)
  from q n r c show ?thesis by blast
qed




lemma map_of_values:
  "map_of (map (\<lambda>kv. (fst kv, f (snd kv))) d) k = map_option f (map_of d k)"
  by (induction d) auto

lemma keys_card: "distinct (map fst d) \<Longrightarrow> card (set (map fst d)) = length d"
  using distinct_card [of "map fst d"] by simp

lemma distinct_keys_length:
  assumes "distinct (map fst d)" and "distinct (map fst e)"
    and "set (map fst d) = set (map fst e)"
  shows "length d = length e"
  using keys_card [OF assms(1)] keys_card [OF assms(2)] assms(3) by simp

lemma same_maps:
  assumes dd: "distinct (map fst d)" and de: "distinct (map fst e)"
  shows "(length d = length e \<and> (\<forall>kv \<in> set d. \<exists>v'. map_of e (fst kv) = Some v' \<and> f (snd kv) = f v')) =
         (map_of (map (\<lambda>kv. (fst kv, f (snd kv))) d) = map_of (map (\<lambda>kv. (fst kv, f (snd kv))) e))"
    (is "?L = ?R")
proof
  assume L: ?L
  have sub: "set (map fst d) \<subseteq> set (map fst e)"
  proof
    fix k assume "k \<in> set (map fst d)"
    then obtain kv where kv: "kv \<in> set d" "fst kv = k" by auto
    with L obtain v' where "map_of e k = Some v'" by blast
    then have "(k, v') \<in> set e" by (rule map_of_SomeD)
    then show "k \<in> set (map fst e)" by force
  qed
  have "card (set (map fst d)) = card (set (map fst e))"
    using L keys_card [OF dd] keys_card [OF de] by simp
  with sub have keys: "set (map fst d) = set (map fst e)"
    by (simp add: card_subset_eq)
  show ?R
  proof
    fix k
    show "map_of (map (\<lambda>kv. (fst kv, f (snd kv))) d) k =
          map_of (map (\<lambda>kv. (fst kv, f (snd kv))) e) k"
    proof (cases "map_of d k")
      case None
      then have "k \<notin> set (map fst d)" by (simp add: map_of_eq_None_iff)
      with keys have "k \<notin> set (map fst e)" by simp
      then have "map_of e k = None" by (simp add: map_of_eq_None_iff)
      with None show ?thesis by (simp add: map_of_values)
    next
      case (Some v)
      then have "(k, v) \<in> set d" by (rule map_of_SomeD)
      with L obtain v' where "map_of e k = Some v'" "f v = f v'" by force
      with Some show ?thesis by (simp add: map_of_values)
    qed
  qed
next
  assume R: ?R
  have eq: "map_option f (map_of d k) = map_option f (map_of e k)" for k
    using fun_cong [OF R, of k] by (simp add: map_of_values)
  have keys: "set (map fst d) = set (map fst e)"
  proof -
    have "k \<in> set (map fst d) \<longleftrightarrow> k \<in> set (map fst e)" for k
    proof -
      have "map_of d k = None \<longleftrightarrow> map_of e k = None"
        using eq [of k] by (cases "map_of d k"; cases "map_of e k") auto
      then show ?thesis by (simp add: map_of_eq_None_iff)
    qed
    then show ?thesis by blast
  qed
  have len: "length d = length e"
    using dd de keys by (rule distinct_keys_length)
  have "\<exists>v'. map_of e (fst kv) = Some v' \<and> f (snd kv) = f v'" if "kv \<in> set d" for kv
  proof -
    from that dd have "map_of d (fst kv) = Some (snd kv)" by simp
    with eq [of "fst kv"] show ?thesis by (cases "map_of e (fst kv)") auto
  qed
  with len show ?L by blast
qed

lemma py_eq_list_meaning:
  assumes "\<And>x y. x \<in> set xs \<Longrightarrow> decoded x \<Longrightarrow> decoded y \<Longrightarrow>
             py_eq x y = (meaning (unbool x) = meaning (unbool y))"
    and "list_all decoded xs" and "list_all decoded ys"
  shows "py_eq_list xs ys =
           (map (\<lambda>x. meaning (unbool x)) xs = map (\<lambda>x. meaning (unbool x)) ys)"
  using assms
proof (induction xs arbitrary: ys)
  case Nil
  then show ?case by auto
next
  case (Cons x xs)
  show ?case
  proof (cases ys)
    case Nil
    then show ?thesis by simp
  next
    case (Cons y ys')
    have "py_eq x y = (meaning (unbool x) = meaning (unbool y))"
      using Cons.prems Cons by simp
    moreover have "py_eq_list xs ys' =
        (map (\<lambda>x. meaning (unbool x)) xs = map (\<lambda>x. meaning (unbool x)) ys')"
      using Cons.IH [of ys'] Cons.prems Cons by simp
    ultimately show ?thesis using Cons by simp
  qed
qed

lemma py_eq_items_meaning:
  assumes "\<And>kv y. kv \<in> set d \<Longrightarrow> decoded (snd kv) \<Longrightarrow> decoded y \<Longrightarrow>
             py_eq (snd kv) y = (meaning (unbool (snd kv)) = meaning (unbool y))"
    and "list_all (\<lambda>kv. decoded (snd kv)) d"
    and e: "list_all (\<lambda>kv. decoded (snd kv)) e"
  shows "py_eq_items d e =
           (\<forall>kv \<in> set d. \<exists>v'. map_of e (fst kv) = Some v' \<and>
              meaning (unbool (snd kv)) = meaning (unbool v'))"
  using assms(1,2)
proof (induction d)
  case Nil
  show ?case by simp
next
  case (Cons kv d)
  obtain k v where kv: "kv = (k, v)" by (cases kv)
  have rest: "py_eq_items d e =
      (\<forall>kv \<in> set d. \<exists>v'. map_of e (fst kv) = Some v' \<and>
          meaning (unbool (snd kv)) = meaning (unbool v'))"
    using Cons.IH Cons.prems by simp
  show ?case
  proof (cases "map_of e k")
    case None
    then show ?thesis by (simp add: kv)
  next
    case (Some v')
    then have "(k, v') \<in> set e" by (rule map_of_SomeD)
    with e have "decoded v'" by (auto simp add: list_all_iff)
    then have "py_eq v v' = (meaning (unbool v) = meaning (unbool v'))"
      using Cons.prems(1) [of kv v'] Cons.prems(2) by (simp add: kv)
    with Some rest show ?thesis by (simp add: kv)
  qed
qed

lemma py_eq_meaning:
  "decoded a \<Longrightarrow> decoded b \<Longrightarrow> py_eq a b = (meaning (unbool a) = meaning (unbool b))"
proof (induction a arbitrary: b)
  case JNull
  show ?case by (cases b) (simp_all add: comp_def)
next
  case (JBool x)
  show ?case by (cases b) (simp_all add: comp_def)
next
  case (JInt x)
  show ?case by (cases b) (auto simp add: comp_def)
next
  case (JStr x)
  show ?case by (cases b) (auto simp add: comp_def)
next
  case (JList xs)
  show ?case
  proof (cases b)
    case (JList ys)
    have "py_eq_list xs ys =
        (map (\<lambda>x. meaning (unbool x)) xs = map (\<lambda>x. meaning (unbool x)) ys)"
      using JList.IH JList.prems JList by (intro py_eq_list_meaning) simp_all
    with JList show ?thesis by (simp add: comp_def)
  qed (simp_all add: comp_def)
next
  case (JObj d)
  show ?case
  proof (cases b)
    case (JObj e)
    have dd: "distinct (map fst d)" and de: "distinct (map fst e)"
      and vd: "list_all (\<lambda>kv. decoded (snd kv)) d" and ve: "list_all (\<lambda>kv. decoded (snd kv)) e"
      using JObj.prems JObj by simp_all
    have ih: "py_eq (snd kv) y = (meaning (unbool (snd kv)) = meaning (unbool y))"
      if "kv \<in> set d" "decoded (snd kv)" "decoded y" for kv y
      using JObj.IH [of kv "snd kv" y] that by (cases kv) simp
    have "py_eq_items d e =
           (\<forall>kv \<in> set d. \<exists>v'. map_of e (fst kv) = Some v' \<and>
              meaning (unbool (snd kv)) = meaning (unbool v'))"
      using ih vd ve by (rule py_eq_items_meaning)
    then have "py_eq (JObj d) (JObj e) =
        (map_of (map (\<lambda>kv. (fst kv, meaning (unbool (snd kv)))) d) =
         map_of (map (\<lambda>kv. (fst kv, meaning (unbool (snd kv)))) e))"
      using same_maps [OF dd de, of "\<lambda>v. meaning (unbool v)"] by simp
    with JObj show ?thesis by (simp add: comp_def)
  qed (simp_all add: comp_def)
qed

lemma unbool_no_bool: "no_bool a \<Longrightarrow> unbool a = a"
proof (induction a)
  case (JList xs)
  then have "map unbool xs = xs" by (simp add: list_all_iff map_idI)
  then show ?case by simp
next
  case (JObj d)
  have "(fst kv, unbool (snd kv)) = kv" if "kv \<in> set d" for kv
    using JObj.IH [of kv "snd kv"] JObj.prems that by (cases kv) (force simp add: list_all_iff)
  then have "map (\<lambda>kv. (fst kv, unbool (snd kv))) d = d" by (simp add: map_idI)
  then show ?case by simp
qed simp_all

lemma remove_duplicates_first_seen:
  "remove_duplicates acc xs =
     acc @ first_seen_by py_eq (filter (\<lambda>y. \<not> list_ex (\<lambda>e. py_eq e y) acc) xs)"
proof (induction xs arbitrary: acc)
  case Nil
  show ?case by simp
next
  case (Cons i rest)
  show ?case
  proof (cases "list_ex (\<lambda>e. py_eq e i) acc")
    case True
    then show ?thesis using Cons.IH [of acc] by simp
  next
    case False
    have "filter (\<lambda>y. \<not> list_ex (\<lambda>e. py_eq e y) (acc @ [i])) rest =
          filter (\<lambda>y. \<not> py_eq i y) (filter (\<lambda>y. \<not> list_ex (\<lambda>e. py_eq e y) acc) rest)"
      by (auto intro: filter_cong)
    with False show ?thesis using Cons.IH [of "acc @ [i]"] by simp
  qed
qed

lemma set_first_seen_by: "set (first_seen_by eq xs) \<subseteq> set xs"
proof (induction eq xs rule: first_seen_by.induct)
  case (1 eq)
  show ?case by simp
next
  case (2 eq x xs)
  have "set (filter (\<lambda>y. \<not> eq x y) xs) \<subseteq> set xs" by simp
  with 2 have "set (first_seen_by eq (filter (\<lambda>y. \<not> eq x y) xs)) \<subseteq> set xs"
    by (rule subset_trans)
  then show ?case by (simp add: subset_insertI2)
qed

lemma first_seen_by_no_equal_pair: "sorted_wrt (\<lambda>a b. \<not> eq a b) (first_seen_by eq xs)"
proof (induction eq xs rule: first_seen_by.induct)
  case (1 eq)
  show ?case by simp
next
  case (2 eq x xs)
  have a: "\<forall>y \<in> set (filter (\<lambda>y. \<not> eq x y) xs). \<not> eq x y"
    by simp
  have b: "\<forall>y \<in> set (first_seen_by eq (filter (\<lambda>y. \<not> eq x y) xs)). \<not> eq x y"
    using a set_first_seen_by [of eq "filter (\<lambda>y. \<not> eq x y) xs"] by blast
  have "sorted_wrt (\<lambda>a b. \<not> eq a b) (x # first_seen_by eq (filter (\<lambda>y. \<not> eq x y) xs))"
    using 2 b by (simp only: sorted_wrt.simps)
  then show ?case by (simp only: first_seen_by.simps)
qed

lemma first_seen_by_cong:
  "(\<And>x y. x \<in> set xs \<Longrightarrow> y \<in> set xs \<Longrightarrow> eq x y = eq' x y) \<Longrightarrow>
   first_seen_by eq xs = first_seen_by eq' xs"
proof (induction eq xs rule: first_seen_by.induct)
  case (1 eq)
  show ?case by simp
next
  case (2 eq x xs)
  have f: "filter (\<lambda>y. \<not> eq x y) xs = filter (\<lambda>y. \<not> eq' x y) xs"
    using "2.prems" by (intro filter_cong) simp_all
  have "first_seen_by eq (filter (\<lambda>y. \<not> eq x y) xs) =
        first_seen_by eq' (filter (\<lambda>y. \<not> eq x y) xs)"
    using "2.prems" by (intro "2.IH") simp_all
  then show ?case by (simp only: first_seen_by.simps f)
qed

lemma first_seen_python_is_full:
  assumes "list_all decoded xs"
  shows "first_seen_by py_eq xs =
           first_seen_by (\<lambda>a b. same_record (unbool a) (unbool b)) xs"
  using assms
  by (intro first_seen_by_cong) (simp add: same_record_def py_eq_meaning list_all_iff)

lemma first_seen_no_bool_is_full:
  assumes "list_all decoded xs" and "list_all no_bool xs"
  shows "first_seen_by py_eq xs = first_seen_by same_record xs"
  using assms
  by (intro first_seen_by_cong)
     (simp add: same_record_def py_eq_meaning unbool_no_bool list_all_iff)

lemma for_each_download:
  assumes ok: "\<And>history name. \<not> isl (env history (download_call url d h name))"
    and names: "map (\<lambda>r. getitem r ''filename'') rs = map (\<lambda>n. Inr (JStr n)) names"
  shows "for_each (download_one env url d h) rs s =
           (Inr (), s\<lparr>calls := calls s @ map (download_call url d h) names\<rparr>)"
  using names
proof (induction rs arbitrary: s names)
  case Nil
  then show ?case by (simp add: py_return_def)
next
  case (Cons r rs)
  from Cons.prems obtain n ns where ns: "names = n # ns"
    and r: "getitem r ''filename'' = Inr (JStr n)"
    and rest: "map (\<lambda>r. getitem r ''filename'') rs = map (\<lambda>n. Inr (JStr n)) ns"
    by (cases names) auto
  from ok [of "calls s" n] obtain v where v: "env (calls s) (download_call url d h n) = Inr v"
    by (cases "env (calls s) (download_call url d h n)") auto
  have step: "download_one env url d h r s =
      (Inr (), s\<lparr>calls := calls s @ [download_call url d h n]\<rparr>)"
    by (simp add: download_one_eq r v)
  show ?case
    using Cons.IH [OF rest, of "s\<lparr>calls := calls s @ [download_call url d h n]\<rparr>"]
    by (simp add: bind_def step ns)
qed

lemma download_files_ok:
  assumes "api s = Some url"
    and "getitem (auth_data s) ''auth_token'' = Inr token"
    and "env (calls s) (manifest_call url (headers s) token) = Inr response"
    and "getitem response ''data'' = Inr response_data"
    and "getitem response_data ''datafiles'' = Inr (JList items)"
    and "map (\<lambda>r. getitem r ''filename'') (remove_duplicates [] items) =
           map (\<lambda>n. Inr (JStr n)) names"
    and "\<And>history name. \<not> isl (env history
           (download_call url destination (dict_set (headers s) ''auth_token'' token) name))"
  shows "download_files env destination s =
           (Inr (),
            s\<lparr>calls := calls s @ manifest_call url (headers s) token #
                 map (download_call url destination (dict_set (headers s) ''auth_token'' token))
                   names\<rparr>)"
proof -
  have loop: "for_each (download_one env url destination (dict_set (headers s) ''auth_token'' token))
          (remove_duplicates [] items)
          (s\<lparr>calls := calls s @ [manifest_call url (headers s) token]\<rparr>) =
        (Inr (), s\<lparr>calls := calls s @ manifest_call url (headers s) token #
                 map (download_call url destination (dict_set (headers s) ''auth_token'' token))
                   names\<rparr>)"
    using for_each_download [of env url destination "dict_set (headers s) ''auth_token'' token"
        "remove_duplicates [] items" names
        "s\<lparr>calls := calls s @ [manifest_call url (headers s) token]\<rparr>"]
      assms(6,7) by simp
  show ?thesis
    using assms(1-5)
    by (simp add: download_files_def bind_auth_token bind_get_attr bind_do_call loop)
qed

text \<open>
  C6, as the code has it. \<^verbatim>\<open>download_dataset\<close> keeps of the fetched records the first of
  each kind, in the order in which they came, where two records are of a kind when the
  \<^verbatim>\<open>==\<close> of Python holds between them. On decoded values that is full equality of the records
  (the same keys with the same values, in any order) once \<^verbatim>\<open>true\<close> and \<^verbatim>\<open>false\<close> are read as 1
  and 0; on a manifest without booleans it is full equality of the records as they are. No
  two records kept are equal. With a challenge selected, a destination that is or can be
  made a directory, a manifest that is a list whose kept records have a file name each, and
  no download that fails, the calls are the request for the manifest and then one \<^verbatim>\<open>download\<close>
  for each record kept, in that order.
\<close>

theorem download_once_per_record:
  assumes "challenge_selected s"
    and "api s = Some url"
    and "getitem (auth_data s) ''auth_token'' = Inr token"
    and "destination \<in> set (dirs s) \<or> \<not> make_destination \<or>
         makedirs_error s destination = None"
    and "env (calls s) (manifest_call url (headers s) token) = Inr response"
    and "getitem response ''data'' = Inr response_data"
    and "getitem response_data ''datafiles'' = Inr (JList items)"
    and "map (\<lambda>r. getitem r ''filename'') (remove_duplicates [] items) =
           map (\<lambda>n. Inr (JStr n)) names"
    and "\<And>history name. \<not> isl (env history
           (download_call url destination (dict_set (headers s) ''auth_token'' token) name))"
  shows "remove_duplicates [] items = first_seen_by py_eq items \<and>
         (list_all decoded items \<longrightarrow>
            remove_duplicates [] items =
              first_seen_by (\<lambda>a b. same_record (unbool a) (unbool b)) items) \<and>
         (list_all decoded items \<and> list_all no_bool items \<longrightarrow>
            remove_duplicates [] items = first_seen_by same_record items) \<and>
         sorted_wrt (\<lambda>a b. \<not> py_eq a b) (remove_duplicates [] items) \<and>
         fst (download_dataset env destination make_destination s) = Inr () \<and>
         calls (snd (download_dataset env destination make_destination s)) =
           calls s @ manifest_call url (headers s) token #
             map (download_call url destination (dict_set (headers s) ''auth_token'' token)) names"
proof -
  have dedup: "remove_duplicates [] items = first_seen_by py_eq items"
    by (simp add: remove_duplicates_first_seen)
  have full: "list_all decoded items \<longrightarrow>
      remove_duplicates [] items =
        first_seen_by (\<lambda>a b. same_record (unbool a) (unbool b)) items"
    using first_seen_python_is_full [of items] by (simp only: dedup) blast
  have plain: "list_all decoded items \<and> list_all no_bool items \<longrightarrow>
      remove_duplicates [] items = first_seen_by same_record items"
    using first_seen_no_bool_is_full [of items] by (simp only: dedup) blast
  have pairs: "sorted_wrt (\<lambda>a b. \<not> py_eq a b) (remove_duplicates [] items)"
    by (simp only: dedup first_seen_by_no_equal_pair)
  have run: "fst (download_dataset env destination make_destination s) = Inr () \<and>
         calls (snd (download_dataset env destination make_destination s)) =
           calls s @ manifest_call url (headers s) token #
             map (download_call url destination (dict_set (headers s) ''auth_token'' token)) names"
  proof (cases "destination \<in> set (dirs s) \<or> \<not> make_destination")
    case True
    then have "download_dataset env destination make_destination s =
        download_files env destination s"
      using assms(1) by (auto simp add: download_dataset_def)
    then show ?thesis
      using download_files_ok [of s url token env response response_data items names destination]
        assms by simp
  next
    case False
    with assms(4) have d: "makedirs_error s destination = None"
      "destination \<notin> set (dirs s)" "make_destination" by auto
    have "download_dataset env destination make_destination s =
        download_files env destination (s\<lparr>dirs := dirs s @ new_dirs s destination\<rparr>)"
      using assms(1) d by (simp add: download_dataset_def bind_makedirs)
    then show ?thesis
      using download_files_ok [of "s\<lparr>dirs := dirs s @ new_dirs s destination\<rparr>" url token env
          response response_data items names destination]
        assms by simp
  qed
  from dedup full plain pairs run show ?thesis by blast
qed

theorem download_once_per_record_witness:
  "challenge_selected selected_session \<and>
   list_all decoded mock_datafiles \<and> list_all no_bool mock_datafiles \<and>
   remove_duplicates [] mock_datafiles =
     [JObj [(''filename'', JStr ''Train.csv''), (''id'', JStr ''df-1'')],
      JObj [(''filename'', JStr ''Test.csv''), (''id'', JStr ''df-2'')],
      JObj [(''filename'', JStr ''Train.csv''), (''id'', JStr ''df-9'')]] \<and>
   first_seen_by same_record mock_datafiles =
     [JObj [(''filename'', JStr ''Train.csv''), (''id'', JStr ''df-1'')],
      JObj [(''filename'', JStr ''Test.csv''), (''id'', JStr ''df-2'')],
      JObj [(''filename'', JStr ''Train.csv''), (''id'', JStr ''df-9'')]] \<and>
   fst (download_dataset (always mock_manifest) ''./mock_dataset'' True selected_session) = Inr () \<and>
   calls (snd (download_dataset (always mock_manifest) ''./mock_dataset'' True selected_session)) =
     [Http GET ''https://api.zindi.africa/v1/competitions/challenge-2''
        (JObj [(''headers'', JObj [(''User-Agent'', JStr ''Mozilla/5.0 (Windows NT 10.0; Win64; x64) AppleWebKit/537.36 (KHTML, like Gecko) Chrome/144.0.0.0 Safari/537.36''),
                                   (''auth_token'', JStr ''mock_token'')]),
               (''data'', JObj [(''auth_token'', JStr ''mock_token'')])]),
      Helper ''download''
        (JObj [(''url'', JStr ''https://api.zindi.africa/v1/competitions/challenge-2/files/Train.csv''),
               (''filename'', JStr ''./mock_dataset/Train.csv''),
               (''headers'', JObj [(''User-Agent'', JStr ''Mozilla/5.0 (Windows NT 10.0; Win64; x64) AppleWebKit/537.36 (KHTML, like Gecko) Chrome/144.0.0.0 Safari/537.36''),
                                   (''auth_token'', JStr ''mock_token'')])]),
      Helper ''download''
        (JObj [(''url'', JStr ''https://api.zindi.africa/v1/competitions/challenge-2/files/Test.csv''),
               (''filename'', JStr ''./mock_dataset/Test.csv''),
               (''headers'', JObj [(''User-Agent'', JStr ''Mozilla/5.0 (Windows NT 10.0; Win64; x64) AppleWebKit/537.36 (KHTML, like Gecko) Chrome/144.0.0.0 Safari/537.36''),
                                   (''auth_token'', JStr ''mock_token'')])]),
      Helper ''download''
        (JObj [(''url'', JStr ''https://api.zindi.africa/v1/competitions/challenge-2/files/Train.csv''),
               (''filename'', JStr ''./mock_dataset/Train.csv''),
               (''headers'', JObj [(''User-Agent'', JStr ''Mozilla/5.0 (Windows NT 10.0; Win64; x64) AppleWebKit/537.36 (KHTML, like Gecko) Chrome/144.0.0.0 Safari/537.36''),
                                   (''auth_token'', JStr ''mock_token'')])])]"
proof -
  have sel: "challenge_selected selected_session"
    by (simp add: selected_session_def)
  have api: "api selected_session = Some ''https://api.zindi.africa/v1/competitions/challenge-2''"
    by (simp add: selected_session_def)
  have tok: "getitem (auth_data selected_session) ''auth_token'' = Inr (JStr ''mock_token'')"
    by (simp add: selected_session_def signed_in_def mock_auth_def)
  have dest: "''./mock_dataset'' \<in> set (dirs selected_session) \<or> \<not> True \<or>
      makedirs_error selected_session ''./mock_dataset'' = None"
    by (simp add: selected_session_def signed_in_def makedirs_error_def parents_def)
  have ans: "always mock_manifest (calls selected_session)
      (manifest_call ''https://api.zindi.africa/v1/competitions/challenge-2''
         (headers selected_session) (JStr ''mock_token'')) = Inr mock_manifest"
    by (simp add: always_def)
  have dat: "getitem mock_manifest ''data'' =
      Inr (JObj [(''id'', JStr ''challenge-2''), (''datafiles'', JList mock_datafiles)])"
    by (simp add: mock_manifest_def)
  have files: "getitem (JObj [(''id'', JStr ''challenge-2''), (''datafiles'', JList mock_datafiles)])
      ''datafiles'' = Inr (JList mock_datafiles)"
    by simp
  have kept: "remove_duplicates [] mock_datafiles =
     [JObj [(''filename'', JStr ''Train.csv''), (''id'', JStr ''df-1'')],
      JObj [(''filename'', JStr ''Test.csv''), (''id'', JStr ''df-2'')],
      JObj [(''filename'', JStr ''Train.csv''), (''id'', JStr ''df-9'')]]"
    by (simp add: mock_datafiles_def)
  have names: "map (\<lambda>r. getitem r ''filename'') (remove_duplicates [] mock_datafiles) =
      map (\<lambda>n. Inr (JStr n)) [''Train.csv'', ''Test.csv'', ''Train.csv'']"
    by (simp add: kept)
  have ok: "\<not> isl (always mock_manifest history
      (download_call ''https://api.zindi.africa/v1/competitions/challenge-2'' ''./mock_dataset''
         (dict_set (headers selected_session) ''auth_token'' (JStr ''mock_token'')) name))"
    for history name
    by (simp add: always_def)
  have dec: "list_all decoded mock_datafiles" and nob: "list_all no_bool mock_datafiles"
    by (simp_all add: mock_datafiles_def)
  note inst = download_once_per_record [where s = selected_session
      and url = "''https://api.zindi.africa/v1/competitions/challenge-2''"
      and token = "JStr ''mock_token''" and destination = "''./mock_dataset''"
      and make_destination = True and env = "always mock_manifest"
      and response = mock_manifest
      and response_data = "JObj [(''id'', JStr ''challenge-2''), (''datafiles'', JList mock_datafiles)]"
      and items = mock_datafiles and names = "[''Train.csv'', ''Test.csv'', ''Train.csv'']",
      OF sel api tok dest ans dat files names ok]
  from inst dec nob have full: "remove_duplicates [] mock_datafiles =
      first_seen_by same_record mock_datafiles"
    by blast
  from inst have run: "fst (download_dataset (always mock_manifest) ''./mock_dataset'' True
        selected_session) = Inr ()"
    and cs: "calls (snd (download_dataset (always mock_manifest) ''./mock_dataset'' True
        selected_session)) =
      calls selected_session @
      manifest_call ''https://api.zindi.africa/v1/competitions/challenge-2''
        (headers selected_session) (JStr ''mock_token'') #
      map (download_call ''https://api.zindi.africa/v1/competitions/challenge-2'' ''./mock_dataset''
             (dict_set (headers selected_session) ''auth_token'' (JStr ''mock_token'')))
        [''Train.csv'', ''Test.csv'', ''Train.csv'']"
    by blast+
  have explicit: "calls selected_session @
      manifest_call ''https://api.zindi.africa/v1/competitions/challenge-2''
        (headers selected_session) (JStr ''mock_token'') #
      map (download_call ''https://api.zindi.africa/v1/competitions/challenge-2'' ''./mock_dataset''
             (dict_set (headers selected_session) ''auth_token'' (JStr ''mock_token'')))
        [''Train.csv'', ''Test.csv'', ''Train.csv''] =
     [Http GET ''https://api.zindi.africa/v1/competitions/challenge-2''
        (JObj [(''headers'', JObj [(''User-Agent'', JStr ''Mozilla/5.0 (Windows NT 10.0; Win64; x64) AppleWebKit/537.36 (KHTML, like Gecko) Chrome/144.0.0.0 Safari/537.36''),
                                   (''auth_token'', JStr ''mock_token'')]),
               (''data'', JObj [(''auth_token'', JStr ''mock_token'')])]),
      Helper ''download''
        (JObj [(''url'', JStr ''https://api.zindi.africa/v1/competitions/challenge-2/files/Train.csv''),
               (''filename'', JStr ''./mock_dataset/Train.csv''),
               (''headers'', JObj [(''User-Agent'', JStr ''Mozilla/5.0 (Windows NT 10.0; Win64; x64) AppleWebKit/537.36 (KHTML, like Gecko) Chrome/144.0.0.0 Safari/537.36''),
                                   (''auth_token'', JStr ''mock_token'')])]),
      Helper ''download''
        (JObj [(''url'', JStr ''https://api.zindi.africa/v1/competitions/challenge-2/files/Test.csv''),
               (''filename'', JStr ''./mock_dataset/Test.csv''),
               (''headers'', JObj [(''User-Agent'', JStr ''Mozilla/5.0 (Windows NT 10.0; Win64; x64) AppleWebKit/537.36 (KHTML, like Gecko) Chrome/144.0.0.0 Safari/537.36''),
                                   (''auth_token'', JStr ''mock_token'')])]),
      Helper ''download''
        (JObj [(''url'', JStr ''https://api.zindi.africa/v1/competitions/challenge-2/files/Train.csv''),
               (''filename'', JStr ''./mock_dataset/Train.csv''),
               (''headers'', JObj [(''User-Agent'', JStr ''Mozilla/5.0 (Windows NT 10.0; Win64; x64) AppleWebKit/537.36 (KHTML, like Gecko) Chrome/144.0.0.0 Safari/537.36''),
                                   (''auth_token'', JStr ''mock_token'')])])]"
    by (simp add: manifest_call_def download_call_def path_join_def selected_session_def
        signed_in_def)
  show ?thesis
    using sel dec nob kept full [symmetric] run cs [unfolded explicit]
    by (simp only: simp_thms)
qed


text \<open>C6, the case that refutes the sentence as written. A manifest lists the file
  \<^verbatim>\<open>Train.csv\<close> twice, once with id \<^verbatim>\<open>1\<close> and once with id \<^verbatim>\<open>true\<close>. The two
  records are not equal as records (their ids differ), so first-seen de-duplication by full
  record equality keeps both; Python's \<^verbatim>\<open>in\<close> compares with \<^verbatim>\<open>==\<close>, for which
  \<^verbatim>\<open>1 == True\<close>, so the code keeps only the first and downloads one file.\<close>

theorem bool_records_merged:
  "\<not> same_record (JObj [(''filename'', JStr ''Train.csv''), (''id'', JInt 1)])
                   (JObj [(''filename'', JStr ''Train.csv''), (''id'', JBool True)]) \<and>
   first_seen_by same_record bool_datafiles =
     [JObj [(''filename'', JStr ''Train.csv''), (''id'', JInt 1)],
      JObj [(''filename'', JStr ''Train.csv''), (''id'', JBool True)]] \<and>
   remove_duplicates [] bool_datafiles =
     [JObj [(''filename'', JStr ''Train.csv''), (''id'', JInt 1)]] \<and>
   fst (download_dataset (always bool_manifest) ''./mock_dataset'' True selected_session) = Inr () \<and>
   calls (snd (download_dataset (always bool_manifest) ''./mock_dataset'' True selected_session)) =
     [Http GET ''https://api.zindi.africa/v1/competitions/challenge-2''
        (JObj [(''headers'', JObj [(''User-Agent'', JStr ''Mozilla/5.0 (Windows NT 10.0; Win64; x64) AppleWebKit/537.36 (KHTML, like Gecko) Chrome/144.0.0.0 Safari/537.36''),
                                   (''auth_token'', JStr ''mock_token'')]),
               (''data'', JObj [(''auth_token'', JStr ''mock_token'')])]),
      Helper ''download''
        (JObj [(''url'', JStr ''https://api.zindi.africa/v1/competitions/challenge-2/files/Train.csv''),
               (''filename'', JStr ''./mock_dataset/Train.csv''),
               (''headers'', JObj [(''User-Agent'', JStr ''Mozilla/5.0 (Windows NT 10.0; Win64; x64) AppleWebKit/537.36 (KHTML, like Gecko) Chrome/144.0.0.0 Safari/537.36''),
                                   (''auth_token'', JStr ''mock_token'')])])]"
proof -
  let ?a = "JObj [(''filename'', JStr ''Train.csv''), (''id'', JInt 1)]"
  let ?b = "JObj [(''filename'', JStr ''Train.csv''), (''id'', JBool True)]"
  have differ: "\<not> same_record ?a ?b"
  proof
    assume "same_record ?a ?b"
    hence "meaning ?a = meaning ?b"
      by (simp only: same_record_def)
    hence "(case meaning ?a of VObj f \<Rightarrow> f ''id'' | _ \<Rightarrow> None) =
           (case meaning ?b of VObj f \<Rightarrow> f ''id'' | _ \<Rightarrow> None)"
      by (simp only:)
    thus False
      by simp
  qed
  have full: "first_seen_by same_record bool_datafiles = [?a, ?b]"
    using differ by (simp add: bool_datafiles_def)
  have kept: "remove_duplicates [] bool_datafiles = [?a]"
    by (simp add: bool_datafiles_def)
  let ?s = "selected_session\<lparr>dirs := dirs selected_session @
      new_dirs selected_session ''./mock_dataset''\<rparr>"
  have step: "download_dataset (always bool_manifest) ''./mock_dataset'' True selected_session =
      download_files (always bool_manifest) ''./mock_dataset'' ?s"
    by (simp add: download_dataset_def bind_makedirs selected_session_def signed_in_def
        makedirs_error_def parents_def)
  have api: "api ?s = Some ''https://api.zindi.africa/v1/competitions/challenge-2''"
    by (simp add: selected_session_def)
  have tok: "getitem (auth_data ?s) ''auth_token'' = Inr (JStr ''mock_token'')"
    by (simp add: selected_session_def signed_in_def mock_auth_def)
  have ans: "always bool_manifest (calls ?s)
      (manifest_call ''https://api.zindi.africa/v1/competitions/challenge-2''
         (headers ?s) (JStr ''mock_token'')) = Inr bool_manifest"
    by (simp add: always_def)
  have dat: "getitem bool_manifest ''data'' =
      Inr (JObj [(''id'', JStr ''challenge-2''), (''datafiles'', JList bool_datafiles)])"
    by (simp add: bool_manifest_def)
  have files: "getitem (JObj [(''id'', JStr ''challenge-2''), (''datafiles'', JList bool_datafiles)])
      ''datafiles'' = Inr (JList bool_datafiles)"
    by simp
  have names: "map (\<lambda>r. getitem r ''filename'') (remove_duplicates [] bool_datafiles) =
      map (\<lambda>n. Inr (JStr n)) [''Train.csv'']"
    by (simp add: kept)
  have ok: "\<not> isl (always bool_manifest history
      (download_call ''https://api.zindi.africa/v1/competitions/challenge-2'' ''./mock_dataset''
         (dict_set (headers ?s) ''auth_token'' (JStr ''mock_token'')) name))"
    for history name
    by (simp add: always_def)
  note inst = download_files_ok [where s = ?s
      and url = "''https://api.zindi.africa/v1/competitions/challenge-2''"
      and token = "JStr ''mock_token''" and destination = "''./mock_dataset''"
      and env = "always bool_manifest"
      and response = bool_manifest
      and response_data = "JObj [(''id'', JStr ''challenge-2''), (''datafiles'', JList bool_datafiles)]"
      and items = bool_datafiles and names = "[''Train.csv'']",
      OF api tok ans dat files names ok]
  have run: "fst (download_dataset (always bool_manifest) ''./mock_dataset'' True selected_session) =
        Inr ()"
    by (simp only: step inst fst_conv)
  have cs: "calls (snd (download_dataset (always bool_manifest) ''./mock_dataset'' True
        selected_session)) =
      calls selected_session @
      manifest_call ''https://api.zindi.africa/v1/competitions/challenge-2''
        (headers selected_session) (JStr ''mock_token'') #
      map (download_call ''https://api.zindi.africa/v1/competitions/challenge-2'' ''./mock_dataset''
             (dict_set (headers selected_session) ''auth_token'' (JStr ''mock_token'')))
        [''Train.csv'']"
    by (simp add: step inst)
  have explicit: "calls selected_session @
      manifest_call ''https://api.zindi.africa/v1/competitions/challenge-2''
        (headers selected_session) (JStr ''mock_token'') #
      map (download_call ''https://api.zindi.africa/v1/competitions/challenge-2'' ''./mock_dataset''
             (dict_set (headers selected_session) ''auth_token'' (JStr ''mock_token'')))
        [''Train.csv''] =
     [Http GET ''https://api.zindi.africa/v1/competitions/challenge-2''
        (JObj [(''headers'', JObj [(''User-Agent'', JStr ''Mozilla/5.0 (Windows NT 10.0; Win64; x64) AppleWebKit/537.36 (KHTML, like Gecko) Chrome/144.0.0.0 Safari/537.36''),
                                   (''auth_token'', JStr ''mock_token'')]),
               (''data'', JObj [(''auth_token'', JStr ''mock_token'')])]),
      Helper ''download''
        (JObj [(''url'', JStr ''https://api.zindi.africa/v1/competitions/challenge-2/files/Train.csv''),
               (''filename'', JStr ''./mock_dataset/Train.csv''),
               (''headers'', JObj [(''User-Agent'', JStr ''Mozilla/5.0 (Windows NT 10.0; Win64; x64) AppleWebKit/537.36 (KHTML, like Gecko) Chrome/144.0.0.0 Safari/537.36''),
                                   (''auth_token'', JStr ''mock_token'')])])]"
    by (simp add: manifest_call_def download_call_def path_join_def selected_session_def
        signed_in_def)
  show ?thesis
    using differ full kept run cs [unfolded explicit]
    by (simp only: simp_thms)
qed

lemma lower_char_c: "lower_char x = CHR ''c'' \<longleftrightarrow> x = CHR ''c'' \<or> x = CHR ''C''"
  by (simp add: lower_char_def)

lemma lower_char_s: "lower_char x = CHR ''s'' \<longleftrightarrow> x = CHR ''s'' \<or> x = CHR ''S''"
  by (simp add: lower_char_def)

lemma lower_char_v: "lower_char x = CHR ''v'' \<longleftrightarrow> x = CHR ''v'' \<or> x = CHR ''V''"
  by (simp add: lower_char_def)

lemma csv_any_case:
  "py_lower t = ''csv'' \<longleftrightarrow>
     t \<in> set [''csv'', ''csV'', ''cSv'', ''cSV'', ''Csv'', ''CsV'', ''CSv'', ''CSV'']"
proof (cases t)
  case Nil
  then show ?thesis by (simp add: py_lower_def)
next
  case (Cons x t1)
  show ?thesis
  proof (cases t1)
    case Nil
    with Cons show ?thesis by (simp add: py_lower_def)
  next
    case (Cons y t2) note c2 = this
    show ?thesis
    proof (cases t2)
      case Nil
      with \<open>t = x # t1\<close> c2 show ?thesis by (simp add: py_lower_def)
    next
      case (Cons z t3)
      with \<open>t = x # t1\<close> c2 show ?thesis
        by (cases t3) (auto simp add: py_lower_def lower_char_c lower_char_s lower_char_v)
    qed
  qed
qed

lemma extension_any_case:
  "extension_of p \<in> set allowed_extensions \<longleftrightarrow>
     py_strip (last (py_split CHR ''.'' p)) \<in>
       set [''csv'', ''csV'', ''cSv'', ''cSV'', ''Csv'', ''CsV'', ''CSv'', ''CSV'']"
  using csv_any_case [of "py_strip (last (py_split CHR ''.'' p))"]
  by (simp only: extension_of_def allowed_extensions_def list.set insert_iff empty_iff simp_thms)

text \<open>
  C5, as the code has it. With a challenge selected, \<^verbatim>\<open>submit\<close> runs the loop body on the
  pairs of file path and comment, in order. The extension of a path is what follows its last
  dot (the whole path when it has no dot), without the white space around it and in lower
  case: it is accepted exactly when, stripped, it is \<^verbatim>\<open>csv\<close> written in capitals or small
  letters. A path whose extension is not accepted and a path that is not a file each add one
  printed diagnostic and the loop goes on with the pairs that remain; so does an upload whose
  response carries \<^verbatim>\<open>errors\<close>, or no \<^verbatim>\<open>errors\<close> and an \<^verbatim>\<open>id\<close>, after its one call. An
  exception of \<^verbatim>\<open>upload\<close> itself, a response without \<^verbatim>\<open>data\<close> and one with neither
  \<^verbatim>\<open>errors\<close> nor \<^verbatim>\<open>id\<close> are not caught: the exception leaves \<^verbatim>\<open>submit\<close> and the pairs that
  remain are not looked at. For the batch \<^verbatim>\<open>a.csv\<close>, \<^verbatim>\<open>b.txt\<close>, \<^verbatim>\<open>missing.csv\<close>, where
  \<^verbatim>\<open>a.csv\<close> is a file and \<^verbatim>\<open>missing.csv\<close> is not, the only call made is the upload of
  \<^verbatim>\<open>a.csv\<close>; when the response to it carries \<^verbatim>\<open>errors\<close> or an \<^verbatim>\<open>id\<close>, the call returns
  normally, having printed the outcome for \<^verbatim>\<open>a.csv\<close> and the two diagnostics; when the
  upload raises, \<^verbatim>\<open>submit\<close> raises the same exception and nothing is printed.
\<close>

theorem submit_batch:
  assumes sel: "challenge_selected s"
    and api: "api s = Some a"
    and tok: "getitem (auth_data s) ''auth_token'' = Inr token"
    and url: "url = a @ ''/submissions''"
    and h: "h = dict_set (headers s) ''auth_token'' token"
    and a: "''a.csv'' \<in> set (files s)"
    and m: "''missing.csv'' \<notin> set (files s)"
    and c0: "c0 = hd (lists s comments @ replicate (3 - length (lists s comments)) [])"
  shows
    "(submit env filepaths comments s =
       for_each (submit_one env url h)
         (zip filepaths
            (lists s comments @ replicate (length filepaths - length (lists s comments)) []))
         (s\<lparr>lists := (lists s)(comments :=
              lists s comments @ replicate (length filepaths - length (lists s comments)) [])\<rparr>)) \<and>
     ((extension_of p \<in> set allowed_extensions) =
       (py_strip (last (py_split CHR ''.'' p)) \<in>
          set [''csv'', ''csV'', ''cSv'', ''cSV'', ''Csv'', ''CsV'', ''CSv'', ''CSV''])) \<and>
     (extension_of p \<notin> set allowed_extensions \<longrightarrow>
       for_each (submit_one env url h) ((p, c) # rest) t =
         for_each (submit_one env url h) rest (t\<lparr>out := out t @ [Must_be_csv p]\<rparr>)) \<and>
     (extension_of p \<in> set allowed_extensions \<and> p \<notin> set (files t) \<longrightarrow>
       for_each (submit_one env url h) ((p, c) # rest) t =
         for_each (submit_one env url h) rest (t\<lparr>out := out t @ [File_doesnt_exist p]\<rparr>)) \<and>
     (extension_of p \<in> set allowed_extensions \<and> p \<in> set (files t) \<and>
       env (calls t) (upload_call p c url h) = Inr response1 \<and>
       getitem response1 ''data'' = Inr d1 \<and> getitem d1 ''errors'' = Inr errs1 \<longrightarrow>
       for_each (submit_one env url h) ((p, c) # rest) t =
         for_each (submit_one env url h) rest
           (t\<lparr>calls := calls t @ [upload_call p c url h],
              out := out t @ [Something_wrong p errs1]\<rparr>)) \<and>
     (extension_of p \<in> set allowed_extensions \<and> p \<in> set (files t) \<and>
       env (calls t) (upload_call p c url h) = Inr response1 \<and>
       getitem response1 ''data'' = Inr d1 \<and> isl (getitem d1 ''errors'') \<and>
       getitem d1 ''id'' = Inr sid1 \<longrightarrow>
       for_each (submit_one env url h) ((p, c) # rest) t =
         for_each (submit_one env url h) rest
           (t\<lparr>calls := calls t @ [upload_call p c url h],
              out := out t @ [File_submitted sid1 p]\<rparr>)) \<and>
     (extension_of p \<in> set allowed_extensions \<and> p \<in> set (files t) \<and>
       env (calls t) (upload_call p c url h) = Inl e1 \<longrightarrow>
       for_each (submit_one env url h) ((p, c) # rest) t =
         (Inl e1, t\<lparr>calls := calls t @ [upload_call p c url h]\<rparr>)) \<and>
     (extension_of p \<in> set allowed_extensions \<and> p \<in> set (files t) \<and>
       env (calls t) (upload_call p c url h) = Inr response1 \<and>
       (getitem response1 ''data'' = Inl e1 \<or>
        getitem response1 ''data'' = Inr d1 \<and> isl (getitem d1 ''errors'') \<and>
        getitem d1 ''id'' = Inl e1) \<longrightarrow>
       for_each (submit_one env url h) ((p, c) # rest) t =
         (Inl e1, t\<lparr>calls := calls t @ [upload_call p c url h]\<rparr>)) \<and>
     (calls (snd (submit env [''a.csv'', ''b.txt'', ''missing.csv''] comments s)) =
       calls s @ [upload_call ''a.csv'' c0 url h]) \<and>
     (env (calls s) (upload_call ''a.csv'' c0 url h) = Inr response \<and>
       getitem response ''data'' = Inr d \<and> getitem d ''errors'' = Inr errs \<longrightarrow>
       fst (submit env [''a.csv'', ''b.txt'', ''missing.csv''] comments s) = Inr () \<and>
       out (snd (submit env [''a.csv'', ''b.txt'', ''missing.csv''] comments s)) =
         out s @ [Something_wrong ''a.csv'' errs, Must_be_csv ''b.txt'',
                  File_doesnt_exist ''missing.csv'']) \<and>
     (env (calls s) (upload_call ''a.csv'' c0 url h) = Inr response \<and>
       getitem response ''data'' = Inr d \<and> isl (getitem d ''errors'') \<and>
       getitem d ''id'' = Inr sid \<longrightarrow>
       fst (submit env [''a.csv'', ''b.txt'', ''missing.csv''] comments s) = Inr () \<and>
       out (snd (submit env [''a.csv'', ''b.txt'', ''missing.csv''] comments s)) =
         out s @ [File_submitted sid ''a.csv'', Must_be_csv ''b.txt'',
                  File_doesnt_exist ''missing.csv'']) \<and>
     (env (calls s) (upload_call ''a.csv'' c0 url h) = Inl e \<longrightarrow>
       fst (submit env [''a.csv'', ''b.txt'', ''missing.csv''] comments s) = Inl e \<and>
       out (snd (submit env [''a.csv'', ''b.txt'', ''missing.csv''] comments s)) = out s)"
proof (intro conjI)
  show "submit env filepaths comments s =
       for_each (submit_one env url h)
         (zip filepaths
            (lists s comments @ replicate (length filepaths - length (lists s comments)) []))
         (s\<lparr>lists := (lists s)(comments :=
              lists s comments @ replicate (length filepaths - length (lists s comments)) [])\<rparr>)"
    unfolding url h by (rule submit_selected [OF sel api tok])
  show "(extension_of p \<in> set allowed_extensions) =
       (py_strip (last (py_split CHR ''.'' p)) \<in>
          set [''csv'', ''csV'', ''cSv'', ''cSV'', ''Csv'', ''CsV'', ''CSv'', ''CSV''])"
    by (rule extension_any_case)
  show "extension_of p \<notin> set allowed_extensions \<longrightarrow>
       for_each (submit_one env url h) ((p, c) # rest) t =
         for_each (submit_one env url h) rest (t\<lparr>out := out t @ [Must_be_csv p]\<rparr>)"
  proof
    assume "extension_of p \<notin> set allowed_extensions"
    then have "submit_one env url h (p, c) t = (Inr (), t\<lparr>out := out t @ [Must_be_csv p]\<rparr>)"
      by (simp only: submit_one_eq if_False)
    then show "for_each (submit_one env url h) ((p, c) # rest) t =
         for_each (submit_one env url h) rest (t\<lparr>out := out t @ [Must_be_csv p]\<rparr>)"
      by (rule submit_step)
  qed
  show "extension_of p \<in> set allowed_extensions \<and> p \<notin> set (files t) \<longrightarrow>
       for_each (submit_one env url h) ((p, c) # rest) t =
         for_each (submit_one env url h) rest (t\<lparr>out := out t @ [File_doesnt_exist p]\<rparr>)"
  proof
    assume "extension_of p \<in> set allowed_extensions \<and> p \<notin> set (files t)"
    then have "submit_one env url h (p, c) t = (Inr (), t\<lparr>out := out t @ [File_doesnt_exist p]\<rparr>)"
      by (simp only: submit_one_eq if_True if_False)
    then show "for_each (submit_one env url h) ((p, c) # rest) t =
         for_each (submit_one env url h) rest (t\<lparr>out := out t @ [File_doesnt_exist p]\<rparr>)"
      by (rule submit_step)
  qed
  show "extension_of p \<in> set allowed_extensions \<and> p \<in> set (files t) \<and>
       env (calls t) (upload_call p c url h) = Inr response1 \<and>
       getitem response1 ''data'' = Inr d1 \<and> getitem d1 ''errors'' = Inr errs1 \<longrightarrow>
       for_each (submit_one env url h) ((p, c) # rest) t =
         for_each (submit_one env url h) rest
           (t\<lparr>calls := calls t @ [upload_call p c url h],
              out := out t @ [Something_wrong p errs1]\<rparr>)"
  proof
    assume "extension_of p \<in> set allowed_extensions \<and> p \<in> set (files t) \<and>
       env (calls t) (upload_call p c url h) = Inr response1 \<and>
       getitem response1 ''data'' = Inr d1 \<and> getitem d1 ''errors'' = Inr errs1"
    then have "submit_one env url h (p, c) t =
        (Inr (), t\<lparr>calls := calls t @ [upload_call p c url h],
              out := out t @ [Something_wrong p errs1]\<rparr>)"
      by (simp only: submit_one_eq if_True sum.case)
    then show "for_each (submit_one env url h) ((p, c) # rest) t =
         for_each (submit_one env url h) rest
           (t\<lparr>calls := calls t @ [upload_call p c url h],
              out := out t @ [Something_wrong p errs1]\<rparr>)"
      by (rule submit_step)
  qed
  show "extension_of p \<in> set allowed_extensions \<and> p \<in> set (files t) \<and>
       env (calls t) (upload_call p c url h) = Inr response1 \<and>
       getitem response1 ''data'' = Inr d1 \<and> isl (getitem d1 ''errors'') \<and>
       getitem d1 ''id'' = Inr sid1 \<longrightarrow>
       for_each (submit_one env url h) ((p, c) # rest) t =
         for_each (submit_one env url h) rest
           (t\<lparr>calls := calls t @ [upload_call p c url h],
              out := out t @ [File_submitted sid1 p]\<rparr>)"
  proof
    assume asm: "extension_of p \<in> set allowed_extensions \<and> p \<in> set (files t) \<and>
       env (calls t) (upload_call p c url h) = Inr response1 \<and>
       getitem response1 ''data'' = Inr d1 \<and> isl (getitem d1 ''errors'') \<and>
       getitem d1 ''id'' = Inr sid1"
    then obtain x where x: "getitem d1 ''errors'' = Inl x"
      by (cases "getitem d1 ''errors''") auto
    have "submit_one env url h (p, c) t =
        (Inr (), t\<lparr>calls := calls t @ [upload_call p c url h],
              out := out t @ [File_submitted sid1 p]\<rparr>)"
      using asm x by (simp only: submit_one_eq if_True sum.case)
    then show "for_each (submit_one env url h) ((p, c) # rest) t =
         for_each (submit_one env url h) rest
           (t\<lparr>calls := calls t @ [upload_call p c url h],
              out := out t @ [File_submitted sid1 p]\<rparr>)"
      by (rule submit_step)
  qed
  show "extension_of p \<in> set allowed_extensions \<and> p \<in> set (files t) \<and>
       env (calls t) (upload_call p c url h) = Inl e1 \<longrightarrow>
       for_each (submit_one env url h) ((p, c) # rest) t =
         (Inl e1, t\<lparr>calls := calls t @ [upload_call p c url h]\<rparr>)"
  proof
    assume "extension_of p \<in> set allowed_extensions \<and> p \<in> set (files t) \<and>
       env (calls t) (upload_call p c url h) = Inl e1"
    then have "submit_one env url h (p, c) t =
        (Inl e1, t\<lparr>calls := calls t @ [upload_call p c url h]\<rparr>)"
      by (simp only: submit_one_eq if_True sum.case)
    then show "for_each (submit_one env url h) ((p, c) # rest) t =
         (Inl e1, t\<lparr>calls := calls t @ [upload_call p c url h]\<rparr>)"
      by (rule submit_stop)
  qed
  show "extension_of p \<in> set allowed_extensions \<and> p \<in> set (files t) \<and>
       env (calls t) (upload_call p c url h) = Inr response1 \<and>
       (getitem response1 ''data'' = Inl e1 \<or>
        getitem response1 ''data'' = Inr d1 \<and> isl (getitem d1 ''errors'') \<and>
        getitem d1 ''id'' = Inl e1) \<longrightarrow>
       for_each (submit_one env url h) ((p, c) # rest) t =
         (Inl e1, t\<lparr>calls := calls t @ [upload_call p c url h]\<rparr>)"
  proof
    assume asm: "extension_of p \<in> set allowed_extensions \<and> p \<in> set (files t) \<and>
       env (calls t) (upload_call p c url h) = Inr response1 \<and>
       (getitem response1 ''data'' = Inl e1 \<or>
        getitem response1 ''data'' = Inr d1 \<and> isl (getitem d1 ''errors'') \<and>
        getitem d1 ''id'' = Inl e1)"
    have "submit_one env url h (p, c) t =
        (Inl e1, t\<lparr>calls := calls t @ [upload_call p c url h]\<rparr>)"
    proof (cases "getitem response1 ''data''")
      case (Inl x)
      with asm show ?thesis by (simp add: submit_one_eq)
    next
      case (Inr y)
      with asm obtain x where "getitem d1 ''errors'' = Inl x" "y = d1" "getitem d1 ''id'' = Inl e1"
        by (cases "getitem d1 ''errors''") auto
      with asm Inr show ?thesis by (simp add: submit_one_eq)
    qed
    then show "for_each (submit_one env url h) ((p, c) # rest) t =
         (Inl e1, t\<lparr>calls := calls t @ [upload_call p c url h]\<rparr>)"
      by (rule submit_stop)
  qed
  from submit_three [OF sel api tok a m, of env comments]
  obtain s0 where s0: "calls s0 = calls s" "out s0 = out s" "files s0 = files s"
    and run: "submit env [''a.csv'', ''b.txt'', ''missing.csv''] comments s =
     (case submit_one env url h (''a.csv'', c0) s0 of
        (Inl e, s') \<Rightarrow> (Inl e, s')
      | (Inr u, s') \<Rightarrow>
          (Inr (), s'\<lparr>out := out s' @ [Must_be_csv ''b.txt'', File_doesnt_exist ''missing.csv'']\<rparr>))"
    unfolding url h c0 by blast
  have a0: "''a.csv'' \<in> set (files s0)" using a s0 by simp
  show "calls (snd (submit env [''a.csv'', ''b.txt'', ''missing.csv''] comments s)) =
       calls s @ [upload_call ''a.csv'' c0 url h]"
  proof (cases "submit_one env url h (''a.csv'', c0) s0")
    case (Pair r s')
    have "calls s' = calls s @ [upload_call ''a.csv'' c0 url h]"
      using upload_a_csv [OF a0, of env url h c0] Pair s0 by simp
    with Pair show ?thesis by (cases r) (simp_all add: run)
  qed
  show "env (calls s) (upload_call ''a.csv'' c0 url h) = Inr response \<and>
       getitem response ''data'' = Inr d \<and> getitem d ''errors'' = Inr errs \<longrightarrow>
       fst (submit env [''a.csv'', ''b.txt'', ''missing.csv''] comments s) = Inr () \<and>
       out (snd (submit env [''a.csv'', ''b.txt'', ''missing.csv''] comments s)) =
         out s @ [Something_wrong ''a.csv'' errs, Must_be_csv ''b.txt'',
                  File_doesnt_exist ''missing.csv'']"
  proof
    assume "env (calls s) (upload_call ''a.csv'' c0 url h) = Inr response \<and>
       getitem response ''data'' = Inr d \<and> getitem d ''errors'' = Inr errs"
    then have "submit_one env url h (''a.csv'', c0) s0 =
        (Inr (), s0\<lparr>calls := calls s0 @ [upload_call ''a.csv'' c0 url h],
              out := out s0 @ [Something_wrong ''a.csv'' errs]\<rparr>)"
      using a0 ext_a_csv s0 by (simp only: submit_one_eq if_True sum.case)
    then show "fst (submit env [''a.csv'', ''b.txt'', ''missing.csv''] comments s) = Inr () \<and>
       out (snd (submit env [''a.csv'', ''b.txt'', ''missing.csv''] comments s)) =
         out s @ [Something_wrong ''a.csv'' errs, Must_be_csv ''b.txt'',
                  File_doesnt_exist ''missing.csv'']"
      using s0 by (simp add: run)
  qed
  show "env (calls s) (upload_call ''a.csv'' c0 url h) = Inr response \<and>
       getitem response ''data'' = Inr d \<and> isl (getitem d ''errors'') \<and>
       getitem d ''id'' = Inr sid \<longrightarrow>
       fst (submit env [''a.csv'', ''b.txt'', ''missing.csv''] comments s) = Inr () \<and>
       out (snd (submit env [''a.csv'', ''b.txt'', ''missing.csv''] comments s)) =
         out s @ [File_submitted sid ''a.csv'', Must_be_csv ''b.txt'',
                  File_doesnt_exist ''missing.csv'']"
  proof
    assume asm: "env (calls s) (upload_call ''a.csv'' c0 url h) = Inr response \<and>
       getitem response ''data'' = Inr d \<and> isl (getitem d ''errors'') \<and>
       getitem d ''id'' = Inr sid"
    then obtain e where e: "getitem d ''errors'' = Inl e"
      by (cases "getitem d ''errors''") auto
    have "submit_one env url h (''a.csv'', c0) s0 =
        (Inr (), s0\<lparr>calls := calls s0 @ [upload_call ''a.csv'' c0 url h],
              out := out s0 @ [File_submitted sid ''a.csv'']\<rparr>)"
      using a0 ext_a_csv s0 asm e by (simp only: submit_one_eq if_True sum.case)
    then show "fst (submit env [''a.csv'', ''b.txt'', ''missing.csv''] comments s) = Inr () \<and>
       out (snd (submit env [''a.csv'', ''b.txt'', ''missing.csv''] comments s)) =
         out s @ [File_submitted sid ''a.csv'', Must_be_csv ''b.txt'',
                  File_doesnt_exist ''missing.csv'']"
      using s0 by (simp add: run)
  qed
  show "env (calls s) (upload_call ''a.csv'' c0 url h) = Inl e \<longrightarrow>
       fst (submit env [''a.csv'', ''b.txt'', ''missing.csv''] comments s) = Inl e \<and>
       out (snd (submit env [''a.csv'', ''b.txt'', ''missing.csv''] comments s)) = out s"
  proof
    assume "env (calls s) (upload_call ''a.csv'' c0 url h) = Inl e"
    then have "submit_one env url h (''a.csv'', c0) s0 =
        (Inl e, s0\<lparr>calls := calls s0 @ [upload_call ''a.csv'' c0 url h]\<rparr>)"
      using a0 ext_a_csv s0 by (simp only: submit_one_eq if_True sum.case)
    then show "fst (submit env [''a.csv'', ''b.txt'', ''missing.csv''] comments s) = Inl e \<and>
       out (snd (submit env [''a.csv'', ''b.txt'', ''missing.csv''] comments s)) = out s"
      using s0 by (simp add: run)
  qed
qed


theorem submit_batch_witness:
  "challenge_selected session_with_file \<and>
   ''a.csv'' \<in> set (files session_with_file) \<and>
   ''missing.csv'' \<notin> set (files session_with_file) \<and>
   extension_of ''b.txt'' \<notin> set allowed_extensions \<and>
   extension_of ''RESULT.CSV'' \<in> set allowed_extensions \<and>
   extension_of (''a.csv'' @ [CHR 0xC2, CHR 0xA0, CHR 0x0A]) \<in> set allowed_extensions \<and>
   calls (snd (submit (always mock_submit_failure) [''a.csv'', ''b.txt'', ''missing.csv''] default_comments session_with_file)) =
     [Helper ''upload''
        (JObj [(''filepath'', JStr ''a.csv''), (''comment'', JStr ''''),
               (''url'', JStr ''https://api.zindi.africa/v1/competitions/challenge-2/submissions''),
               (''headers'', JObj [(''User-Agent'', JStr ''Mozilla/5.0 (Windows NT 10.0; Win64; x64) AppleWebKit/537.36 (KHTML, like Gecko) Chrome/144.0.0.0 Safari/537.36''),
          (''auth_token'', JStr ''mock_token'')])])] \<and>
   fst (submit (always mock_submit_failure) [''a.csv'', ''b.txt'', ''missing.csv''] default_comments session_with_file) = Inr () \<and>
   out (snd (submit (always mock_submit_failure) [''a.csv'', ''b.txt'', ''missing.csv''] default_comments session_with_file)) =
     [Something_wrong ''a.csv'' (JObj [(''base'', JStr ''Submission failed'')]),
      Must_be_csv ''b.txt'', File_doesnt_exist ''missing.csv''] \<and>
   fst (submit (always mock_submit_success) [''a.csv'', ''b.txt'', ''missing.csv''] default_comments session_with_file) = Inr () \<and>
   out (snd (submit (always mock_submit_success) [''a.csv'', ''b.txt'', ''missing.csv''] default_comments session_with_file)) =
     [File_submitted (JStr ''sub-new-123'') ''a.csv'', Must_be_csv ''b.txt'',
      File_doesnt_exist ''missing.csv''] \<and>
   fst (submit no_network [''a.csv'', ''b.txt'', ''missing.csv''] default_comments session_with_file) = Inl (External ''unreachable'') \<and>
   out (snd (submit no_network [''a.csv'', ''b.txt'', ''missing.csv''] default_comments session_with_file)) = [] \<and>
   for_each (submit_one no_network ''https://api.zindi.africa/v1/competitions/challenge-2/submissions''
       [(''User-Agent'', JStr ''Mozilla/5.0 (Windows NT 10.0; Win64; x64) AppleWebKit/537.36 (KHTML, like Gecko) Chrome/144.0.0.0 Safari/537.36''),
          (''auth_token'', JStr ''mock_token'')])
     [(''b.txt'', []), (''missing.csv'', [])] session_with_file =
     for_each (submit_one no_network ''https://api.zindi.africa/v1/competitions/challenge-2/submissions''
       [(''User-Agent'', JStr ''Mozilla/5.0 (Windows NT 10.0; Win64; x64) AppleWebKit/537.36 (KHTML, like Gecko) Chrome/144.0.0.0 Safari/537.36''),
          (''auth_token'', JStr ''mock_token'')])
     [(''missing.csv'', [])] (session_with_file\<lparr>out := [Must_be_csv ''b.txt'']\<rparr>)"
proof -
  have sel: "challenge_selected session_with_file"
    by (simp add: session_with_file_def selected_session_def)
  have api: "api session_with_file = Some ''https://api.zindi.africa/v1/competitions/challenge-2''"
    by (simp add: session_with_file_def selected_session_def)
  have tok: "getitem (auth_data session_with_file) ''auth_token'' = Inr (JStr ''mock_token'')"
    by (simp add: session_with_file_def selected_session_def signed_in_def mock_auth_def)
  have url: "''https://api.zindi.africa/v1/competitions/challenge-2/submissions'' =
      ''https://api.zindi.africa/v1/competitions/challenge-2'' @ ''/submissions''"
    by simp
  have h: "[(''User-Agent'', JStr ''Mozilla/5.0 (Windows NT 10.0; Win64; x64) AppleWebKit/537.36 (KHTML, like Gecko) Chrome/144.0.0.0 Safari/537.36''),
          (''auth_token'', JStr ''mock_token'')] =
      dict_set (headers session_with_file) ''auth_token'' (JStr ''mock_token'')"
    by (simp add: session_with_file_def selected_session_def signed_in_def)
  have a: "''a.csv'' \<in> set (files session_with_file)"
    and m: "''missing.csv'' \<notin> set (files session_with_file)"
    by (simp_all add: session_with_file_def)
  have c0: "[] = hd (lists session_with_file default_comments @
      replicate (3 - length (lists session_with_file default_comments)) [])"
    by (simp add: session_with_file_def selected_session_def signed_in_def numeral_3_eq_3)
  have fresh: "out session_with_file = []" "calls session_with_file = []"
    by (simp_all add: session_with_file_def selected_session_def signed_in_def)
  have explicit: "upload_call ''a.csv'' [] ''https://api.zindi.africa/v1/competitions/challenge-2/submissions''
        [(''User-Agent'', JStr ''Mozilla/5.0 (Windows NT 10.0; Win64; x64) AppleWebKit/537.36 (KHTML, like Gecko) Chrome/144.0.0.0 Safari/537.36''),
          (''auth_token'', JStr ''mock_token'')] =
      Helper ''upload''
        (JObj [(''filepath'', JStr ''a.csv''), (''comment'', JStr ''''),
               (''url'', JStr ''https://api.zindi.africa/v1/competitions/challenge-2/submissions''),
               (''headers'', JObj [(''User-Agent'', JStr ''Mozilla/5.0 (Windows NT 10.0; Win64; x64) AppleWebKit/537.36 (KHTML, like Gecko) Chrome/144.0.0.0 Safari/537.36''),
          (''auth_token'', JStr ''mock_token'')])])"
    by (simp add: upload_call_def)
  have other: "extension_of ''b.txt'' \<notin> set allowed_extensions"
    by (simp add: extension_of_def py_lower_def py_strip_def lower_char_def white_space_def
        allowed_extensions_def)
  have capitals: "py_strip (last (py_split CHR ''.'' ''RESULT.CSV'')) \<in>
      set [''csv'', ''csV'', ''cSv'', ''cSV'', ''Csv'', ''CsV'', ''CSv'', ''CSV'']"
    by (simp add: py_strip_def white_space_def)
  have spaces: "py_strip (last (py_split CHR ''.'' (''a.csv'' @ [CHR 0xC2, CHR 0xA0, CHR 0x0A]))) \<in>
      set [''csv'', ''csV'', ''cSv'', ''cSV'', ''Csv'', ''CsV'', ''CSv'', ''CSV'']"
    by (simp add: py_strip_def white_space_def)
  have failure: "always mock_submit_failure (calls session_with_file)
        (upload_call ''a.csv'' [] ''https://api.zindi.africa/v1/competitions/challenge-2/submissions''
           [(''User-Agent'', JStr ''Mozilla/5.0 (Windows NT 10.0; Win64; x64) AppleWebKit/537.36 (KHTML, like Gecko) Chrome/144.0.0.0 Safari/537.36''),
          (''auth_token'', JStr ''mock_token'')]) = Inr mock_submit_failure \<and>
      getitem mock_submit_failure ''data'' =
        Inr (JObj [(''errors'', JObj [(''base'', JStr ''Submission failed'')])]) \<and>
      getitem (JObj [(''errors'', JObj [(''base'', JStr ''Submission failed'')])]) ''errors'' =
        Inr (JObj [(''base'', JStr ''Submission failed'')])"
    by (simp add: always_def mock_submit_failure_def)
  have success: "always mock_submit_success (calls session_with_file)
        (upload_call ''a.csv'' [] ''https://api.zindi.africa/v1/competitions/challenge-2/submissions''
           [(''User-Agent'', JStr ''Mozilla/5.0 (Windows NT 10.0; Win64; x64) AppleWebKit/537.36 (KHTML, like Gecko) Chrome/144.0.0.0 Safari/537.36''),
          (''auth_token'', JStr ''mock_token'')]) = Inr mock_submit_success \<and>
      getitem mock_submit_success ''data'' = Inr (JObj [(''id'', JStr ''sub-new-123'')]) \<and>
      isl (getitem (JObj [(''id'', JStr ''sub-new-123'')]) ''errors'') \<and>
      getitem (JObj [(''id'', JStr ''sub-new-123'')]) ''id'' = Inr (JStr ''sub-new-123'')"
    by (simp add: always_def mock_submit_success_def)
  have unreachable: "no_network (calls session_with_file)
        (upload_call ''a.csv'' [] ''https://api.zindi.africa/v1/competitions/challenge-2/submissions''
           [(''User-Agent'', JStr ''Mozilla/5.0 (Windows NT 10.0; Win64; x64) AppleWebKit/537.36 (KHTML, like Gecko) Chrome/144.0.0.0 Safari/537.36''),
          (''auth_token'', JStr ''mock_token'')]) = Inl (External ''unreachable'')"
    by (simp add: no_network_def)
  note A = submit_batch [where s = session_with_file
      and a = "''https://api.zindi.africa/v1/competitions/challenge-2''"
      and token = "JStr ''mock_token''" and comments = default_comments and ?c0.0 = "[]"
      and env = "always mock_submit_failure" and filepaths = "[''x.csv'']"
      and p = "''RESULT.CSV''" and response = mock_submit_failure
      and d = "JObj [(''errors'', JObj [(''base'', JStr ''Submission failed'')])]"
      and errs = "JObj [(''base'', JStr ''Submission failed'')]",
      OF sel api tok url h a m c0]
  note B = submit_batch [where s = session_with_file
      and a = "''https://api.zindi.africa/v1/competitions/challenge-2''"
      and token = "JStr ''mock_token''" and comments = default_comments and ?c0.0 = "[]"
      and env = "always mock_submit_success" and filepaths = "[''x.csv'']"
      and p = "''a.csv'' @ [CHR 0xC2, CHR 0xA0, CHR 0x0A]" and response = mock_submit_success
      and d = "JObj [(''id'', JStr ''sub-new-123'')]" and sid = "JStr ''sub-new-123''",
      OF sel api tok url h a m c0]
  note C = submit_batch [where s = session_with_file
      and a = "''https://api.zindi.africa/v1/competitions/challenge-2''"
      and token = "JStr ''mock_token''" and comments = default_comments and ?c0.0 = "[]"
      and env = no_network and filepaths = "[''x.csv'']"
      and p = "''b.txt''" and c = "[]" and rest = "[(''missing.csv'', [])]"
      and t = session_with_file and e = "External ''unreachable''",
      OF sel api tok url h a m c0]
  note w1 = iffD2 [OF A [THEN conjunct2, THEN conjunct1] capitals]
  note w2 = iffD2 [OF B [THEN conjunct2, THEN conjunct1] spaces]
  note w3 = A [THEN conjunct2, THEN conjunct2, THEN conjunct2, THEN conjunct2, THEN conjunct2, THEN conjunct2, THEN conjunct2, THEN conjunct2, THEN conjunct1]
  note w4 = mp [OF A [THEN conjunct2, THEN conjunct2, THEN conjunct2, THEN conjunct2, THEN conjunct2, THEN conjunct2, THEN conjunct2, THEN conjunct2, THEN conjunct2, THEN conjunct1] failure]
  note w5 = mp [OF B [THEN conjunct2, THEN conjunct2, THEN conjunct2, THEN conjunct2, THEN conjunct2, THEN conjunct2, THEN conjunct2, THEN conjunct2, THEN conjunct2, THEN conjunct2, THEN conjunct1] success]
  note w6 = mp [OF C [THEN conjunct2, THEN conjunct2, THEN conjunct2, THEN conjunct2, THEN conjunct2, THEN conjunct2, THEN conjunct2, THEN conjunct2, THEN conjunct2, THEN conjunct2, THEN conjunct2] unreachable]
  note w7 = mp [OF C [THEN conjunct2, THEN conjunct2, THEN conjunct1] other]
  show ?thesis
    using sel a m other w1 w2 w3 [unfolded explicit fresh append_Nil]
      w4 [unfolded fresh append_Nil] w5 [unfolded fresh append_Nil]
      w6 [unfolded fresh] w7 [unfolded fresh append_Nil]
    by (simp only: simp_thms)
qed


text \<open>C5, the cases that refute the sentence as written. When the upload of \<^verbatim>\<open>a.csv\<close>
  raises, \<^verbatim>\<open>submit\<close> raises the same exception: the failure of that file is not printed, and
  neither \<^verbatim>\<open>b.txt\<close> nor \<^verbatim>\<open>missing.csv\<close> gets its diagnostic. And a file named \<^verbatim>\<open>csv\<close>,
  which has no extension, is uploaded: the text after the last dot is the whole name.\<close>

theorem upload_exception_ends_batch:
  "challenge_selected session_with_file \<and>
   ''a.csv'' \<in> set (files session_with_file) \<and>
   ''missing.csv'' \<notin> set (files session_with_file) \<and>
   fst (submit no_network [''a.csv'', ''b.txt'', ''missing.csv''] default_comments session_with_file) =
     Inl (External ''unreachable'') \<and>
   out (snd (submit no_network [''a.csv'', ''b.txt'', ''missing.csv''] default_comments session_with_file)) = [] \<and>
   fst (submit (always mock_submit_success) [''csv''] default_comments
          (selected_session\<lparr>files := [''csv'']\<rparr>)) = Inr () \<and>
   calls (snd (submit (always mock_submit_success) [''csv''] default_comments
          (selected_session\<lparr>files := [''csv'']\<rparr>))) =
     [Helper ''upload''
        (JObj [(''filepath'', JStr ''csv''), (''comment'', JStr []),
               (''url'', JStr ''https://api.zindi.africa/v1/competitions/challenge-2/submissions''),
               (''headers'', JObj [(''User-Agent'', JStr ''Mozilla/5.0 (Windows NT 10.0; Win64; x64) AppleWebKit/537.36 (KHTML, like Gecko) Chrome/144.0.0.0 Safari/537.36''),
          (''auth_token'', JStr ''mock_token'')])])] \<and>
   out (snd (submit (always mock_submit_success) [''csv''] default_comments
          (selected_session\<lparr>files := [''csv'']\<rparr>))) =
     [File_submitted (JStr ''sub-new-123'') ''csv'']"
proof -
  have sel: "challenge_selected session_with_file"
    by (simp add: session_with_file_def selected_session_def)
  have api: "api session_with_file = Some ''https://api.zindi.africa/v1/competitions/challenge-2''"
    by (simp add: session_with_file_def selected_session_def)
  have tok: "getitem (auth_data session_with_file) ''auth_token'' = Inr (JStr ''mock_token'')"
    by (simp add: session_with_file_def selected_session_def signed_in_def mock_auth_def)
  have a: "''a.csv'' \<in> set (files session_with_file)"
    and m: "''missing.csv'' \<notin> set (files session_with_file)"
    by (simp_all add: session_with_file_def)
  have fresh: "lists session_with_file default_comments = []" "out session_with_file = []"
    "calls session_with_file = []"
    by (simp_all add: session_with_file_def selected_session_def signed_in_def)
  have first: "submit_one no_network ''https://api.zindi.africa/v1/competitions/challenge-2/submissions''
      (dict_set (headers session_with_file) ''auth_token'' (JStr ''mock_token''))
      (''a.csv'', [])
      (session_with_file\<lparr>lists := (lists session_with_file)(default_comments := [[], [], []])\<rparr>) =
     (Inl (External ''unreachable''),
      session_with_file\<lparr>lists := (lists session_with_file)(default_comments := [[], [], []]),
        calls := calls session_with_file @ [upload_call ''a.csv'' [] ''https://api.zindi.africa/v1/competitions/challenge-2/submissions''
          (dict_set (headers session_with_file) ''auth_token'' (JStr ''mock_token''))]\<rparr>)"
    using a ext_a_csv by (simp add: submit_one_eq no_network_def)
  have "submit no_network [''a.csv'', ''b.txt'', ''missing.csv''] default_comments session_with_file =
      for_each (submit_one no_network ''https://api.zindi.africa/v1/competitions/challenge-2/submissions''
          (dict_set (headers session_with_file) ''auth_token'' (JStr ''mock_token'')))
        [(''a.csv'', []), (''b.txt'', []), (''missing.csv'', [])]
        (session_with_file\<lparr>lists := (lists session_with_file)(default_comments := [[], [], []])\<rparr>)"
    by (simp add: submit_selected [OF sel api tok] fresh numeral_3_eq_3 del: for_each.simps)
  also have "\<dots> = (Inl (External ''unreachable''),
      session_with_file\<lparr>lists := (lists session_with_file)(default_comments := [[], [], []]),
        calls := calls session_with_file @ [upload_call ''a.csv'' [] ''https://api.zindi.africa/v1/competitions/challenge-2/submissions''
          (dict_set (headers session_with_file) ''auth_token'' (JStr ''mock_token''))]\<rparr>)"
    by (rule submit_stop [OF first])
  finally have raised: "submit no_network [''a.csv'', ''b.txt'', ''missing.csv''] default_comments session_with_file =
     (Inl (External ''unreachable''),
      session_with_file\<lparr>lists := (lists session_with_file)(default_comments := [[], [], []]),
        calls := calls session_with_file @ [upload_call ''a.csv'' [] ''https://api.zindi.africa/v1/competitions/challenge-2/submissions''
          (dict_set (headers session_with_file) ''auth_token'' (JStr ''mock_token''))]\<rparr>)" .
  let ?s = "selected_session\<lparr>files := [''csv'']\<rparr>"
  let ?s1 = "?s\<lparr>lists := (lists ?s)(default_comments := [[]])\<rparr>"
  have sel2: "challenge_selected ?s"
    by (simp add: selected_session_def)
  have api2: "api ?s = Some ''https://api.zindi.africa/v1/competitions/challenge-2''"
    by (simp add: selected_session_def)
  have tok2: "getitem (auth_data ?s) ''auth_token'' = Inr (JStr ''mock_token'')"
    by (simp add: selected_session_def signed_in_def mock_auth_def)
  have fresh2: "lists selected_session default_comments = []" "out selected_session = []"
    "calls selected_session = []" "headers selected_session = [(''User-Agent'', JStr ''Mozilla/5.0 (Windows NT 10.0; Win64; x64) AppleWebKit/537.36 (KHTML, like Gecko) Chrome/144.0.0.0 Safari/537.36'')]"
    by (simp_all add: selected_session_def signed_in_def)
  have ext: "extension_of ''csv'' \<in> set allowed_extensions"
    by (simp add: extension_of_def py_lower_def py_strip_def lower_char_def white_space_def
        allowed_extensions_def)
  have only: "submit_one (always mock_submit_success) ''https://api.zindi.africa/v1/competitions/challenge-2/submissions''
      (dict_set (headers ?s) ''auth_token'' (JStr ''mock_token'')) (''csv'', []) ?s1 =
     (Inr (), ?s1\<lparr>calls := calls ?s1 @ [upload_call ''csv'' [] ''https://api.zindi.africa/v1/competitions/challenge-2/submissions''
          (dict_set (headers ?s) ''auth_token'' (JStr ''mock_token''))],
        out := out ?s1 @ [File_submitted (JStr ''sub-new-123'') ''csv'']\<rparr>)"
    using ext by (simp add: submit_one_eq always_def mock_submit_success_def)
  have "submit (always mock_submit_success) [''csv''] default_comments ?s =
      for_each (submit_one (always mock_submit_success) ''https://api.zindi.africa/v1/competitions/challenge-2/submissions''
          (dict_set (headers ?s) ''auth_token'' (JStr ''mock_token''))) [(''csv'', [])] ?s1"
    by (simp add: submit_selected [OF sel2 api2 tok2] fresh2 del: for_each.simps)
  also have "\<dots> = for_each (submit_one (always mock_submit_success) ''https://api.zindi.africa/v1/competitions/challenge-2/submissions''
          (dict_set (headers ?s) ''auth_token'' (JStr ''mock_token''))) []
        (?s1\<lparr>calls := calls ?s1 @ [upload_call ''csv'' [] ''https://api.zindi.africa/v1/competitions/challenge-2/submissions''
          (dict_set (headers ?s) ''auth_token'' (JStr ''mock_token''))],
        out := out ?s1 @ [File_submitted (JStr ''sub-new-123'') ''csv'']\<rparr>)"
    by (rule submit_step [OF only])
  finally have sent: "submit (always mock_submit_success) [''csv''] default_comments ?s =
      (Inr (), ?s1\<lparr>calls := calls ?s1 @ [upload_call ''csv'' [] ''https://api.zindi.africa/v1/competitions/challenge-2/submissions''
          (dict_set (headers ?s) ''auth_token'' (JStr ''mock_token''))],
        out := out ?s1 @ [File_submitted (JStr ''sub-new-123'') ''csv'']\<rparr>)"
    by (simp add: py_return_def)
  show ?thesis
    using sel a m
    by (simp add: raised sent fresh fresh2 upload_call_def)
qed

end
